theory Spec2Isabelle
  imports Complex_Main "HOL-Library.Sublist"
begin

section \<open>Values of the language\<close>

subsection \<open>Strings\<close>

text \<open>
  A string of the program is a sequence of UTF-16 code units; \<open>length\<close>, \<open>slice\<close> and
  \<open>trim\<close> of the source count and cut code units. A code unit is modelled by its number.
  \<open>lit\<close> turns a literal of the source (ASCII) into such a sequence.
\<close>

type_synonym jsstring = "nat list"

definition lit :: "string \<Rightarrow> jsstring" where
  "lit s = map of_char s"

text \<open>
  \<open>String.prototype.trim\<close> removes white space and line terminators from both ends:
  TAB, LF, VT, FF, CR, SP, NBSP, U+1680, U+2000..U+200A, U+2028, U+2029, U+202F, U+205F,
  U+3000 and U+FEFF.
\<close>

definition isWhiteSpace :: "nat \<Rightarrow> bool" where
  "isWhiteSpace c \<longleftrightarrow>
     (9 \<le> c \<and> c \<le> 13) \<or> c = 32 \<or> c = 160 \<or> c = 5760 \<or> (8192 \<le> c \<and> c \<le> 8202) \<or>
     c = 8232 \<or> c = 8233 \<or> c = 8239 \<or> c = 8287 \<or> c = 12288 \<or> c = 65279"

definition trim :: "jsstring \<Rightarrow> jsstring" where
  "trim s = rev (dropWhile isWhiteSpace (rev (dropWhile isWhiteSpace s)))"

text \<open>\<open>s.slice(0, n)\<close> for \<open>0 \<le> n\<close>.\<close>

definition slice0 :: "nat \<Rightarrow> jsstring \<Rightarrow> jsstring" where
  "slice0 n s = take n s"

text \<open>\<open>xs.join(sep)\<close> on an array of strings.\<close>

fun join :: "jsstring \<Rightarrow> jsstring list \<Rightarrow> jsstring" where
  "join sep [] = []"
| "join sep [x] = x"
| "join sep (x # y # ys) = x @ sep @ join sep (y # ys)"

text \<open>
  The decimal digits of a natural number, and the text a template literal gives an
  integer-valued number (below \<open>10^21\<close> in absolute value, where the language prints
  all the digits).
\<close>

fun digits :: "nat \<Rightarrow> jsstring" where
  "digits n = (if n < 10 then [48 + n] else digits (n div 10) @ [48 + n mod 10])"

declare digits.simps [simp del]

definition showInt :: "int \<Rightarrow> jsstring" where
  "showInt i = (if i < 0 then 45 # digits (nat (- i)) else digits (nat i))"

subsection \<open>Numbers and untyped values\<close>

text \<open>
  A number of the language is a finite double, NaN or an infinity. The finite ones are
  modelled by the real they denote; \<open>Math.floor\<close>, \<open>Math.min\<close>, \<open>Math.max\<close> and the
  comparisons are exact on them. Division and multiplication round their exact result to
  a double: the rounding function is a parameter of the model (\<open>round64\<close> below).
\<close>

datatype number = Finite real | NaN | PosInfinity | NegInfinity

text \<open>A value of type \<open>unknown\<close> (a parsed JSON document, or \<open>undefined\<close>).\<close>

datatype json =
    JUndefined
  | JNull
  | JBool bool
  | JNumber number
  | JString jsstring
  | JArray "json list"
  | JObject "(jsstring \<times> json) list"

text \<open>Truthiness, as \<open>!x\<close>, \<open>x || y\<close> and \<open>if (x)\<close> read it.\<close>

fun truthy :: "json \<Rightarrow> bool" where
  "truthy JUndefined = False"
| "truthy JNull = False"
| "truthy (JBool b) = b"
| "truthy (JNumber (Finite x)) = (x \<noteq> 0)"
| "truthy (JNumber NaN) = False"
| "truthy (JNumber PosInfinity) = True"
| "truthy (JNumber NegInfinity) = True"
| "truthy (JString s) = (s \<noteq> [])"
| "truthy (JArray xs) = True"
| "truthy (JObject kvs) = True"

text \<open>\<open>v.name\<close> on a value that is not null or undefined: \<open>undefined\<close> unless the value
  is an object with that key.\<close>

fun field :: "json \<Rightarrow> string \<Rightarrow> json" where
  "field (JObject kvs) name = (case map_of kvs (lit name) of Some v \<Rightarrow> v | None \<Rightarrow> JUndefined)"
| "field v name = JUndefined"

text \<open>A nullable string (\<open>string | null | undefined\<close>) and \<open>s || ''\<close> on it.\<close>

definition orEmpty :: "jsstring option \<Rightarrow> jsstring" where
  "orEmpty s = (case s of Some t \<Rightarrow> t | None \<Rightarrow> [])"

subsection \<open>Thrown values\<close>

text \<open>
  What a \<open>throw\<close> carries: an \<open>Error\<close> with its message, the cancellation signal
  \<open>TaskTerminatedError\<close>, a \<open>JsonParseError\<close> with its message and the raw text, or a value
  that is not an \<open>Error\<close> (given by its \<open>String(...)\<close>).
\<close>

datatype error =
    Error jsstring
  | TaskTerminatedError
  | JsonParseError jsstring jsstring
  | Thrown jsstring

text \<open>\<open>error instanceof Error ? error : new Error(String(error))\<close>\<close>

fun asError :: "error \<Rightarrow> error" where
  "asError (Thrown s) = Error s"
| "asError e = e"

section \<open>Data of the task handlers\<close>

subsection \<open>The job and the rows the handlers read\<close>

record jobData =
  job_projectId :: jsstring
  job_episodeId :: "jsstring option"
  job_userId :: jsstring
  job_locale :: jsstring
  job_payload :: json

record projectRow =
  project_id :: jsstring
  project_name :: jsstring
  project_mode :: jsstring

record characterRow =
  character_name :: jsstring
  character_introduction :: "jsstring option"

record locationRow =
  location_name :: jsstring

text \<open>\<open>novelPromotionProject.findUnique\<close> with its characters and locations included.\<close>

record novelData =
  novel_id :: jsstring
  characters :: "characterRow list"
  locations :: "locationRow list"

record clipRow =
  clip_id :: jsstring
  clip_content :: json
  clip_characters :: json
  clip_location :: json
  clip_screenplay :: json

record episodeRow =
  episode_id :: jsstring
  novelPromotionProjectId :: jsstring
  novelText :: "jsstring option"
  clips :: "clipRow list"

record voiceLineData =
  vl_episodeId :: jsstring
  vl_lineIndex :: int
  vl_speaker :: jsstring
  vl_content :: jsstring
  vl_emotionStrength :: real
  vl_matchedPanelId :: "jsstring option"
  vl_matchedStoryboardId :: "jsstring option"
  vl_matchedPanelIndex :: "int option"

record voiceLineRow =
  vl_id :: jsstring
  vl_data :: voiceLineData

text \<open>
  The database as the handlers see it: the three tables they look up by key, the
  voice-line table they replace, and the rows of the other tables, which only the
  persistence helpers touch.
\<close>

record database =
  projects :: "jsstring \<rightharpoonup> projectRow"
  novelPromotionProjects :: "jsstring \<rightharpoonup> novelData"
  episodes :: "jsstring \<rightharpoonup> episodeRow"
  voiceLines :: "voiceLineRow list"
  otherRows :: "json list"

subsection \<open>Steps\<close>

record stepMeta =
  stepId :: jsstring
  stepTitle :: jsstring
  stepIndex :: real
  stepTotal :: real
  stepAttempt :: "real option"

record stepOutput =
  out_text :: jsstring
  out_reasoning :: jsstring

record chatOptions =
  opt_temperature :: number
  opt_reasoning :: bool
  opt_reasoningEffort :: jsstring
  opt_projectId :: jsstring
  opt_action :: jsstring
  streamStepId :: jsstring
  streamStepAttempt :: real
  streamStepTitle :: jsstring
  streamStepIndex :: real
  streamStepTotal :: real

subsection \<open>Calls to the outside, in the order they are made\<close>

text \<open>
  Every call a handler makes to a collaborator that acts on the outside is recorded, with
  its arguments, in the order the handler makes it. The calls that write to the database
  are those of \<open>isDbWrite\<close>; \<open>ChatCompletion\<close> is the model call.
\<close>

datatype event =
    AssertTaskActive jsstring
  | ReportTaskProgress int jsstring "stepMeta option"
  | OnProjectNameAvailable jsstring jsstring
  | GetProjectModelConfig jsstring jsstring
  | ResolveCapabilityOptions jsstring jsstring jsstring
  | LogAIAnalysis jsstring jsstring
  | ChatCompletion jsstring jsstring jsstring chatOptions
  | CallbacksFlush
  | PersistAnalyzedCharacters jsstring
  | PersistAnalyzedLocations jsstring
  | PersistClips jsstring
  | ClipUpdate jsstring jsstring
  | PersistStoryboardsAndPanels jsstring
  | Transaction nat
  | VoiceLineDeleteMany jsstring
  | VoiceLineCreate voiceLineData

fun isDbWrite :: "event \<Rightarrow> bool" where
  "isDbWrite (PersistAnalyzedCharacters _) = True"
| "isDbWrite (PersistAnalyzedLocations _) = True"
| "isDbWrite (PersistClips _) = True"
| "isDbWrite (ClipUpdate _ _) = True"
| "isDbWrite (PersistStoryboardsAndPanels _) = True"
| "isDbWrite (Transaction _) = True"
| "isDbWrite (VoiceLineDeleteMany _) = True"
| "isDbWrite (VoiceLineCreate _) = True"
| "isDbWrite _ = False"

fun isChatCompletion :: "event \<Rightarrow> bool" where
  "isChatCompletion (ChatCompletion _ _ _ _) = True"
| "isChatCompletion _ = False"

record world =
  db :: database
  trace :: "event list"

subsection \<open>Computations that may throw\<close>

text \<open>
  An \<open>async\<close> function of the source is a function from the world to a thrown value or a
  result, and the world after it. \<open>andThen\<close> is \<open>await\<close> followed by the rest of the
  function: a throw skips the rest.
\<close>

type_synonym 'a io = "world \<Rightarrow> (error + 'a) \<times> world"

definition succeed :: "'a \<Rightarrow> 'a io" where
  "succeed x = (\<lambda>w. (Inr x, w))"

definition failWith :: "error \<Rightarrow> 'a io" where
  "failWith e = (\<lambda>w. (Inl e, w))"

definition andThen :: "'a io \<Rightarrow> ('a \<Rightarrow> 'b io) \<Rightarrow> 'b io" where
  "andThen m f = (\<lambda>w. case m w of (Inl e, w') \<Rightarrow> (Inl e, w') | (Inr x, w') \<Rightarrow> f x w')"

definition fromEither :: "error + 'a \<Rightarrow> 'a io" where
  "fromEither r = (\<lambda>w. (r, w))"

definition emit :: "event \<Rightarrow> unit io" where
  "emit ev = (\<lambda>w. (Inr (), w\<lparr>trace := trace w @ [ev]\<rparr>))"

definition readDb :: "(database \<Rightarrow> 'a) \<Rightarrow> 'a io" where
  "readDb f = (\<lambda>w. (Inr (f (db w)), w))"

definition onDb :: "(database \<Rightarrow> (error + 'a) \<times> database) \<Rightarrow> 'a io" where
  "onDb f = (\<lambda>w. case f (db w) of (r, d) \<Rightarrow> (r, w\<lparr>db := d\<rparr>))"

text \<open>\<open>try { m } catch (e) { h e }\<close> and \<open>try { m } finally { fin }\<close>.\<close>

definition tryCatch :: "'a io \<Rightarrow> (error \<Rightarrow> 'a io) \<Rightarrow> 'a io" where
  "tryCatch m h = (\<lambda>w. case m w of (Inl e, w') \<Rightarrow> h e w' | (Inr x, w') \<Rightarrow> (Inr x, w'))"

definition tryFinally :: "'a io \<Rightarrow> unit io \<Rightarrow> 'a io" where
  "tryFinally m fin = (\<lambda>w. case m w of (r, w') \<Rightarrow>
     (case fin w' of (Inl e, w'') \<Rightarrow> (Inl e, w'') | (Inr u, w'') \<Rightarrow> (r, w'')))"

subsection \<open>The orchestrators\<close>

text \<open>
  Modelled from the spec: the orchestrators (\<open>runStoryToScriptOrchestrator\<close>,
  \<open>runScriptToStoryboardOrchestrator\<close>) are not among the sources. The spec describes
  an orchestrator as pure sequencing logic that receives \<open>runStep\<close> as an injected
  capability, calls it a finite number of times, may catch what a call throws, and is
  decoupled from persistence and the queue. So an orchestrator run is a tree: it returns, it
  throws, or it calls \<open>runStep(meta, prompt, action, maxOutputTokens)\<close> and goes on
  according to what the call returned or threw.
\<close>

datatype 'r orch =
    Return 'r
  | Throw error
  | RunStep stepMeta jsstring jsstring real "error + stepOutput \<Rightarrow> 'r orch"

primrec runOrch ::
  "(stepMeta \<Rightarrow> jsstring \<Rightarrow> jsstring \<Rightarrow> real \<Rightarrow> stepOutput io) \<Rightarrow> 'r orch \<Rightarrow> 'r io" where
  "runOrch rs (Return r) = succeed r"
| "runOrch rs (Throw e) = failWith e"
| "runOrch rs (RunStep meta prompt action maxOutputTokens k) =
     (\<lambda>w. case rs meta prompt action maxOutputTokens w of (r, w') \<Rightarrow> runOrch rs (k r) w')"

section \<open>Collaborators\<close>

text \<open>
  The handlers call functions that are not among the sources: the queue's liveness check,
  the model client, the configuration resolvers, the prompt templates, the helper modules
  and three functions of the language itself. They are parameters of the model.

  A collaborator that answers from outside the program (\<open>taskTerminated\<close>, the outcome
  of \<open>assertTaskActive\<close>; \<open>chatCompletion\<close> followed by \<open>getCompletionParts\<close>) is a
  function of the calls made so far, the call being answered last: any sequence of
  answers in one run is such a function. \<open>concurrentWrites\<close> is what other actors do to
  the database while a completion call is awaited. \<open>round64\<close> rounds the exact result of
  a division or multiplication to a double.
\<close>

record modelConfig =
  analysisModel :: "jsstring option"

datatype promptId =
    NP_AGENT_CHARACTER_PROFILE
  | NP_SELECT_LOCATION
  | NP_AGENT_CLIP
  | NP_SCREENPLAY_CONVERSION
  | NP_AGENT_STORYBOARD_PLAN
  | NP_AGENT_CINEMATOGRAPHER
  | NP_AGENT_ACTING_DIRECTION
  | NP_AGENT_STORYBOARD_DETAIL
  | NP_VOICE_ANALYSIS

record env =
  round64 :: "real \<Rightarrow> real"
  toLowerCase :: "jsstring \<Rightarrow> jsstring"
  stringify :: "json \<Rightarrow> jsstring"
  taskTerminated :: "event list \<Rightarrow> bool"
  chatCompletion :: "event list \<Rightarrow> error + stepOutput"
  concurrentWrites :: "event list \<Rightarrow> database \<Rightarrow> database"
  getProjectModelConfig :: "jsstring \<Rightarrow> jsstring \<Rightarrow> database \<Rightarrow> error + modelConfig"
  resolveCapabilityOptions :: "jsstring \<Rightarrow> jsstring \<Rightarrow> jsstring \<Rightarrow> database \<Rightarrow> error + json"
  getPromptTemplate :: "promptId \<Rightarrow> jsstring \<Rightarrow> jsstring"
  clipUpdate :: "jsstring \<Rightarrow> jsstring \<Rightarrow> database \<Rightarrow> (error + unit) \<times> database"

subsection \<open>Liveness, progress, the model call\<close>

definition assertTaskActive :: "env \<Rightarrow> jsstring \<Rightarrow> unit io" where
  "assertTaskActive E label =
     andThen (emit (AssertTaskActive label))
       (\<lambda>_ w. if taskTerminated E (trace w) then (Inl TaskTerminatedError, w) else (Inr (), w))"

definition reportTaskProgress :: "int \<Rightarrow> string \<Rightarrow> stepMeta option \<Rightarrow> unit io" where
  "reportTaskProgress percent stage meta = emit (ReportTaskProgress percent (lit stage) meta)"

definition callChatCompletion ::
  "env \<Rightarrow> jsstring \<Rightarrow> jsstring \<Rightarrow> jsstring \<Rightarrow> chatOptions \<Rightarrow> stepOutput io" where
  "callChatCompletion E uid model prompt options =
     andThen (emit (ChatCompletion uid model prompt options))
       (\<lambda>_ w. (chatCompletion E (trace w), w\<lparr>db := concurrentWrites E (trace w) (db w)\<rparr>))"

section \<open>The step runner of the two handlers\<close>

text \<open>
  \<open>15 + Math.min(55, Math.floor((meta.stepIndex / Math.max(1, meta.stepTotal)) * 55))\<close>
\<close>

definition stepProgress :: "env \<Rightarrow> stepMeta \<Rightarrow> int" where
  "stepProgress E meta =
     15 + min 55 \<lfloor>round64 E (round64 E (stepIndex meta / max 1 (stepTotal meta)) * 55)\<rfloor>"

text \<open>\<open>meta.stepAttempt || 1\<close>\<close>

definition attemptOrOne :: "stepMeta \<Rightarrow> real" where
  "attemptOrOne meta = (case stepAttempt meta of Some a \<Rightarrow> if a \<noteq> 0 then a else 1 | None \<Rightarrow> 1)"

text \<open>What the closure captures from the handler.\<close>

record stepContext =
  ctx_userId :: jsstring
  ctx_projectId :: jsstring
  ctx_model :: jsstring
  ctx_temperature :: number
  ctx_reasoning :: bool
  ctx_reasoningEffort :: jsstring

text \<open>
  The \<open>runStep\<close> closures of the two handlers are the same text but for four constants:
  the prefix of the checkpoint label, the stage, and the prefixes of the two log actions.
\<close>

record stepNames =
  checkpointPrefix :: string
  stepStage :: string
  promptActionPrefix :: string
  outputActionPrefix :: string

definition storyToScriptNames :: stepNames where
  "storyToScriptNames =
     \<lparr>checkpointPrefix = ''story_to_script_step:'', stepStage = ''story_to_script_step'',
      promptActionPrefix = ''STORY_TO_SCRIPT_PROMPT:'',
      outputActionPrefix = ''STORY_TO_SCRIPT_OUTPUT:''\<rparr>"

definition scriptToStoryboardNames :: stepNames where
  "scriptToStoryboardNames =
     \<lparr>checkpointPrefix = ''script_to_storyboard_step:'', stepStage = ''script_to_storyboard_step'',
      promptActionPrefix = ''SCRIPT_TO_STORYBOARD_PROMPT:'',
      outputActionPrefix = ''SCRIPT_TO_STORYBOARD_OUTPUT:''\<rparr>"

definition stepOptions :: "stepContext \<Rightarrow> stepMeta \<Rightarrow> jsstring \<Rightarrow> chatOptions" where
  "stepOptions C meta action =
     \<lparr>opt_temperature = ctx_temperature C, opt_reasoning = ctx_reasoning C,
      opt_reasoningEffort = ctx_reasoningEffort C, opt_projectId = ctx_projectId C,
      opt_action = action, streamStepId = stepId meta, streamStepAttempt = attemptOrOne meta,
      streamStepTitle = stepTitle meta, streamStepIndex = stepIndex meta,
      streamStepTotal = stepTotal meta\<rparr>"

definition runStep ::
  "env \<Rightarrow> stepNames \<Rightarrow> stepContext \<Rightarrow> stepMeta \<Rightarrow> jsstring \<Rightarrow> jsstring \<Rightarrow> real \<Rightarrow> stepOutput io" where
  "runStep E N C meta prompt action maxOutputTokens =
     andThen (assertTaskActive E (lit (checkpointPrefix N) @ stepId meta)) (\<lambda>_.
     andThen (reportTaskProgress (stepProgress E meta) (stepStage N) (Some meta)) (\<lambda>_.
     andThen (emit (LogAIAnalysis (lit (promptActionPrefix N) @ action) (ctx_model C))) (\<lambda>_.
     andThen (callChatCompletion E (ctx_userId C) (ctx_model C) prompt (stepOptions C meta action))
       (\<lambda>parts.
     andThen (emit (LogAIAnalysis (lit (outputActionPrefix N) @ action) (ctx_model C))) (\<lambda>_.
     succeed \<lparr>out_text = out_text parts, out_reasoning = out_reasoning parts\<rparr>)))))"

section \<open>Resolving the analysis model\<close>

text \<open>\<open>isReasoningEffort\<close>, and the string a value holds.\<close>

definition isReasoningEffort :: "json \<Rightarrow> bool" where
  "isReasoningEffort v \<longleftrightarrow>
     v = JString (lit ''minimal'') \<or> v = JString (lit ''low'') \<or>
     v = JString (lit ''medium'') \<or> v = JString (lit ''high'')"

definition stringOf :: "json \<Rightarrow> jsstring" where
  "stringOf v = (case v of JString s \<Rightarrow> s | _ \<Rightarrow> [])"

text \<open>
  \<open>requestedReasoningEffort || (isReasoningEffort(capabilityReasoningEffort)
     ? capabilityReasoningEffort : 'high')\<close>
\<close>

definition chooseReasoningEffort :: "jsstring option \<Rightarrow> json \<Rightarrow> jsstring" where
  "chooseReasoningEffort requested capability =
     (if orEmpty requested \<noteq> [] then orEmpty requested
      else if isReasoningEffort capability then stringOf capability else lit ''high'')"

text \<open>\<open>inputModel || projectModelConfig.analysisModel || ''\<close>\<close>

definition chooseModel :: "jsstring \<Rightarrow> modelConfig \<Rightarrow> jsstring" where
  "chooseModel inputModel config =
     (if inputModel \<noteq> [] then inputModel else orEmpty (analysisModel config))"

text \<open>
  The two handlers resolve the model and the reasoning effort by the same statements
  (from the call of \<open>getProjectModelConfig\<close> to \<open>reasoningEffort\<close>).
\<close>

definition resolveModel :: "env \<Rightarrow> jobData \<Rightarrow> jsstring \<Rightarrow> jsstring option \<Rightarrow> (jsstring \<times> jsstring) io" where
  "resolveModel E job inputModel requestedReasoningEffort =
     andThen (emit (GetProjectModelConfig (job_projectId job) (job_userId job))) (\<lambda>_.
     andThen (\<lambda>w. (getProjectModelConfig E (job_projectId job) (job_userId job) (db w), w))
       (\<lambda>projectModelConfig.
     if chooseModel inputModel projectModelConfig = []
     then failWith (Error (lit ''analysisModel is not configured''))
     else
     andThen (emit (ResolveCapabilityOptions (job_projectId job) (job_userId job)
                (chooseModel inputModel projectModelConfig))) (\<lambda>_.
     andThen (\<lambda>w. (resolveCapabilityOptions E (job_projectId job) (job_userId job)
                (chooseModel inputModel projectModelConfig) (db w), w))
       (\<lambda>capabilityReasoningEffort.
     succeed (chooseModel inputModel projectModelConfig,
              chooseReasoningEffort requestedReasoningEffort capabilityReasoningEffort)))))"

text \<open>\<open>job.data.payload || {}\<close>\<close>

definition payloadOf :: "jobData \<Rightarrow> json" where
  "payloadOf job = (if truthy (job_payload job) then job_payload job else JObject [])"

text \<open>The project, its novel data and the existence of the mode, as both handlers load them.\<close>

definition loadProject :: "jobData \<Rightarrow> (projectRow \<times> novelData) io" where
  "loadProject job =
     andThen (readDb (\<lambda>d. projects d (job_projectId job))) (\<lambda>project.
     case project of
       None \<Rightarrow> failWith (Error (lit ''Project not found''))
     | Some p \<Rightarrow>
         if project_mode p \<noteq> lit ''novel-promotion''
         then failWith (Error (lit ''Not a novel promotion project''))
         else
         andThen (emit (OnProjectNameAvailable (job_projectId job) (project_name p))) (\<lambda>_.
         andThen (readDb (\<lambda>d. novelPromotionProjects d (job_projectId job))) (\<lambda>novel.
         case novel of
           None \<Rightarrow> failWith (Error (lit ''Novel promotion data not found''))
         | Some n \<Rightarrow> succeed (p, n))))"

definition loadEpisode :: "jsstring \<Rightarrow> novelData \<Rightarrow> episodeRow io" where
  "loadEpisode eid novel =
     andThen (readDb (\<lambda>d. episodes d eid)) (\<lambda>episode.
     case episode of
       None \<Rightarrow> failWith (Error (lit ''Episode not found''))
     | Some e \<Rightarrow>
         if novelPromotionProjectId e \<noteq> novel_id novel
         then failWith (Error (lit ''Episode not found''))
         else succeed e)"

section \<open>The story-to-script handler\<close>

subsection \<open>What the orchestrator takes and returns\<close>

record storyInput =
  in_content :: jsstring
  baseCharacters :: "jsstring list"
  baseLocations :: "jsstring list"
  baseCharacterIntroductions :: "(jsstring \<times> jsstring) list"
  characterPromptTemplate :: jsstring
  locationPromptTemplate :: jsstring
  clipPromptTemplate :: jsstring
  screenplayPromptTemplate :: jsstring

record screenplayResult =
  sr_clipId :: jsstring
  sr_success :: bool
  sr_screenplay :: json
  sr_error :: "jsstring option"

record storySummary =
  clipCount :: int
  screenplaySuccessCount :: int
  screenplayFailedCount :: int

record storyResult =
  analyzedCharacters :: "json list"
  analyzedLocations :: "json list"
  clipList :: "json list"
  screenplayResults :: "screenplayResult list"
  summary :: storySummary

record createdClip =
  clipKey :: jsstring
  created_id :: jsstring

record storyTaskResult =
  res_episodeId :: jsstring
  res_clipCount :: int
  res_screenplaySuccessCount :: int
  res_screenplayFailedCount :: int
  persistedCharacters :: nat
  persistedLocations :: nat
  persistedClips :: nat

text \<open>The functions of \<open>story-to-script-helpers\<close> and the orchestrator.\<close>

record storyDeps =
  asString :: "json \<Rightarrow> jsstring"
  parseEffort :: "json \<Rightarrow> jsstring option"
  parseTemperature :: "json \<Rightarrow> number"
  persistAnalyzedCharacters ::
    "jsstring \<Rightarrow> jsstring set \<Rightarrow> json list \<Rightarrow> database \<Rightarrow> (error + json list) \<times> database"
  persistAnalyzedLocations ::
    "jsstring \<Rightarrow> jsstring set \<Rightarrow> json list \<Rightarrow> database \<Rightarrow> (error + json list) \<times> database"
  persistClips :: "jsstring \<Rightarrow> json list \<Rightarrow> database \<Rightarrow> (error + createdClip list) \<times> database"
  resolveClipRecordId :: "(jsstring \<rightharpoonup> jsstring) \<Rightarrow> jsstring \<Rightarrow> jsstring option"
  runStoryToScriptOrchestrator :: "storyInput \<Rightarrow> storyResult orch"

subsection \<open>Inputs and checks\<close>

text \<open>\<open>asString(payload.episodeId || job.data.episodeId || '').trim()\<close>\<close>

definition storyEpisodeId :: "storyDeps \<Rightarrow> jobData \<Rightarrow> jsstring" where
  "storyEpisodeId S job =
     trim (asString S
       (if truthy (field (payloadOf job) ''episodeId'') then field (payloadOf job) ''episodeId''
        else JString (orEmpty (job_episodeId job))))"

definition storyInputModel :: "storyDeps \<Rightarrow> jobData \<Rightarrow> jsstring" where
  "storyInputModel S job = trim (asString S (field (payloadOf job) ''model''))"

text \<open>\<open>payload.reasoning !== false\<close>\<close>

definition reasoningFlag :: "jobData \<Rightarrow> bool" where
  "reasoningFlag job \<longleftrightarrow> field (payloadOf job) ''reasoning'' \<noteq> JBool False"

definition storyLoad :: "storyDeps \<Rightarrow> jobData \<Rightarrow> (projectRow \<times> novelData \<times> episodeRow) io" where
  "storyLoad S job =
     (if storyEpisodeId S job = [] then failWith (Error (lit ''episodeId is required''))
      else
      andThen (loadProject job) (\<lambda>(project, novel).
      andThen (loadEpisode (storyEpisodeId S job) novel) (\<lambda>episode.
      succeed (project, novel, episode))))"

text \<open>
  The content to analyse: the payload's content trimmed, or else the episode's novel text;
  it is required, and cut at \<open>maxLength\<close> code units.
\<close>

definition maxLength :: nat where
  "maxLength = 30000"

definition mergedContent :: "jsstring \<Rightarrow> jsstring option \<Rightarrow> jsstring" where
  "mergedContent contentRaw novel_text =
     (if trim contentRaw \<noteq> [] then trim contentRaw else orEmpty novel_text)"

definition storyContent :: "jsstring \<Rightarrow> jsstring option \<Rightarrow> error + jsstring" where
  "storyContent contentRaw novel_text =
     (if trim (mergedContent contentRaw novel_text) = []
      then Inl (Error (lit ''content is required''))
      else Inr (if length (mergedContent contentRaw novel_text) > maxLength
                then slice0 maxLength (mergedContent contentRaw novel_text)
                else mergedContent contentRaw novel_text))"

subsection \<open>Running the orchestrator\<close>

definition storyContext :: "storyDeps \<Rightarrow> jobData \<Rightarrow> jsstring \<Rightarrow> jsstring \<Rightarrow> stepContext" where
  "storyContext S job model effort =
     \<lparr>ctx_userId = job_userId job, ctx_projectId = job_projectId job, ctx_model = model,
      ctx_temperature = parseTemperature S (field (payloadOf job) ''temperature''),
      ctx_reasoning = reasoningFlag job, ctx_reasoningEffort = effort\<rparr>"

definition storyOrchestratorInput :: "env \<Rightarrow> jobData \<Rightarrow> novelData \<Rightarrow> jsstring \<Rightarrow> storyInput" where
  "storyOrchestratorInput E job novel content =
     \<lparr>in_content = content,
      baseCharacters = map character_name (characters novel),
      baseLocations = map location_name (locations novel),
      baseCharacterIntroductions =
        map (\<lambda>item. (character_name item, orEmpty (character_introduction item))) (characters novel),
      characterPromptTemplate = getPromptTemplate E NP_AGENT_CHARACTER_PROFILE (job_locale job),
      locationPromptTemplate = getPromptTemplate E NP_SELECT_LOCATION (job_locale job),
      clipPromptTemplate = getPromptTemplate E NP_AGENT_CLIP (job_locale job),
      screenplayPromptTemplate = getPromptTemplate E NP_SCREENPLAY_CONVERSION (job_locale job)\<rparr>"

text \<open>
  From the report of 10 percent to the orchestrator's result; \<open>callbacks.flush()\<close> runs
  in the \<open>finally\<close>.
\<close>

definition storyRun :: "env \<Rightarrow> storyDeps \<Rightarrow> jobData \<Rightarrow> stepContext \<Rightarrow> novelData \<Rightarrow> jsstring \<Rightarrow> storyResult io" where
  "storyRun E S job C novel content =
     andThen (reportTaskProgress 10 ''story_to_script_prepare'' None) (\<lambda>_.
     tryFinally
       (runOrch (runStep E storyToScriptNames C)
          (runStoryToScriptOrchestrator S (storyOrchestratorInput E job novel content)))
       (emit CallbacksFlush))"

subsection \<open>The partial-failure check\<close>

text \<open>\<open>`${item.clipId}:${item.error || 'unknown error'}`\<close>\<close>

definition failurePreviewItem :: "screenplayResult \<Rightarrow> jsstring" where
  "failurePreviewItem item =
     sr_clipId item @ lit '':'' @
     (if orEmpty (sr_error item) \<noteq> [] then orEmpty (sr_error item) else lit ''unknown error'')"

definition failurePreview :: "storyResult \<Rightarrow> jsstring" where
  "failurePreview result =
     join (lit '' | '')
       (map failurePreviewItem (take 3 (filter (\<lambda>item. \<not> sr_success item) (screenplayResults result))))"

definition partialFailureMessage :: "storyResult \<Rightarrow> jsstring" where
  "partialFailureMessage result =
     lit ''STORY_TO_SCRIPT_PARTIAL_FAILED: '' @ showInt (screenplayFailedCount (summary result)) @
     lit ''/'' @ showInt (clipCount (summary result)) @ lit '' screenplay steps failed. '' @
     failurePreview result"

definition storyPartialFailure :: "storyResult \<Rightarrow> error + unit" where
  "storyPartialFailure result =
     (if screenplayFailedCount (summary result) > 0
      then Inl (Error (partialFailureMessage result))
      else Inr ())"

subsection \<open>Persistence\<close>

text \<open>\<open>new Map(createdClipRows.map((item) => [item.clipKey, item.id]))\<close>: a later row
  replaces an earlier one with the same key.\<close>

definition clipIdMap :: "createdClip list \<Rightarrow> (jsstring \<rightharpoonup> jsstring)" where
  "clipIdMap rows = foldl (\<lambda>m item. m(clipKey item \<mapsto> created_id item)) Map.empty rows"

text \<open>The loop over \<open>result.screenplayResults\<close> that stores each screenplay in its clip.\<close>

fun updateScreenplays :: "env \<Rightarrow> storyDeps \<Rightarrow> (jsstring \<rightharpoonup> jsstring) \<Rightarrow> screenplayResult list \<Rightarrow> unit io" where
  "updateScreenplays E S m [] = succeed ()"
| "updateScreenplays E S m (r # rs) =
     (if \<not> sr_success r \<or> \<not> truthy (sr_screenplay r) then updateScreenplays E S m rs
      else if orEmpty (resolveClipRecordId S m (sr_clipId r)) = [] then updateScreenplays E S m rs
      else
      andThen (emit (ClipUpdate (orEmpty (resolveClipRecordId S m (sr_clipId r)))
                 (stringify E (sr_screenplay r)))) (\<lambda>_.
      andThen (onDb (clipUpdate E (orEmpty (resolveClipRecordId S m (sr_clipId r)))
                 (stringify E (sr_screenplay r)))) (\<lambda>_.
      updateScreenplays E S m rs)))"

definition episodeDeletedMessage :: "jsstring \<Rightarrow> jsstring" where
  "episodeDeletedMessage eid =
     lit ''NOT_FOUND: Episode '' @ eid @ lit '' was deleted while the task was running''"

text \<open>From the report of 80 percent to the handler's result.\<close>

definition storyPersist :: "env \<Rightarrow> storyDeps \<Rightarrow> jsstring \<Rightarrow> novelData \<Rightarrow> storyResult \<Rightarrow> storyTaskResult io" where
  "storyPersist E S eid novel result =
     andThen (reportTaskProgress 80 ''story_to_script_persist'' None) (\<lambda>_.
     andThen (assertTaskActive E (lit ''story_to_script_persist'')) (\<lambda>_.
     andThen (readDb (\<lambda>d. episodes d eid)) (\<lambda>episodeStillExists.
     if episodeStillExists = None then failWith (Error (episodeDeletedMessage eid))
     else
     andThen (emit (PersistAnalyzedCharacters (novel_id novel))) (\<lambda>_.
     andThen (onDb (persistAnalyzedCharacters S (novel_id novel)
                (set (map (\<lambda>item. toLowerCase E (character_name item)) (characters novel)))
                (analyzedCharacters result))) (\<lambda>createdCharacters.
     andThen (emit (PersistAnalyzedLocations (novel_id novel))) (\<lambda>_.
     andThen (onDb (persistAnalyzedLocations S (novel_id novel)
                (set (map (\<lambda>item. toLowerCase E (location_name item)) (locations novel)))
                (analyzedLocations result))) (\<lambda>createdLocations.
     andThen (emit (PersistClips eid)) (\<lambda>_.
     andThen (onDb (persistClips S eid (clipList result))) (\<lambda>createdClipRows.
     andThen (updateScreenplays E S (clipIdMap createdClipRows) (screenplayResults result)) (\<lambda>_.
     andThen (reportTaskProgress 96 ''story_to_script_persist_done'' None) (\<lambda>_.
     succeed
       \<lparr>res_episodeId = eid,
        res_clipCount = clipCount (summary result),
        res_screenplaySuccessCount = screenplaySuccessCount (summary result),
        res_screenplayFailedCount = screenplayFailedCount (summary result),
        persistedCharacters = length createdCharacters,
        persistedLocations = length createdLocations,
        persistedClips = length createdClipRows\<rparr>)))))))))))"

subsection \<open>The handler\<close>

text \<open>
  The handler is one function of 270 lines; it is given here in three parts that follow one
  another: the inputs, the checks, the model and the content (\<open>storyPrepare\<close>); the
  orchestrator (\<open>storyRun\<close> above); the partial-failure check and the persistence
  (\<open>storyFinish\<close>).
\<close>

definition storyPrepare :: "env \<Rightarrow> storyDeps \<Rightarrow> jobData \<Rightarrow> (novelData \<times> stepContext \<times> jsstring) io" where
  "storyPrepare E S job =
     andThen (storyLoad S job) (\<lambda>(project, novel, episode).
     andThen (resolveModel E job (storyInputModel S job)
                (parseEffort S (field (payloadOf job) ''reasoningEffort''))) (\<lambda>(model, effort).
     andThen (fromEither (storyContent (asString S (field (payloadOf job) ''content''))
                (novelText episode))) (\<lambda>content.
     succeed (novel, storyContext S job model effort, content))))"

definition storyFinish :: "env \<Rightarrow> storyDeps \<Rightarrow> jobData \<Rightarrow> novelData \<Rightarrow> storyResult \<Rightarrow> storyTaskResult io" where
  "storyFinish E S job novel result =
     andThen (fromEither (storyPartialFailure result)) (\<lambda>_.
     storyPersist E S (storyEpisodeId S job) novel result)"

definition handleStoryToScriptTask :: "env \<Rightarrow> storyDeps \<Rightarrow> jobData \<Rightarrow> storyTaskResult io" where
  "handleStoryToScriptTask E S job =
     andThen (storyPrepare E S job) (\<lambda>(novel, C, content).
     andThen (storyRun E S job C novel content) (\<lambda>result.
     storyFinish E S job novel result))"

section \<open>The script-to-storyboard handler\<close>

subsection \<open>What the orchestrator and the helpers take and return\<close>

record boardInput =
  in_clips :: "clipRow list"
  in_characters :: "characterRow list"
  in_locations :: "locationRow list"
  phase1PlanTemplate :: jsstring
  phase2CinematographyTemplate :: jsstring
  phase2ActingTemplate :: jsstring
  phase3DetailTemplate :: jsstring

record boardSummary =
  totalStepCount :: real
  totalPanelCount :: real

record boardResult =
  clipPanels :: json
  board_summary :: boardSummary

record panelRef =
  panel_id :: jsstring
  panelIndex :: int

record persistedStoryboard =
  storyboardId :: jsstring
  panels :: "panelRef list"

record boardTaskResult =
  bres_episodeId :: jsstring
  storyboardCount :: nat
  panelCount :: real
  voiceLineCount :: nat

text \<open>
  The functions of \<open>script-to-storyboard-helpers\<close>, the orchestrator, the prompt builder
  and the two builders of prompt variables. \<open>writeStoryboardsAndPanels\<close> is what
  \<open>persistStoryboardsAndPanels\<close> writes and returns once it writes (see below);
  \<open>newVoiceLineId\<close> is the id the database gives a created voice line.
\<close>

record boardDeps =
  b_parseEffort :: "json \<Rightarrow> jsstring option"
  b_parseTemperature :: "json \<Rightarrow> number"
  asJsonRecord :: "json \<Rightarrow> json option"
  toPositiveInt :: "json \<Rightarrow> int option"
  parseVoiceLinesJson :: "jsstring \<Rightarrow> error + json list"
  writeStoryboardsAndPanels ::
    "jsstring \<Rightarrow> json \<Rightarrow> database \<Rightarrow> (error + persistedStoryboard list) \<times> database"
  notFoundDetail :: "jsstring \<Rightarrow> jsstring"
  buildStoryboardJson :: "persistedStoryboard list \<Rightarrow> jsstring"
  buildCharactersIntroduction :: "characterRow list \<Rightarrow> jsstring"
  buildPrompt :: "promptId \<Rightarrow> jsstring \<Rightarrow> (string \<times> jsstring) list \<Rightarrow> jsstring"
  newVoiceLineId :: "event list \<Rightarrow> jsstring"
  runScriptToStoryboardOrchestrator :: "boardInput \<Rightarrow> boardResult orch"

subsection \<open>Inputs and checks\<close>

text \<open>
  \<open>(typeof payload.episodeId === 'string' ? payload.episodeId
      : (job.data.episodeId || '')).trim()\<close>
\<close>

definition boardEpisodeId :: "jobData \<Rightarrow> jsstring" where
  "boardEpisodeId job =
     trim (case field (payloadOf job) ''episodeId'' of
             JString s \<Rightarrow> s
           | _ \<Rightarrow> orEmpty (job_episodeId job))"

text \<open>\<open>typeof payload.model === 'string' ? payload.model.trim() : ''\<close>\<close>

definition boardInputModel :: "jobData \<Rightarrow> jsstring" where
  "boardInputModel job =
     (case field (payloadOf job) ''model'' of JString s \<Rightarrow> trim s | _ \<Rightarrow> [])"

definition boardLoad :: "jobData \<Rightarrow> (projectRow \<times> novelData \<times> episodeRow) io" where
  "boardLoad job =
     (if boardEpisodeId job = [] then failWith (Error (lit ''episodeId is required''))
      else
      andThen (loadProject job) (\<lambda>(project, novel).
      andThen (loadEpisode (boardEpisodeId job) novel) (\<lambda>episode.
      if clips episode = [] then failWith (Error (lit ''No clips found''))
      else succeed (project, novel, episode))))"

subsection \<open>Running the orchestrator\<close>

definition boardContext :: "boardDeps \<Rightarrow> jobData \<Rightarrow> jsstring \<Rightarrow> jsstring \<Rightarrow> stepContext" where
  "boardContext B job model effort =
     \<lparr>ctx_userId = job_userId job, ctx_projectId = job_projectId job, ctx_model = model,
      ctx_temperature = b_parseTemperature B (field (payloadOf job) ''temperature''),
      ctx_reasoning = reasoningFlag job, ctx_reasoningEffort = effort\<rparr>"

definition boardOrchestratorInput :: "env \<Rightarrow> jobData \<Rightarrow> novelData \<Rightarrow> episodeRow \<Rightarrow> boardInput" where
  "boardOrchestratorInput E job novel episode =
     \<lparr>in_clips = clips episode,
      in_characters = characters novel,
      in_locations = locations novel,
      phase1PlanTemplate = getPromptTemplate E NP_AGENT_STORYBOARD_PLAN (job_locale job),
      phase2CinematographyTemplate = getPromptTemplate E NP_AGENT_CINEMATOGRAPHER (job_locale job),
      phase2ActingTemplate = getPromptTemplate E NP_AGENT_ACTING_DIRECTION (job_locale job),
      phase3DetailTemplate = getPromptTemplate E NP_AGENT_STORYBOARD_DETAIL (job_locale job)\<rparr>"

text \<open>The \<open>catch\<close> around the orchestrator: a \<open>JsonParseError\<close> is logged, and
  whatever was caught is thrown again.\<close>

definition logParseError :: "stepContext \<Rightarrow> error \<Rightarrow> boardResult io" where
  "logParseError C err =
     (case err of
        JsonParseError message rawText \<Rightarrow>
          andThen (emit (LogAIAnalysis (lit ''SCRIPT_TO_STORYBOARD_PARSE_ERROR'') (ctx_model C)))
            (\<lambda>_. failWith err)
      | _ \<Rightarrow> failWith err)"

text \<open>From the report of 10 percent to the orchestrator's result.\<close>

definition boardRun :: "env \<Rightarrow> boardDeps \<Rightarrow> jobData \<Rightarrow> stepContext \<Rightarrow> novelData \<Rightarrow> episodeRow \<Rightarrow> boardResult io" where
  "boardRun E B job C novel episode =
     andThen (reportTaskProgress 10 ''script_to_storyboard_prepare'' None) (\<lambda>_.
     tryFinally
       (tryCatch
          (runOrch (runStep E scriptToStoryboardNames C)
             (runScriptToStoryboardOrchestrator B (boardOrchestratorInput E job novel episode)))
          (logParseError C))
       (emit CallbacksFlush))"

subsection \<open>Persisting the storyboards\<close>

text \<open>
  Modelled from the spec: \<open>persistStoryboardsAndPanels\<close> is not among the sources. The
  spec says that before writing results the task handler re-verifies that the episode still
  exists, and that writing into a vanished parent fails with a \<open>NOT_FOUND\<close>-prefixed error
  rather than producing an orphaned row. The handler's own text has no such check before
  this call, so the check is placed in the helper: it looks the episode up, throws an
  \<open>Error\<close> whose message starts with \<open>NOT_FOUND\<close> when it is gone, and otherwise writes.
  The rest of the message, the rows written and the storyboards returned are parameters.
\<close>

definition persistStoryboardsAndPanels :: "boardDeps \<Rightarrow> jsstring \<Rightarrow> json \<Rightarrow> persistedStoryboard list io" where
  "persistStoryboardsAndPanels B eid clip_panels =
     andThen (readDb (\<lambda>d. episodes d eid)) (\<lambda>episodeStillExists.
     if episodeStillExists = None then failWith (Error (lit ''NOT_FOUND'' @ notFoundDetail B eid))
     else
     andThen (emit (PersistStoryboardsAndPanels eid)) (\<lambda>_.
     onDb (writeStoryboardsAndPanels B eid clip_panels)))"

text \<open>From the report of 80 percent to the persisted storyboards.\<close>

definition boardPersistStoryboards :: "env \<Rightarrow> boardDeps \<Rightarrow> jsstring \<Rightarrow> boardResult \<Rightarrow> persistedStoryboard list io" where
  "boardPersistStoryboards E B eid orchestratorResult =
     andThen (reportTaskProgress 80 ''script_to_storyboard_persist'' None) (\<lambda>_.
     andThen (assertTaskActive E (lit ''script_to_storyboard_persist'')) (\<lambda>_.
     persistStoryboardsAndPanels B eid (clipPanels orchestratorResult)))"

subsection \<open>The voice analysis and its retry\<close>

text \<open>The separator U+3001 and the word U+65E0 of the prompt variable
  \<open>characters_lib_name\<close>.\<close>

definition charactersLibName :: "novelData \<Rightarrow> jsstring" where
  "charactersLibName novel =
     (if length (characters novel) > 0 then join [12289] (map character_name (characters novel))
      else [26080])"

definition voicePrompt :: "boardDeps \<Rightarrow> jobData \<Rightarrow> novelData \<Rightarrow> episodeRow \<Rightarrow> persistedStoryboard list \<Rightarrow> jsstring" where
  "voicePrompt B job novel episode persistedStoryboards =
     buildPrompt B NP_VOICE_ANALYSIS (job_locale job)
       [(''input'', orEmpty (novelText episode)),
        (''characters_lib_name'', charactersLibName novel),
        (''characters_introduction'', buildCharactersIntroduction B (characters novel)),
        (''storyboard_json'', buildStoryboardJson B persistedStoryboards)]"

definition voiceStepMeta :: "boardResult \<Rightarrow> stepMeta" where
  "voiceStepMeta orchestratorResult =
     \<lparr>stepId = lit ''voice_analyze'', stepTitle = lit ''progress.streamStep.voiceAnalyze'',
      stepIndex = totalStepCount (board_summary orchestratorResult),
      stepTotal = totalStepCount (board_summary orchestratorResult),
      stepAttempt = None\<rparr>"

text \<open>The \<open>meta\<close> of one attempt.\<close>

definition voiceAttemptMeta :: "stepMeta \<Rightarrow> nat \<Rightarrow> stepMeta" where
  "voiceAttemptMeta meta voiceAttempt =
     (if voiceAttempt = 1 then meta
      else meta\<lparr>stepId := lit ''voice_analyze_r'' @ showInt (int voiceAttempt),
                stepTitle := stepTitle meta\<rparr>)"

text \<open>The body of the \<open>try\<close>: one attempt, the step and the parsing of its text.\<close>

definition voiceTry ::
  "env \<Rightarrow> boardDeps \<Rightarrow> stepContext \<Rightarrow> jsstring \<Rightarrow> stepMeta \<Rightarrow> nat \<Rightarrow> json list io" where
  "voiceTry E B C prompt meta voiceAttempt =
     andThen (runStep E scriptToStoryboardNames C (voiceAttemptMeta meta voiceAttempt)
                prompt (lit ''voice_analyze'') 2600)
       (\<lambda>voiceOutput. fromEither (parseVoiceLinesJson B (out_text voiceOutput)))"

text \<open>
  The loop \<open>for (let voiceAttempt = 1; voiceAttempt <= 2; voiceAttempt++)\<close> and the
  \<open>throw voiceLastError!\<close> after it; the \<open>break\<close> is the return of the rows.
\<close>

function voiceLoop ::
  "env \<Rightarrow> boardDeps \<Rightarrow> stepContext \<Rightarrow> jsstring \<Rightarrow> stepMeta \<Rightarrow> nat \<Rightarrow> error option \<Rightarrow> json list io" where
  "voiceLoop E B C prompt meta voiceAttempt voiceLastError =
     (if voiceAttempt \<le> 2
      then tryCatch (voiceTry E B C prompt meta voiceAttempt)
             (\<lambda>err. if err = TaskTerminatedError then failWith err
                     else voiceLoop E B C prompt meta (voiceAttempt + 1) (Some (asError err)))
      else (case voiceLastError of
              Some err \<Rightarrow> failWith err
            | None \<Rightarrow> failWith (Thrown (lit ''null''))))"
  by pat_completeness auto
termination
  by (relation "measure (\<lambda>(E, B, C, prompt, meta, voiceAttempt, voiceLastError). 3 - voiceAttempt)") auto

declare voiceLoop.simps [simp del]

text \<open>From the check of the novel text to the parsed voice lines.\<close>

definition boardVoiceAnalyze ::
  "env \<Rightarrow> boardDeps \<Rightarrow> jobData \<Rightarrow> stepContext \<Rightarrow> novelData \<Rightarrow> episodeRow \<Rightarrow> boardResult \<Rightarrow>
   persistedStoryboard list \<Rightarrow> json list io" where
  "boardVoiceAnalyze E B job C novel episode orchestratorResult persistedStoryboards =
     (if trim (orEmpty (novelText episode)) = []
      then failWith (Error (lit ''No novel text to analyze''))
      else voiceLoop E B C (voicePrompt B job novel episode persistedStoryboards)
             (voiceStepMeta orchestratorResult) 1 None)"

subsection \<open>Persisting the voice lines\<close>

text \<open>\<open>`${storyboardId}:${panelIndex}`\<close>\<close>

definition panelKey :: "jsstring \<Rightarrow> int \<Rightarrow> jsstring" where
  "panelKey sid idx = sid @ lit '':'' @ showInt idx"

text \<open>The \<open>Map\<close> filled by the two nested loops over the persisted storyboards and their
  panels; a later \<open>set\<close> replaces an earlier one of the same key.\<close>

definition setPanels :: "(jsstring \<rightharpoonup> jsstring) \<Rightarrow> persistedStoryboard \<Rightarrow> (jsstring \<rightharpoonup> jsstring)" where
  "setPanels m storyboard =
     foldl (\<lambda>m' panel. m'(panelKey (storyboardId storyboard) (panelIndex panel) \<mapsto> panel_id panel))
       m (panels storyboard)"

definition panelIdByStoryboardPanel :: "persistedStoryboard list \<Rightarrow> (jsstring \<rightharpoonup> jsstring)" where
  "panelIdByStoryboardPanel persistedStoryboards = foldl setPanels Map.empty persistedStoryboards"

text \<open>\<open>`voice line ${i + 1} ...`\<close>\<close>

definition voiceLineError :: "nat \<Rightarrow> string \<Rightarrow> error" where
  "voiceLineError i what = Error (lit ''voice line '' @ showInt (int i + 1) @ lit what)"

text \<open>\<open>voiceLineRows[i] || {}\<close>\<close>

definition rowOrEmpty :: "json \<Rightarrow> json" where
  "rowOrEmpty row = (if truthy row then row else JObject [])"

text \<open>
  \<open>matchedPanel && typeof matchedPanel.storyboardId === 'string'
     ? matchedPanel.storyboardId.trim() : null\<close> and
  \<open>matchedPanel ? toPositiveInt(matchedPanel.panelIndex) : null\<close>
\<close>

definition matchedStoryboardIdOf :: "json option \<Rightarrow> jsstring option" where
  "matchedStoryboardIdOf matchedPanel =
     (case matchedPanel of
        None \<Rightarrow> None
      | Some mp \<Rightarrow> (case field mp ''storyboardId'' of JString s \<Rightarrow> Some (trim s) | _ \<Rightarrow> None))"

definition matchedPanelIndexOf :: "boardDeps \<Rightarrow> json option \<Rightarrow> int option" where
  "matchedPanelIndexOf B matchedPanel =
     (case matchedPanel of None \<Rightarrow> None | Some mp \<Rightarrow> toPositiveInt B (field mp ''panelIndex''))"

text \<open>The panel a voice line refers to: \<open>null\<close> when the row has no \<open>matchedPanel\<close>, and
  a throw when it has one that does not resolve.\<close>

definition missingPanelError :: "nat \<Rightarrow> jsstring \<Rightarrow> error" where
  "missingPanelError i key =
     Error (lit ''voice line '' @ showInt (int i + 1) @ lit '' references non-existent panel '' @ key)"

definition resolveMatchedPanel ::
  "boardDeps \<Rightarrow> (jsstring \<rightharpoonup> jsstring) \<Rightarrow> nat \<Rightarrow> json \<Rightarrow> error + jsstring option" where
  "resolveMatchedPanel B panelMap i row =
     (case asJsonRecord B (field row ''matchedPanel'') of
        None \<Rightarrow> Inr None
      | Some matchedPanel \<Rightarrow>
          (case matchedPanelIndexOf B (Some matchedPanel) of
             None \<Rightarrow> Inl (voiceLineError i '' has invalid matchedPanel reference'')
           | Some matchedPanelIndex \<Rightarrow>
               if orEmpty (matchedStoryboardIdOf (Some matchedPanel)) = []
               then Inl (voiceLineError i '' has invalid matchedPanel reference'')
               else
                 (case panelMap (panelKey (orEmpty (matchedStoryboardIdOf (Some matchedPanel)))
                         matchedPanelIndex) of
                    None \<Rightarrow>
                      Inl (missingPanelError i
                            (panelKey (orEmpty (matchedStoryboardIdOf (Some matchedPanel)))
                               matchedPanelIndex))
                  | Some resolvedPanelId \<Rightarrow>
                      if resolvedPanelId = []
                      then Inl (missingPanelError i
                                 (panelKey (orEmpty (matchedStoryboardIdOf (Some matchedPanel)))
                                    matchedPanelIndex))
                      else Inr (Some resolvedPanelId))))"

text \<open>
  The checks of one row and the data of its \<open>create\<close>, in the order of the source: the
  matched panel, \<open>emotionStrength\<close> (a finite number, then clamped between the double
  \<open>0.1\<close> and 1), \<open>lineIndex\<close> (a finite number whose floor is positive), \<open>speaker\<close> and
  \<open>content\<close> (strings that are not empty once trimmed).
\<close>

definition voiceLineOfRow ::
  "env \<Rightarrow> boardDeps \<Rightarrow> (jsstring \<rightharpoonup> jsstring) \<Rightarrow> jsstring \<Rightarrow> nat \<Rightarrow> json \<Rightarrow> error + voiceLineData" where
  "voiceLineOfRow E B panelMap eid i row =
     (case resolveMatchedPanel B panelMap i row of
        Inl err \<Rightarrow> Inl err
      | Inr matchedPanelId \<Rightarrow>
     (case field row ''emotionStrength'' of
        JNumber (Finite emotion) \<Rightarrow>
     (case field row ''lineIndex'' of
        JNumber (Finite line) \<Rightarrow>
          if \<lfloor>line\<rfloor> \<le> 0 then Inl (voiceLineError i '' has invalid lineIndex'')
          else
     (case field row ''speaker'' of
        JString speaker \<Rightarrow>
          if trim speaker = [] then Inl (voiceLineError i '' is missing valid speaker'')
          else
     (case field row ''content'' of
        JString content \<Rightarrow>
          if trim content = [] then Inl (voiceLineError i '' is missing valid content'')
          else
            Inr \<lparr>vl_episodeId = eid,
                 vl_lineIndex = \<lfloor>line\<rfloor>,
                 vl_speaker = trim speaker,
                 vl_content = content,
                 vl_emotionStrength = min 1 (max (round64 E (1 / 10)) emotion),
                 vl_matchedPanelId = matchedPanelId,
                 vl_matchedStoryboardId =
                   (if matchedPanelId \<noteq> None
                    then matchedStoryboardIdOf (asJsonRecord B (field row ''matchedPanel''))
                    else None),
                 vl_matchedPanelIndex =
                   matchedPanelIndexOf B (asJsonRecord B (field row ''matchedPanel''))\<rparr>
      | _ \<Rightarrow> Inl (voiceLineError i '' is missing valid content''))
      | _ \<Rightarrow> Inl (voiceLineError i '' is missing valid speaker''))
      | _ \<Rightarrow> Inl (voiceLineError i '' is missing valid lineIndex''))
      | _ \<Rightarrow> Inl (voiceLineError i '' is missing valid emotionStrength'')))"

text \<open>\<open>tx.novelPromotionVoiceLine.deleteMany({ where: { episodeId } })\<close> and
  \<open>tx.novelPromotionVoiceLine.create({ data, select: { id: true } })\<close>.\<close>

definition voiceLineDeleteMany :: "jsstring \<Rightarrow> unit io" where
  "voiceLineDeleteMany eid =
     andThen (emit (VoiceLineDeleteMany eid))
       (\<lambda>_ w. (Inr (),
          w\<lparr>db := (db w)\<lparr>voiceLines :=
            filter (\<lambda>r. vl_episodeId (vl_data r) \<noteq> eid) (voiceLines (db w))\<rparr>\<rparr>))"

definition voiceLineCreate :: "boardDeps \<Rightarrow> voiceLineData \<Rightarrow> jsstring io" where
  "voiceLineCreate B d =
     andThen (emit (VoiceLineCreate d))
       (\<lambda>_ w. (Inr (newVoiceLineId B (trace w)),
          w\<lparr>db := (db w)\<lparr>voiceLines :=
            voiceLines (db w) @ [\<lparr>vl_id = newVoiceLineId B (trace w), vl_data = d\<rparr>]\<rparr>\<rparr>))"

text \<open>The loop over \<open>voiceLineRows\<close> from index \<open>i\<close>; it returns the created ids in order.\<close>

fun createVoiceLines ::
  "env \<Rightarrow> boardDeps \<Rightarrow> (jsstring \<rightharpoonup> jsstring) \<Rightarrow> jsstring \<Rightarrow> nat \<Rightarrow> json list \<Rightarrow> jsstring list io" where
  "createVoiceLines E B panelMap eid i [] = succeed []"
| "createVoiceLines E B panelMap eid i (row # rows) =
     andThen (fromEither (voiceLineOfRow E B panelMap eid i (rowOrEmpty row))) (\<lambda>d.
     andThen (voiceLineCreate B d) (\<lambda>createdRow.
     andThen (createVoiceLines E B panelMap eid (Suc i) rows) (\<lambda>created.
     succeed (createdRow # created))))"

text \<open>
  \<open>prisma.$transaction(callback, { timeout })\<close> of the database library: the callback's
  writes are kept when it returns and undone together when it throws, and what it threw is
  thrown on. The time limit is recorded with the call; that the library aborts a
  transaction which runs longer is not modelled.
\<close>

definition transaction :: "nat \<Rightarrow> 'a io \<Rightarrow> 'a io" where
  "transaction timeout callback =
     andThen (emit (Transaction timeout))
       (\<lambda>_ w. case callback w of
                 (Inl err, w') \<Rightarrow> (Inl err, w'\<lparr>db := db w\<rparr>)
               | (Inr x, w') \<Rightarrow> (Inr x, w'))"

text \<open>From the checkpoint before the voice lines to the created rows.\<close>

definition boardPersistVoiceLines ::
  "env \<Rightarrow> boardDeps \<Rightarrow> jsstring \<Rightarrow> persistedStoryboard list \<Rightarrow> json list \<Rightarrow> jsstring list io" where
  "boardPersistVoiceLines E B eid persistedStoryboards voiceLineRows =
     andThen (assertTaskActive E (lit ''script_to_storyboard_voice_persist'')) (\<lambda>_.
     transaction 15000
       (andThen (voiceLineDeleteMany eid) (\<lambda>_.
        createVoiceLines E B (panelIdByStoryboardPanel persistedStoryboards) eid 0 voiceLineRows)))"

subsection \<open>The handler\<close>

text \<open>
  The handler in three parts that follow one another: the inputs, the checks and the model
  (\<open>boardPrepare\<close>); the orchestrator (\<open>boardRun\<close> above); the persistence of the
  storyboards, the voice analysis and the persistence of the voice lines (\<open>boardFinish\<close>).
\<close>

definition boardPrepare :: "env \<Rightarrow> boardDeps \<Rightarrow> jobData \<Rightarrow> (novelData \<times> episodeRow \<times> stepContext) io" where
  "boardPrepare E B job =
     andThen (boardLoad job) (\<lambda>(project, novel, episode).
     andThen (resolveModel E job (boardInputModel job)
                (b_parseEffort B (field (payloadOf job) ''reasoningEffort''))) (\<lambda>(model, effort).
     succeed (novel, episode, boardContext B job model effort)))"

definition boardResultOf :: "jobData \<Rightarrow> boardResult \<Rightarrow> persistedStoryboard list \<Rightarrow> jsstring list \<Rightarrow> boardTaskResult" where
  "boardResultOf job orchestratorResult persistedStoryboards createdVoiceLines =
     \<lparr>bres_episodeId = boardEpisodeId job,
      storyboardCount = length persistedStoryboards,
      panelCount = totalPanelCount (board_summary orchestratorResult),
      voiceLineCount = length createdVoiceLines\<rparr>"

definition boardFinish ::
  "env \<Rightarrow> boardDeps \<Rightarrow> jobData \<Rightarrow> stepContext \<Rightarrow> novelData \<Rightarrow> episodeRow \<Rightarrow> boardResult \<Rightarrow> boardTaskResult io" where
  "boardFinish E B job C novel episode orchestratorResult =
     andThen (boardPersistStoryboards E B (boardEpisodeId job) orchestratorResult)
       (\<lambda>persistedStoryboards.
     andThen (boardVoiceAnalyze E B job C novel episode orchestratorResult persistedStoryboards)
       (\<lambda>voiceLineRows.
     andThen (boardPersistVoiceLines E B (boardEpisodeId job) persistedStoryboards voiceLineRows)
       (\<lambda>createdVoiceLines.
     andThen (reportTaskProgress 96 ''script_to_storyboard_persist_done'' None) (\<lambda>_.
     succeed (boardResultOf job orchestratorResult persistedStoryboards createdVoiceLines)))))"

definition handleScriptToStoryboardTask :: "env \<Rightarrow> boardDeps \<Rightarrow> jobData \<Rightarrow> boardTaskResult io" where
  "handleScriptToStoryboardTask E B job =
     andThen (boardPrepare E B job) (\<lambda>(novel, episode, C).
     andThen (boardRun E B job C novel episode) (\<lambda>orchestratorResult.
     boardFinish E B job C novel episode orchestratorResult))"

section \<open>Checkpoints in a sequence of calls\<close>

text \<open>
  A sequence of calls respects the checkpoints when every model call and every write to the
  database is made \<^emph>\<open>cleared\<close>: the last \<open>assertTaskActive\<close> before it found the task
  active (given the calls made until then), and no model call was made since.
  \<open>checkpointsOk E h c evs\<close> reads the calls \<open>evs\<close> that follow the history \<open>h\<close>, starting
  cleared or not according to \<open>c\<close>; \<open>clearedAfter\<close> is the state they end in.
\<close>

fun isAssert :: "event \<Rightarrow> bool" where
  "isAssert (AssertTaskActive l) = True"
| "isAssert ev = False"

fun clearedBy :: "env \<Rightarrow> event list \<Rightarrow> bool \<Rightarrow> event \<Rightarrow> bool" where
  "clearedBy E h c (AssertTaskActive l) = (\<not> taskTerminated E (h @ [AssertTaskActive l]))"
| "clearedBy E h c (ChatCompletion u m p opts) = False"
| "clearedBy E h c ev = c"

fun checkpointsOk :: "env \<Rightarrow> event list \<Rightarrow> bool \<Rightarrow> event list \<Rightarrow> bool" where
  "checkpointsOk E h c [] = True"
| "checkpointsOk E h c (ev # evs) =
     ((if isChatCompletion ev \<or> isDbWrite ev then c else True) \<and>
      checkpointsOk E (h @ [ev]) (clearedBy E h c ev) evs)"

fun clearedAfter :: "env \<Rightarrow> event list \<Rightarrow> bool \<Rightarrow> event list \<Rightarrow> bool" where
  "clearedAfter E h c [] = c"
| "clearedAfter E h c (ev # evs) = clearedAfter E (h @ [ev]) (clearedBy E h c ev) evs"

text \<open>
  A computation \<open>emits P\<close> when it only adds calls that satisfy \<open>P\<close> to the trace, and is
  \<open>safe\<close> when the calls it adds respect the checkpoints whatever the state it starts in.
  \<open>followedBy\<close> runs a computation and hands its outcome, thrown or returned, to the next.
\<close>

definition emits :: "(event \<Rightarrow> bool) \<Rightarrow> 'a io \<Rightarrow> bool" where
  "emits P m \<longleftrightarrow> (\<forall>w. \<exists>evs. trace (snd (m w)) = trace w @ evs \<and> list_all P evs)"

definition safe :: "env \<Rightarrow> 'a io \<Rightarrow> bool" where
  "safe E m \<longleftrightarrow>
     (\<forall>w c. \<exists>evs. trace (snd (m w)) = trace w @ evs \<and> checkpointsOk E (trace w) c evs)"

definition isWrite :: "event \<Rightarrow> bool" where
  "isWrite ev \<longleftrightarrow> \<not> isChatCompletion ev \<and> \<not> isAssert ev"

definition isQuiet :: "event \<Rightarrow> bool" where
  "isQuiet ev \<longleftrightarrow> \<not> isChatCompletion ev \<and> \<not> isAssert ev \<and> \<not> isDbWrite ev"

definition followedBy :: "'a io \<Rightarrow> (error + 'a \<Rightarrow> 'b io) \<Rightarrow> 'b io" where
  "followedBy m g = (\<lambda>w. case m w of (r, w') \<Rightarrow> g r w')"

text \<open>A computation \<open>endsWith ev\<close> when, whenever it returns, the last call it made is \<open>ev\<close>.\<close>

definition endsWith :: "event \<Rightarrow> 'a io \<Rightarrow> bool" where
  "endsWith ev m \<longleftrightarrow>
     (\<forall>w. case m w of (Inl e, w') \<Rightarrow> True | (Inr r, w') \<Rightarrow> (\<exists>evs. trace w' = trace w @ evs @ [ev]))"

section \<open>The fixtures of the handler's unit test\<close>

text \<open>
  The job, the rows and the mocked collaborators of the unit test of the story-to-script
  handler (\<open>worker story-to-script behavior\<close>), used below as concrete inputs.
\<close>

definition testJob :: jobData where
  "testJob =
     \<lparr>job_projectId = lit ''project-1'', job_episodeId = Some (lit ''episode-1''),
      job_userId = lit ''user-1'', job_locale = lit ''zh'',
      job_payload = JObject [(lit ''episodeId'', JString (lit ''episode-1'')),
                             (lit ''content'', JString (lit ''input content''))]\<rparr>"

definition testProject :: projectRow where
  "testProject =
     \<lparr>project_id = lit ''project-1'', project_name = lit ''Project One'',
      project_mode = lit ''novel-promotion''\<rparr>"

definition testNovel :: novelData where
  "testNovel =
     \<lparr>novel_id = lit ''np-project-1'',
      characters = [\<lparr>character_name = lit ''Hero'',
                     character_introduction = Some (lit ''hero intro'')\<rparr>],
      locations = [\<lparr>location_name = lit ''Old Town''\<rparr>]\<rparr>"

definition testClip :: clipRow where
  "testClip =
     \<lparr>clip_id = lit ''clip-row-1'', clip_content = JString (lit ''clip content''),
      clip_characters = JNull, clip_location = JNull, clip_screenplay = JNull\<rparr>"

definition testEpisode :: episodeRow where
  "testEpisode =
     \<lparr>episode_id = lit ''episode-1'', novelPromotionProjectId = lit ''np-project-1'',
      novelText = Some (lit ''episode text''), clips = [testClip]\<rparr>"

definition testDb :: database where
  "testDb =
     \<lparr>projects = [lit ''project-1'' \<mapsto> testProject],
      novelPromotionProjects = [lit ''project-1'' \<mapsto> testNovel],
      episodes = [lit ''episode-1'' \<mapsto> testEpisode],
      voiceLines = [], otherRows = []\<rparr>"

definition testWorld :: world where
  "testWorld = \<lparr>db = testDb, trace = []\<rparr>"

definition testEnv :: env where
  "testEnv =
     \<lparr>round64 = (\<lambda>x. x), toLowerCase = (\<lambda>s. s), stringify = (\<lambda>v. lit ''{}''),
      taskTerminated = (\<lambda>h. False),
      chatCompletion = (\<lambda>h. Inr \<lparr>out_text = [], out_reasoning = []\<rparr>),
      concurrentWrites = (\<lambda>h d. d),
      getProjectModelConfig = (\<lambda>p u d. Inr \<lparr>analysisModel = Some (lit ''llm::analysis-1'')\<rparr>),
      resolveCapabilityOptions = (\<lambda>p u m d. Inr (JString (lit ''high''))),
      getPromptTemplate = (\<lambda>p l. lit ''prompt-template''),
      clipUpdate = (\<lambda>i s d. (Inr (), d))\<rparr>"

text \<open>The orchestrator result of the test \<open>orchestrator partial failure summary\<close>.\<close>

definition testFailedResult :: storyResult where
  "testFailedResult =
     \<lparr>analyzedCharacters = [], analyzedLocations = [], clipList = [],
      screenplayResults =
        [\<lparr>sr_clipId = lit ''clip-3'', sr_success = False, sr_screenplay = JUndefined,
          sr_error = Some (lit ''bad screenplay json'')\<rparr>],
      summary = \<lparr>clipCount = 1, screenplaySuccessCount = 0, screenplayFailedCount = 1\<rparr>\<rparr>"

text \<open>The orchestrator result of the test's success path.\<close>

definition testResult :: storyResult where
  "testResult =
     \<lparr>analyzedCharacters = [JObject [(lit ''name'', JString (lit ''New Hero''))]],
      analyzedLocations = [JObject [(lit ''name'', JString (lit ''Market''))]],
      clipList = [JObject [(lit ''clipId'', JString (lit ''clip-1''))]],
      screenplayResults =
        [\<lparr>sr_clipId = lit ''clip-1'', sr_success = True, sr_screenplay = JObject [],
          sr_error = None\<rparr>],
      summary = \<lparr>clipCount = 1, screenplaySuccessCount = 1, screenplayFailedCount = 0\<rparr>\<rparr>"

definition testStep :: stepMeta where
  "testStep =
     \<lparr>stepId = lit ''analyze_characters'', stepTitle = lit ''characters'', stepIndex = 1,
      stepTotal = 4, stepAttempt = None\<rparr>"

text \<open>An orchestrator of one step that returns \<open>r\<close> whatever the step did.\<close>

definition oneStep :: "'r \<Rightarrow> 'r orch" where
  "oneStep r = RunStep testStep (lit ''prompt'') (lit ''analyze_characters'') 2000 (\<lambda>out. Return r)"

definition testStoryDeps :: storyDeps where
  "testStoryDeps =
     \<lparr>asString = (\<lambda>v. case v of JString s \<Rightarrow> s | _ \<Rightarrow> []),
      parseEffort = (\<lambda>v. None),
      parseTemperature = (\<lambda>v. Finite (7 / 10)),
      persistAnalyzedCharacters = (\<lambda>p n xs d. (Inr [JObject []], d)),
      persistAnalyzedLocations = (\<lambda>p n xs d. (Inr [JObject []], d)),
      persistClips =
        (\<lambda>e xs d. (Inr [\<lparr>clipKey = lit ''clip-1'', created_id = lit ''clip-row-1''\<rparr>], d)),
      resolveClipRecordId = (\<lambda>m k. m k),
      runStoryToScriptOrchestrator = (\<lambda>i. oneStep testResult)\<rparr>"

text \<open>
  Inputs of the same kind for the script-to-storyboard handler: one persisted storyboard
  with one panel, one voice line that matches it, and helpers that read an object, a
  positive integer and a string as their names say.
\<close>

definition testStoryboard :: persistedStoryboard where
  "testStoryboard =
     \<lparr>storyboardId = lit ''sb-1'', panels = [\<lparr>panel_id = lit ''panel-1'', panelIndex = 1\<rparr>]\<rparr>"

definition testVoiceRow :: "json \<Rightarrow> json" where
  "testVoiceRow matchedPanel =
     JObject [(lit ''matchedPanel'', matchedPanel),
              (lit ''emotionStrength'', JNumber (Finite (1 / 2))),
              (lit ''lineIndex'', JNumber (Finite 1)),
              (lit ''speaker'', JString (lit ''Hero'')),
              (lit ''content'', JString (lit ''Hello''))]"

definition testPanelRef :: "string \<Rightarrow> real \<Rightarrow> json" where
  "testPanelRef sid idx =
     JObject [(lit ''storyboardId'', JString (lit sid)), (lit ''panelIndex'', JNumber (Finite idx))]"

definition testBoardResult :: boardResult where
  "testBoardResult =
     \<lparr>clipPanels = JArray [], board_summary = \<lparr>totalStepCount = 1, totalPanelCount = 1\<rparr>\<rparr>"

definition testBoardDeps :: boardDeps where
  "testBoardDeps =
     \<lparr>b_parseEffort = (\<lambda>v. None),
      b_parseTemperature = (\<lambda>v. Finite (7 / 10)),
      asJsonRecord = (\<lambda>v. case v of JObject kvs \<Rightarrow> Some v | _ \<Rightarrow> None),
      toPositiveInt =
        (\<lambda>v. case v of JNumber (Finite x) \<Rightarrow> if \<lfloor>x\<rfloor> > 0 then Some \<lfloor>x\<rfloor> else None | _ \<Rightarrow> None),
      parseVoiceLinesJson = (\<lambda>t. Inr [testVoiceRow (testPanelRef ''sb-1'' 1)]),
      writeStoryboardsAndPanels = (\<lambda>e c d. (Inr [testStoryboard], d)),
      notFoundDetail = (\<lambda>e. lit '': Episode '' @ e @ lit '' was deleted''),
      buildStoryboardJson = (\<lambda>ps. lit ''[]''),
      buildCharactersIntroduction = (\<lambda>cs. lit ''Hero: hero intro''),
      buildPrompt = (\<lambda>p l vs. lit ''voice prompt''),
      newVoiceLineId = (\<lambda>h. lit ''voice-'' @ showInt (int (length h))),
      runScriptToStoryboardOrchestrator = (\<lambda>i. oneStep testBoardResult)\<rparr>"

text \<open>The collaborators of a task that is cancelled throughout.\<close>

definition cancelledEnv :: env where
  "cancelledEnv = testEnv\<lparr>taskTerminated := (\<lambda>h. True)\<rparr>"

definition testContext :: stepContext where
  "testContext = storyContext testStoryDeps testJob (lit ''llm::analysis-1'') (lit ''high'')"

text \<open>A job whose content is 30000 letters followed by four more.\<close>

definition longContent :: jsstring where
  "longContent = replicate 30000 97 @ lit ''TAIL''"

definition longJob :: jobData where
  "longJob =
     testJob\<lparr>job_payload := JObject [(lit ''episodeId'', JString (lit ''episode-1'')),
                                        (lit ''content'', JString longContent)]\<rparr>"

text \<open>The world of the fixtures once the inputs are loaded and the model is resolved.\<close>

definition testLoaded :: world where
  "testLoaded =
     testWorld\<lparr>trace := [OnProjectNameAvailable (lit ''project-1'') (lit ''Project One'')]\<rparr>"

definition testResolved :: world where
  "testResolved =
     testWorld\<lparr>trace := [OnProjectNameAvailable (lit ''project-1'') (lit ''Project One''),
        GetProjectModelConfig (lit ''project-1'') (lit ''user-1''),
        ResolveCapabilityOptions (lit ''project-1'') (lit ''user-1'') (lit ''llm::analysis-1'')]\<rparr>"

text \<open>The story-to-script helpers with an orchestrator of one step that returns \<open>r\<close>.\<close>

definition storyDepsReturning :: "storyResult \<Rightarrow> storyDeps" where
  "storyDepsReturning r = testStoryDeps\<lparr>runStoryToScriptOrchestrator := (\<lambda>i. oneStep r)\<rparr>"

text \<open>The calls of that step with the collaborators of the fixtures, and the world after
  the orchestration.\<close>

definition testStepCalls :: "event list" where
  "testStepCalls =
     [AssertTaskActive (lit ''story_to_script_step:analyze_characters''),
      ReportTaskProgress 28 (lit ''story_to_script_step'') (Some testStep),
      LogAIAnalysis (lit ''STORY_TO_SCRIPT_PROMPT:analyze_characters'') (lit ''llm::analysis-1''),
      ChatCompletion (lit ''user-1'') (lit ''llm::analysis-1'') (lit ''prompt'')
        (stepOptions testContext testStep (lit ''analyze_characters'')),
      LogAIAnalysis (lit ''STORY_TO_SCRIPT_OUTPUT:analyze_characters'') (lit ''llm::analysis-1'')]"

definition testOrchestrated :: world where
  "testOrchestrated =
     testWorld\<lparr>trace := trace testResolved @
       [ReportTaskProgress 10 (lit ''story_to_script_prepare'') None] @ testStepCalls @
       [CallbacksFlush]\<rparr>"

text \<open>A call that is not a model call, or a model call with the model \<open>m\<close>.\<close>

fun usesModel :: "jsstring \<Rightarrow> event \<Rightarrow> bool" where
  "usesModel m (ChatCompletion uid model prompt options) = (model = m)"
| "usesModel m ev = True"

text \<open>The collaborators of the unit test \<open>analysisModel not configured\<close>, and of the test
  where the resolver falls back to the user's preference.\<close>

definition unconfiguredEnv :: env where
  "unconfiguredEnv = testEnv\<lparr>getProjectModelConfig := (\<lambda>p u d. Inr \<lparr>analysisModel = None\<rparr>)\<rparr>"

definition preferenceEnv :: env where
  "preferenceEnv =
     testEnv\<lparr>getProjectModelConfig :=
       (\<lambda>p u d. Inr \<lparr>analysisModel = Some (lit ''llm::user-preference-model'')\<rparr>)\<rparr>"


text \<open>
  The data of all the rows from index \<open>i\<close> on, or what the first row that fails a check
  throws: the loop of the transaction without its writes.
\<close>

fun voiceLinesOfRows ::
  "env \<Rightarrow> boardDeps \<Rightarrow> (jsstring \<rightharpoonup> jsstring) \<Rightarrow> jsstring \<Rightarrow> nat \<Rightarrow> json list \<Rightarrow> error + voiceLineData list" where
  "voiceLinesOfRows E B panelMap eid i [] = Inr []"
| "voiceLinesOfRows E B panelMap eid i (row # rows) =
     (case voiceLineOfRow E B panelMap eid i (rowOrEmpty row) of
        Inl err \<Rightarrow> Inl err
      | Inr d \<Rightarrow>
          (case voiceLinesOfRows E B panelMap eid (Suc i) rows of
             Inl err \<Rightarrow> Inl err
           | Inr ds \<Rightarrow> Inr (d # ds)))"

text \<open>The voice lines of an episode in the table, and the rows made of ids and data.\<close>

definition episodeVoiceLines :: "database \<Rightarrow> jsstring \<Rightarrow> voiceLineRow list" where
  "episodeVoiceLines d eid = filter (\<lambda>r. vl_episodeId (vl_data r) = eid) (voiceLines d)"

definition voiceLineRows :: "jsstring list \<Rightarrow> voiceLineData list \<Rightarrow> voiceLineRow list" where
  "voiceLineRows ids ds = map (\<lambda>(i, d). \<lparr>vl_id = i, vl_data = d\<rparr>) (zip ids ds)"
text \<open>
  A row whose \<open>matchedPanel\<close> is not null and does not resolve: whenever it holds a
  string \<open>storyboardId\<close> and a panel index that \<open>toPositiveInt\<close> accepts, no panel
  persisted in this run has that storyboard id (trimmed) and that index.
\<close>

definition danglingPanelRef :: "boardDeps \<Rightarrow> persistedStoryboard list \<Rightarrow> json \<Rightarrow> bool" where
  "danglingPanelRef B persistedStoryboards row =
     (case asJsonRecord B (field row ''matchedPanel'') of
        None \<Rightarrow> False
      | Some matchedPanel \<Rightarrow>
          (case (field matchedPanel ''storyboardId'', toPositiveInt B (field matchedPanel ''panelIndex'')) of
             (JString sid, Some idx) \<Rightarrow>
               list_all (\<lambda>sb. list_all (\<lambda>p. (storyboardId sb, panelIndex p) \<noteq> (trim sid, idx))
                                  (panels sb)) persistedStoryboards
           | _ \<Rightarrow> True))"

text \<open>
  A run of the script-to-storyboard handler from the world \<open>w0\<close> reaches the persistence
  of the voice lines in the world \<open>w\<close>, with the storyboards \<open>ps\<close> persisted in this
  run and the rows \<open>rows\<close> of the voice analysis.
\<close>

definition reachesVoicePersist ::
  "env \<Rightarrow> boardDeps \<Rightarrow> jobData \<Rightarrow> world \<Rightarrow> boardResult \<Rightarrow> persistedStoryboard list \<Rightarrow> json list \<Rightarrow> world \<Rightarrow> bool" where
  "reachesVoicePersist E B job w0 r ps rows w \<longleftrightarrow>
     (\<exists>novel episode C w1 w2 w3.
        boardPrepare E B job w0 = (Inr (novel, episode, C), w1) \<and>
        boardRun E B job C novel episode w1 = (Inr r, w2) \<and>
        boardPersistStoryboards E B (boardEpisodeId job) r w2 = (Inr ps, w3) \<and>
        boardVoiceAnalyze E B job C novel episode r ps w3 = (Inr rows, w))"

text \<open>The rest of the handler from there.\<close>

definition boardAfterVoice ::
  "env \<Rightarrow> boardDeps \<Rightarrow> jobData \<Rightarrow> boardResult \<Rightarrow> persistedStoryboard list \<Rightarrow> json list \<Rightarrow> boardTaskResult io" where
  "boardAfterVoice E B job r ps rows =
     andThen (boardPersistVoiceLines E B (boardEpisodeId job) ps rows) (\<lambda>createdVoiceLines.
     andThen (reportTaskProgress 96 ''script_to_storyboard_persist_done'' None) (\<lambda>_.
     succeed (boardResultOf job r ps createdVoiceLines)))"

text \<open>A world whose voice-line table already holds a line of the episode.\<close>

definition oldVoiceLine :: voiceLineRow where
  "oldVoiceLine =
     \<lparr>vl_id = lit ''voice-old'',
      vl_data = \<lparr>vl_episodeId = lit ''episode-1'', vl_lineIndex = 1, vl_speaker = lit ''Hero'',
                 vl_content = lit ''Old line'', vl_emotionStrength = 1,
                 vl_matchedPanelId = None, vl_matchedStoryboardId = None,
                 vl_matchedPanelIndex = None\<rparr>\<rparr>"

definition oldWorld :: world where
  "oldWorld = testWorld\<lparr>db := testDb\<lparr>voiceLines := [oldVoiceLine]\<rparr>\<rparr>"
text \<open>The script-to-storyboard helpers with a parser that returns \<open>rows\<close>.\<close>

definition boardDepsParsing :: "json list \<Rightarrow> boardDeps" where
  "boardDepsParsing rows = testBoardDeps\<lparr>parseVoiceLinesJson := (\<lambda>t. Inr rows)\<rparr>"

text \<open>The calls of a run of the script-to-storyboard handler on the fixtures, up to the
  persistence of the voice lines, and the world it is in then.\<close>

definition testBoardCalls :: "event list" where
  "testBoardCalls =
     [ReportTaskProgress 10 (lit ''script_to_storyboard_prepare'') None,
      AssertTaskActive (lit ''script_to_storyboard_step:analyze_characters''),
      ReportTaskProgress 28 (lit ''script_to_storyboard_step'') (Some testStep),
      LogAIAnalysis (lit ''SCRIPT_TO_STORYBOARD_PROMPT:analyze_characters'') (lit ''llm::analysis-1''),
      ChatCompletion (lit ''user-1'') (lit ''llm::analysis-1'') (lit ''prompt'')
        (stepOptions testContext testStep (lit ''analyze_characters'')),
      LogAIAnalysis (lit ''SCRIPT_TO_STORYBOARD_OUTPUT:analyze_characters'') (lit ''llm::analysis-1''),
      CallbacksFlush,
      ReportTaskProgress 80 (lit ''script_to_storyboard_persist'') None,
      AssertTaskActive (lit ''script_to_storyboard_persist''),
      PersistStoryboardsAndPanels (lit ''episode-1''),
      AssertTaskActive (lit ''script_to_storyboard_step:voice_analyze''),
      ReportTaskProgress 70 (lit ''script_to_storyboard_step'') (Some (voiceStepMeta testBoardResult)),
      LogAIAnalysis (lit ''SCRIPT_TO_STORYBOARD_PROMPT:voice_analyze'') (lit ''llm::analysis-1''),
      ChatCompletion (lit ''user-1'') (lit ''llm::analysis-1'') (lit ''voice prompt'')
        (stepOptions testContext (voiceStepMeta testBoardResult) (lit ''voice_analyze'')),
      LogAIAnalysis (lit ''SCRIPT_TO_STORYBOARD_OUTPUT:voice_analyze'') (lit ''llm::analysis-1'')]"

definition testAtVoicePersist :: world where
  "testAtVoicePersist = testWorld\<lparr>trace := trace testResolved @ testBoardCalls\<rparr>"

text \<open>One voice line whose \<open>matchedPanel\<close> names panel 2 of the storyboard \<open>sb-1\<close>,
  which has only panel 1.\<close>

definition danglingRows :: "json list" where
  "danglingRows = [testVoiceRow (testPanelRef ''sb-1'' 2)]"

text \<open>The percentages of the progress reports among the calls, in the order they were
  made.\<close>

fun progressReports :: "event list \<Rightarrow> int list" where
  "progressReports [] = []"
| "progressReports (ReportTaskProgress percent stage meta # evs) = percent # progressReports evs"
| "progressReports (ev # evs) = progressReports evs"

text \<open>Two jobs that differ at most in the content of the payload.\<close>

definition sameButContent :: "jobData \<Rightarrow> jobData \<Rightarrow> bool" where
  "sameButContent job job' \<longleftrightarrow>
     job_projectId job' = job_projectId job \<and> job_episodeId job' = job_episodeId job \<and>
     job_userId job' = job_userId job \<and> job_locale job' = job_locale job \<and>
     (\<forall>name. name \<noteq> ''content'' \<longrightarrow> field (payloadOf job') name = field (payloadOf job) name)"

text \<open>The prompts of the model calls among the calls, in the order they were made.\<close>

fun promptsOf :: "event list \<Rightarrow> jsstring list" where
  "promptsOf [] = []"
| "promptsOf (ChatCompletion uid model prompt options # evs) = prompt # promptsOf evs"
| "promptsOf (ev # evs) = promptsOf evs"

text \<open>The story-to-script helpers with an orchestrator of one step whose prompt is the
  content it was given, and a second job whose content differs from that of \<open>longJob\<close>
  after the first 30000 code units.\<close>

definition echoStoryDeps :: storyDeps where
  "echoStoryDeps =
     testStoryDeps\<lparr>runStoryToScriptOrchestrator :=
       (\<lambda>i. RunStep testStep (in_content i) (lit ''analyze_characters'') 2000 (\<lambda>out. Return testResult))\<rparr>"

definition otherLongJob :: jobData where
  "otherLongJob =
     testJob\<lparr>job_payload := JObject [(lit ''episodeId'', JString (lit ''episode-1'')),
                                        (lit ''content'', JString (replicate 30000 97 @ lit ''ANOTHER END''))]\<rparr>"

text \<open>A job whose content is white space only.\<close>

definition blankJob :: jobData where
  "blankJob =
     testJob\<lparr>job_payload := JObject [(lit ''episodeId'', JString (lit ''episode-1'')),
                                        (lit ''content'', JString (lit '' ''))]\<rparr>"

text \<open>The models of the model calls among the calls, in the order they were made.\<close>

fun modelsOf :: "event list \<Rightarrow> jsstring list" where
  "modelsOf [] = []"
| "modelsOf (ChatCompletion uid model prompt options # evs) = model # modelsOf evs"
| "modelsOf (ev # evs) = modelsOf evs"

text \<open>The job of the fixtures with a model in its payload, between spaces.\<close>

definition overrideJob :: jobData where
  "overrideJob =
     testJob\<lparr>job_payload := JObject [(lit ''episodeId'', JString (lit ''episode-1'')),
                                        (lit ''content'', JString (lit ''input content'')),
                                        (lit ''model'', JString (lit '' llm::override ''))]\<rparr>"

section \<open>Basic facts\<close>

lemmas io_defs = andThen_def succeed_def failWith_def emit_def readDb_def onDb_def
  fromEither_def tryCatch_def tryFinally_def

lemmas fixture_defs = testWorld_def testDb_def testProject_def testNovel_def testEpisode_def
  testClip_def

lemma andThen_Inr: "m w = (Inr x, w') \<Longrightarrow> andThen m f w = f x w'"
  by (simp add: andThen_def)

lemma andThen_Inl: "m w = (Inl e, w') \<Longrightarrow> andThen m f w = (Inl e, w')"
  by (simp add: andThen_def)

lemma lit_eq_Nil [simp]: "lit s = [] \<longleftrightarrow> s = []"
  by (simp add: lit_def)

lemma lit_eq_lit [simp]: "lit a = lit b \<longleftrightarrow> a = b"
  by (simp add: lit_def inj_map_eq_map inj_def)

lemma lit_append: "lit (a @ b) = lit a @ lit b"
  by (simp add: lit_def)

lemma trim_episode: "trim (lit ''episode-1'') = lit ''episode-1''"
  by (simp add: trim_def lit_def isWhiteSpace_def)

lemma trim_content: "trim (lit ''input content'') = lit ''input content''"
  by (simp add: trim_def lit_def isWhiteSpace_def)

lemma test_job_fields:
  "job_projectId testJob = lit ''project-1''"
  "job_userId testJob = lit ''user-1''"
  "job_locale testJob = lit ''zh''"
  "job_episodeId testJob = Some (lit ''episode-1'')"
  "payloadOf testJob = JObject [(lit ''episodeId'', JString (lit ''episode-1'')),
                                (lit ''content'', JString (lit ''input content''))]"
  by (simp_all add: testJob_def payloadOf_def)

lemma test_storyEpisodeId: "storyEpisodeId testStoryDeps testJob = lit ''episode-1''"
  by (simp add: storyEpisodeId_def testStoryDeps_def test_job_fields trim_episode)

lemma test_storyLoad:
  "storyLoad testStoryDeps testJob testWorld =
     (Inr (testProject, testNovel, testEpisode),
      testWorld\<lparr>trace := [OnProjectNameAvailable (lit ''project-1'') (lit ''Project One'')]\<rparr>)"
  by (simp add: storyLoad_def test_storyEpisodeId loadProject_def loadEpisode_def io_defs
      fixture_defs test_job_fields)

section \<open>Calls added to the trace\<close>

lemma andThen_followedBy: "andThen m f = followedBy m (\<lambda>r. case r of Inl e \<Rightarrow> failWith e | Inr x \<Rightarrow> f x)"
  by (auto simp: andThen_def followedBy_def failWith_def fun_eq_iff split: prod.splits sum.splits)

lemma tryCatch_followedBy: "tryCatch m h = followedBy m (\<lambda>r. case r of Inl e \<Rightarrow> h e | Inr x \<Rightarrow> succeed x)"
  by (auto simp: tryCatch_def followedBy_def succeed_def fun_eq_iff split: prod.splits sum.splits)

lemma tryFinally_followedBy: "tryFinally m fin = followedBy m (\<lambda>r. andThen fin (\<lambda>u. fromEither r))"
  by (auto simp: tryFinally_def followedBy_def andThen_def fromEither_def fun_eq_iff split: prod.splits sum.splits)

lemma emits_followedBy:
  assumes "emits P m" and "\<And>r. emits P (g r)"
  shows "emits P (followedBy m g)"
  unfolding emits_def
proof
  fix w
  obtain r w1 where mw: "m w = (r, w1)" by (cases "m w")
  from assms(1) mw obtain e1 where e1: "trace w1 = trace w @ e1" "list_all P e1"
    unfolding emits_def by (metis snd_conv)
  from assms(2)[of r] obtain e2 where e2: "trace (snd (g r w1)) = trace w1 @ e2" "list_all P e2"
    unfolding emits_def by blast
  have "followedBy m g w = g r w1" using mw by (simp add: followedBy_def)
  then show "\<exists>evs. trace (snd (followedBy m g w)) = trace w @ evs \<and> list_all P evs"
    using e1 e2 by (auto intro!: exI[of _ "e1 @ e2"])
qed

lemma emits_pure [simp]: "emits P (succeed x)" "emits P (failWith e)" "emits P (fromEither r)"
  "emits P (readDb f)" "emits P (onDb h)"
  by (auto simp: emits_def io_defs split: prod.splits)

lemma emits_emit [simp]: "P ev \<Longrightarrow> emits P (emit ev)"
  by (auto simp: emits_def io_defs)

lemma emits_andThen: "emits P m \<Longrightarrow> (\<And>x. emits P (f x)) \<Longrightarrow> emits P (andThen m f)"
  unfolding andThen_followedBy by (rule emits_followedBy) (auto split: sum.splits)

lemma emits_tryCatch: "emits P m \<Longrightarrow> (\<And>e. emits P (h e)) \<Longrightarrow> emits P (tryCatch m h)"
  unfolding tryCatch_followedBy by (rule emits_followedBy) (auto split: sum.splits)

lemma emits_tryFinally: "emits P m \<Longrightarrow> emits P fin \<Longrightarrow> emits P (tryFinally m fin)"
  unfolding tryFinally_followedBy by (rule emits_followedBy) (auto intro!: emits_andThen)

lemma emits_mono: "emits P m \<Longrightarrow> (\<And>ev. P ev \<Longrightarrow> Q ev) \<Longrightarrow> emits Q m"
  unfolding emits_def by (metis (mono_tags, lifting) list.pred_mono_strong)

lemma checkpointsOk_append:
  "checkpointsOk E h c (a @ b) \<longleftrightarrow>
     checkpointsOk E h c a \<and> checkpointsOk E (h @ a) (clearedAfter E h c a) b"
  by (induction a arbitrary: h c) auto

lemma clearedBy_other: "isWrite ev \<Longrightarrow> clearedBy E h c ev = c"
  by (cases ev) (auto simp: isWrite_def)

lemma writes_ok: "list_all isWrite evs \<Longrightarrow> checkpointsOk E h True evs"
  by (induction evs arbitrary: h) (auto simp: clearedBy_other)

lemma quiet_ok: "list_all isQuiet evs \<Longrightarrow> checkpointsOk E h c evs"
  by (induction evs arbitrary: h) (auto simp: clearedBy_other isQuiet_def isWrite_def)

lemma quiet_safe: "emits isQuiet m \<Longrightarrow> safe E m"
  unfolding emits_def safe_def by (meson quiet_ok)

lemma safe_followedBy:
  assumes "safe E m" and "\<And>r. safe E (g r)"
  shows "safe E (followedBy m g)"
  unfolding safe_def
proof (intro allI)
  fix w c
  obtain r w1 where mw: "m w = (r, w1)" by (cases "m w")
  from assms(1) mw obtain e1 where e1: "trace w1 = trace w @ e1" "checkpointsOk E (trace w) c e1"
    unfolding safe_def by (metis snd_conv)
  from assms(2)[of r] obtain e2 where e2: "trace (snd (g r w1)) = trace w1 @ e2"
      "checkpointsOk E (trace w1) (clearedAfter E (trace w) c e1) e2"
    unfolding safe_def by blast
  have "followedBy m g w = g r w1" using mw by (simp add: followedBy_def)
  then show "\<exists>evs. trace (snd (followedBy m g w)) = trace w @ evs \<and> checkpointsOk E (trace w) c evs"
    using e1 e2 by (auto simp: checkpointsOk_append intro!: exI[of _ "e1 @ e2"])
qed

lemma safe_pure [simp]: "safe E (succeed x)" "safe E (failWith e)" "safe E (fromEither r)"
  by (auto simp: safe_def io_defs)

lemma safe_andThen: "safe E m \<Longrightarrow> (\<And>x. safe E (f x)) \<Longrightarrow> safe E (andThen m f)"
  unfolding andThen_followedBy by (rule safe_followedBy) (auto split: sum.splits)

lemma safe_tryCatch: "safe E m \<Longrightarrow> (\<And>e. safe E (h e)) \<Longrightarrow> safe E (tryCatch m h)"
  unfolding tryCatch_followedBy by (rule safe_followedBy) (auto split: sum.splits)

lemma safe_tryFinally: "safe E m \<Longrightarrow> safe E fin \<Longrightarrow> safe E (tryFinally m fin)"
  unfolding tryFinally_followedBy by (rule safe_followedBy) (auto intro!: safe_andThen)

lemma safe_checkpoint:
  assumes "emits isWrite m"
  shows "safe E (andThen (assertTaskActive E l) (\<lambda>_. m))"
  unfolding safe_def
proof (intro allI)
  fix w :: world and c
  let ?w1 = "w\<lparr>trace := trace w @ [AssertTaskActive l]\<rparr>"
  show "\<exists>evs. trace (snd (andThen (assertTaskActive E l) (\<lambda>_. m) w)) = trace w @ evs \<and>
       checkpointsOk E (trace w) c evs"
  proof (cases "taskTerminated E (trace w @ [AssertTaskActive l])")
    case True
    then have "andThen (assertTaskActive E l) (\<lambda>_. m) w = (Inl TaskTerminatedError, ?w1)"
      by (simp add: assertTaskActive_def io_defs)
    then show ?thesis by (auto intro!: exI[of _ "[AssertTaskActive l]"])
  next
    case False
    then have eq: "andThen (assertTaskActive E l) (\<lambda>_. m) w = m ?w1"
      by (simp add: assertTaskActive_def io_defs)
    from assms obtain e2 where e2: "trace (snd (m ?w1)) = trace ?w1 @ e2" "list_all isWrite e2"
      unfolding emits_def by blast
    show ?thesis using eq e2 False
      by (auto intro!: exI[of _ "AssertTaskActive l # e2"] writes_ok)
  qed
qed

lemma safe_runStep: "safe E (runStep E N C meta prompt action n)"
  unfolding safe_def
proof (intro allI)
  fix w c
  show "\<exists>evs. trace (snd (runStep E N C meta prompt action n w)) = trace w @ evs \<and>
       checkpointsOk E (trace w) c evs"
    by (cases "taskTerminated E (trace w @ [AssertTaskActive (lit (checkpointPrefix N) @ stepId meta)])")
       (auto simp: runStep_def assertTaskActive_def reportTaskProgress_def callChatCompletion_def io_defs
             split: sum.splits)
qed

lemma safe_runOrch: "(\<And>meta p a n. safe E (rs meta p a n)) \<Longrightarrow> safe E (runOrch rs t)"
proof (induction t)
  case (RunStep meta p a n k)
  have "runOrch rs (RunStep meta p a n k) = followedBy (rs meta p a n) (\<lambda>r. runOrch rs (k r))"
    by (simp add: followedBy_def)
  then show ?case using RunStep by (auto intro!: safe_followedBy)
qed simp_all


lemma emits_query [simp]: "emits P (\<lambda>w. (f (db w), w))"
  by (auto simp: emits_def)

lemma emits_report [simp]: "P (ReportTaskProgress p (lit s) m) \<Longrightarrow> emits P (reportTaskProgress p s m)"
  by (simp add: reportTaskProgress_def)

lemmas emits_intros = emits_andThen emits_tryCatch emits_tryFinally
lemmas safe_intros = safe_andThen safe_tryCatch safe_tryFinally

lemma quiet_loadProject: "emits isQuiet (loadProject job)"
  by (auto simp: loadProject_def isQuiet_def intro!: emits_intros split: option.splits)

lemma quiet_loadEpisode: "emits isQuiet (loadEpisode eid novel)"
  by (auto simp: loadEpisode_def intro!: emits_intros split: option.splits)

lemma quiet_resolveModel: "emits isQuiet (resolveModel E job im re)"
  by (auto simp: resolveModel_def isQuiet_def intro!: emits_intros)

lemma quiet_storyPrepare: "emits isQuiet (storyPrepare E S job)"
  by (auto simp: storyPrepare_def storyLoad_def quiet_loadProject quiet_loadEpisode quiet_resolveModel
      intro!: emits_intros)

lemma quiet_boardPrepare: "emits isQuiet (boardPrepare E B job)"
  by (auto simp: boardPrepare_def boardLoad_def quiet_loadProject quiet_loadEpisode quiet_resolveModel
      intro!: emits_intros)

lemma safe_storyRun: "safe E (storyRun E S job C novel content)"
  unfolding storyRun_def
  by (intro safe_intros safe_runOrch safe_runStep quiet_safe) (simp_all add: isQuiet_def)

lemma quiet_logParseError: "emits isQuiet (logParseError C err)"
  by (cases err) (auto simp: logParseError_def isQuiet_def intro!: emits_intros)

lemma safe_boardRun: "safe E (boardRun E B job C novel episode)"
  unfolding boardRun_def
  by (intro safe_intros safe_runOrch safe_runStep quiet_safe quiet_logParseError)
     (simp_all add: isQuiet_def)

lemma writes_updateScreenplays: "emits isWrite (updateScreenplays E S m rs)"
  by (induction rs) (auto simp: isWrite_def intro!: emits_intros)

lemma safe_storyPersist: "safe E (storyPersist E S eid novel result)"
  unfolding storyPersist_def
  by (intro safe_andThen safe_checkpoint quiet_safe)
     (auto simp: isQuiet_def isWrite_def writes_updateScreenplays intro!: emits_intros)

lemma safe_storyFinish: "safe E (storyFinish E S job novel result)"
  unfolding storyFinish_def by (intro safe_intros) (simp_all add: safe_storyPersist)

lemma safe_handleStory: "safe E (handleStoryToScriptTask E S job)"
  unfolding handleStoryToScriptTask_def
  by (rule safe_andThen, rule quiet_safe[OF quiet_storyPrepare])
     (auto simp: safe_storyRun safe_storyFinish intro!: safe_andThen)

lemma safe_boardPersistStoryboards: "safe E (boardPersistStoryboards E B eid r)"
  unfolding boardPersistStoryboards_def persistStoryboardsAndPanels_def
  by (intro safe_andThen safe_checkpoint quiet_safe)
     (auto simp: isQuiet_def isWrite_def intro!: emits_intros)

lemma safe_voiceTry: "safe E (voiceTry E B C prompt meta k)"
  unfolding voiceTry_def by (intro safe_intros safe_runStep) simp

lemma safe_voiceLoop: "safe E (voiceLoop E B C prompt meta k lastErr)"
proof (induction E B C prompt meta k lastErr rule: voiceLoop.induct)
  case (1 E B C prompt meta voiceAttempt voiceLastError)
  then show ?case
    by (subst voiceLoop.simps)
       (auto intro!: safe_intros safe_voiceTry split: option.splits)
qed

lemma safe_boardVoiceAnalyze: "safe E (boardVoiceAnalyze E B job C novel episode r ps)"
  by (simp add: boardVoiceAnalyze_def safe_voiceLoop)

lemma writes_createVoiceLines: "emits isWrite (createVoiceLines E B pm eid i rows)"
proof (induction rows arbitrary: i)
  case (Cons row rows)
  have "emits isWrite (voiceLineCreate B d)" for d
    by (auto simp: emits_def voiceLineCreate_def io_defs isWrite_def)
  then show ?case using Cons by (auto intro!: emits_intros)
qed simp

lemma emits_transaction: "P (Transaction t) \<Longrightarrow> emits P m \<Longrightarrow> emits P (transaction t m)"
  unfolding transaction_def
  apply (rule emits_andThen, simp)
  apply (auto simp: emits_def split: prod.splits sum.splits)
  apply (metis snd_conv)+
  done

lemma safe_boardPersistVoiceLines: "safe E (boardPersistVoiceLines E B eid ps rows)"
  unfolding boardPersistVoiceLines_def
  apply (rule safe_checkpoint)
  apply (rule emits_transaction)
   apply (simp add: isWrite_def)
  apply (rule emits_andThen)
   apply (auto simp: emits_def voiceLineDeleteMany_def io_defs isWrite_def)[1]
  apply (rule writes_createVoiceLines)
  done

lemma safe_boardFinish: "safe E (boardFinish E B job C novel episode r)"
  unfolding boardFinish_def
  by (intro safe_intros safe_boardPersistStoryboards safe_boardVoiceAnalyze
        safe_boardPersistVoiceLines quiet_safe)
     (simp_all add: isQuiet_def)

lemma safe_handleBoard: "safe E (handleScriptToStoryboardTask E B job)"
  unfolding handleScriptToStoryboardTask_def
  by (rule safe_andThen, rule quiet_safe[OF quiet_boardPrepare])
     (auto simp: safe_boardRun safe_boardFinish intro!: safe_andThen)

section \<open>The liveness checkpoints\<close>

lemma runStep_terminated:
  "taskTerminated E (trace w @ [AssertTaskActive (lit (checkpointPrefix N) @ stepId meta)]) \<Longrightarrow>
   runStep E N C meta prompt action n w =
     (Inl TaskTerminatedError,
      w\<lparr>trace := trace w @ [AssertTaskActive (lit (checkpointPrefix N) @ stepId meta)]\<rparr>)"
  by (simp add: runStep_def assertTaskActive_def io_defs)

lemma runStep_active:
  "\<not> taskTerminated E (trace w @ [AssertTaskActive (lit (checkpointPrefix N) @ stepId meta)]) \<Longrightarrow>
   \<exists>evs. trace (snd (runStep E N C meta prompt action n w)) =
     trace w @ [AssertTaskActive (lit (checkpointPrefix N) @ stepId meta),
                ReportTaskProgress (stepProgress E meta) (lit (stepStage N)) (Some meta),
                LogAIAnalysis (lit (promptActionPrefix N) @ action) (ctx_model C),
                ChatCompletion (ctx_userId C) (ctx_model C) prompt (stepOptions C meta action)] @ evs"
  by (auto simp: runStep_def assertTaskActive_def reportTaskProgress_def callChatCompletion_def io_defs
        split: sum.splits)

lemma storyPersist_terminated:
  "taskTerminated E (trace w @ [ReportTaskProgress 80 (lit ''story_to_script_persist'') None,
       AssertTaskActive (lit ''story_to_script_persist'')]) \<Longrightarrow>
   storyPersist E S eid novel result w =
     (Inl TaskTerminatedError,
      w\<lparr>trace := trace w @ [ReportTaskProgress 80 (lit ''story_to_script_persist'') None,
                             AssertTaskActive (lit ''story_to_script_persist'')]\<rparr>)"
  by (simp add: storyPersist_def assertTaskActive_def reportTaskProgress_def io_defs)

lemma boardPersistStoryboards_terminated:
  "taskTerminated E (trace w @ [ReportTaskProgress 80 (lit ''script_to_storyboard_persist'') None,
       AssertTaskActive (lit ''script_to_storyboard_persist'')]) \<Longrightarrow>
   boardPersistStoryboards E B eid result w =
     (Inl TaskTerminatedError,
      w\<lparr>trace := trace w @ [ReportTaskProgress 80 (lit ''script_to_storyboard_persist'') None,
                             AssertTaskActive (lit ''script_to_storyboard_persist'')]\<rparr>)"
  by (simp add: boardPersistStoryboards_def assertTaskActive_def reportTaskProgress_def io_defs)

lemma boardPersistVoiceLines_terminated:
  "taskTerminated E (trace w @ [AssertTaskActive (lit ''script_to_storyboard_voice_persist'')]) \<Longrightarrow>
   boardPersistVoiceLines E B eid ps rows w =
     (Inl TaskTerminatedError,
      w\<lparr>trace := trace w @ [AssertTaskActive (lit ''script_to_storyboard_voice_persist'')]\<rparr>)"
  by (simp add: boardPersistVoiceLines_def assertTaskActive_def io_defs)

text \<open>
  C8. In both handlers the liveness check is made before every model call and before
  persistence. Whatever the collaborators answer, the calls of a run of either handler
  respect the checkpoints: every model call and every database write is made after an
  \<open>assertTaskActive\<close> that found the task active, with no model call in between. In
  \<open>runStep\<close> the check is the first call, before the progress report, the log and the
  completion; a task found cancelled there makes no further call and \<open>runStep\<close> throws
  \<open>TaskTerminatedError\<close>. A task found cancelled at a persistence checkpoint (of either
  handler, and before the voice lines) throws \<open>TaskTerminatedError\<close> with no call after
  the check and the database as it was.
\<close>

theorem C8_checkpoints:
  "(\<exists>evs. trace (snd (handleStoryToScriptTask E S job w)) = trace w @ evs \<and>
          checkpointsOk E (trace w) False evs) \<and>
   (\<exists>evs. trace (snd (handleScriptToStoryboardTask E B job w)) = trace w @ evs \<and>
          checkpointsOk E (trace w) False evs) \<and>
   (if taskTerminated E (trace w @ [AssertTaskActive (lit (checkpointPrefix N) @ stepId meta)])
    then runStep E N C meta prompt action n w =
           (Inl TaskTerminatedError,
            w\<lparr>trace := trace w @ [AssertTaskActive (lit (checkpointPrefix N) @ stepId meta)]\<rparr>)
    else (\<exists>evs. trace (snd (runStep E N C meta prompt action n w)) =
           trace w @ [AssertTaskActive (lit (checkpointPrefix N) @ stepId meta),
                      ReportTaskProgress (stepProgress E meta) (lit (stepStage N)) (Some meta),
                      LogAIAnalysis (lit (promptActionPrefix N) @ action) (ctx_model C),
                      ChatCompletion (ctx_userId C) (ctx_model C) prompt (stepOptions C meta action)]
                   @ evs)) \<and>
   (taskTerminated E (trace w @ [ReportTaskProgress 80 (lit ''story_to_script_persist'') None,
        AssertTaskActive (lit ''story_to_script_persist'')]) \<longrightarrow>
    storyPersist E S eid novel result w =
      (Inl TaskTerminatedError,
       w\<lparr>trace := trace w @ [ReportTaskProgress 80 (lit ''story_to_script_persist'') None,
                              AssertTaskActive (lit ''story_to_script_persist'')]\<rparr>)) \<and>
   (taskTerminated E (trace w @ [ReportTaskProgress 80 (lit ''script_to_storyboard_persist'') None,
        AssertTaskActive (lit ''script_to_storyboard_persist'')]) \<longrightarrow>
    boardPersistStoryboards E B eid' result' w =
      (Inl TaskTerminatedError,
       w\<lparr>trace := trace w @ [ReportTaskProgress 80 (lit ''script_to_storyboard_persist'') None,
                              AssertTaskActive (lit ''script_to_storyboard_persist'')]\<rparr>)) \<and>
   (taskTerminated E (trace w @ [AssertTaskActive (lit ''script_to_storyboard_voice_persist'')]) \<longrightarrow>
    boardPersistVoiceLines E B eid' ps rows w =
      (Inl TaskTerminatedError,
       w\<lparr>trace := trace w @ [AssertTaskActive (lit ''script_to_storyboard_voice_persist'')]\<rparr>))"
proof -
  have story: "\<exists>evs. trace (snd (handleStoryToScriptTask E S job w)) = trace w @ evs \<and>
          checkpointsOk E (trace w) False evs"
    using safe_handleStory[of E S job] unfolding safe_def by blast
  have board: "\<exists>evs. trace (snd (handleScriptToStoryboardTask E B job w)) = trace w @ evs \<and>
          checkpointsOk E (trace w) False evs"
    using safe_handleBoard[of E B job] unfolding safe_def by blast
  show ?thesis
    using story board runStep_terminated[of E w N meta C prompt action n]
      runStep_active[of E w N meta C prompt action n]
      storyPersist_terminated[of E w S eid novel result]
      boardPersistStoryboards_terminated[of E w B eid' result']
      boardPersistVoiceLines_terminated[of E w B eid' ps rows]
    by presburger
qed

text \<open>A task cancelled throughout: the three checkpoints throw and nothing follows.\<close>

theorem C8_checkpoints_witness:
  "runStep cancelledEnv storyToScriptNames testContext testStep (lit ''prompt'') (lit ''analyze_characters'')
       2000 testWorld =
     (Inl TaskTerminatedError,
      testWorld\<lparr>trace := [AssertTaskActive (lit ''story_to_script_step:analyze_characters'')]\<rparr>) \<and>
   storyPersist cancelledEnv testStoryDeps (lit ''episode-1'') testNovel testResult testWorld =
     (Inl TaskTerminatedError,
      testWorld\<lparr>trace := [ReportTaskProgress 80 (lit ''story_to_script_persist'') None,
                             AssertTaskActive (lit ''story_to_script_persist'')]\<rparr>) \<and>
   boardPersistVoiceLines cancelledEnv testBoardDeps (lit ''episode-1'') [] [] testWorld =
     (Inl TaskTerminatedError,
      testWorld\<lparr>trace := [AssertTaskActive (lit ''script_to_storyboard_voice_persist'')]\<rparr>)"
  using C8_checkpoints[where E=cancelledEnv and S=testStoryDeps and job=testJob and w=testWorld
      and B=testBoardDeps and N=storyToScriptNames and meta=testStep and C=testContext
      and prompt="lit ''prompt''" and action="lit ''analyze_characters''" and n=2000
      and eid="lit ''episode-1''" and novel=testNovel and result=testResult
      and eid'="lit ''episode-1''" and result'=testBoardResult and ps="[]" and rows="[]"]
  by (simp add: cancelledEnv_def testEnv_def testWorld_def storyToScriptNames_def testStep_def lit_append[symmetric])

section \<open>The progress of a step\<close>

lemma stepProgress_lower:
  assumes m: "mono (round64 E)" and z: "round64 E 0 = 0" and i: "0 \<le> stepIndex meta"
  shows "15 \<le> stepProgress E meta"
proof -
  have "0 \<le> stepIndex meta / max 1 (stepTotal meta)" using i by simp
  then have "round64 E 0 \<le> round64 E (stepIndex meta / max 1 (stepTotal meta))"
    using m by (simp add: monoD)
  then have "0 \<le> round64 E (stepIndex meta / max 1 (stepTotal meta)) * 55" using z by simp
  then have "round64 E 0 \<le> round64 E (round64 E (stepIndex meta / max 1 (stepTotal meta)) * 55)"
    using m by (simp add: monoD)
  then have "0 \<le> \<lfloor>round64 E (round64 E (stepIndex meta / max 1 (stepTotal meta)) * 55)\<rfloor>"
    using z by simp
  then show ?thesis by (simp add: stepProgress_def)
qed

lemma stepProgress_upper: "stepProgress E meta \<le> 70"
  by (simp add: stepProgress_def)

lemma stepProgress_mono:
  assumes m: "mono (round64 E)" and t: "stepTotal meta' = stepTotal meta"
    and i: "stepIndex meta \<le> stepIndex meta'"
  shows "stepProgress E meta \<le> stepProgress E meta'"
proof -
  have "stepIndex meta / max 1 (stepTotal meta) \<le> stepIndex meta' / max 1 (stepTotal meta)"
    using i by (simp add: divide_right_mono)
  then have "round64 E (stepIndex meta / max 1 (stepTotal meta)) * 55
      \<le> round64 E (stepIndex meta' / max 1 (stepTotal meta)) * 55"
    using m by (simp add: monoD)
  then have "round64 E (round64 E (stepIndex meta / max 1 (stepTotal meta)) * 55)
      \<le> round64 E (round64 E (stepIndex meta' / max 1 (stepTotal meta)) * 55)"
    using m by (simp add: monoD)
  then have "\<lfloor>round64 E (round64 E (stepIndex meta / max 1 (stepTotal meta)) * 55)\<rfloor>
      \<le> \<lfloor>round64 E (round64 E (stepIndex meta' / max 1 (stepTotal meta)) * 55)\<rfloor>"
    by (rule floor_mono)
  then show ?thesis using t by (simp add: stepProgress_def)
qed

lemma stepProgress_zero:
  assumes z: "round64 E 0 = 0" and i: "stepIndex meta = 0"
  shows "stepProgress E meta = 15"
  using z i by (simp add: stepProgress_def)

lemma safe_grows: "safe E m \<Longrightarrow> \<exists>evs. trace (snd (m w)) = trace w @ evs"
  unfolding safe_def by blast

lemma storyRun_first:
  "\<exists>evs. trace (snd (storyRun E S job C novel content w)) =
      trace w @ ReportTaskProgress 10 (lit ''story_to_script_prepare'') None # evs"
proof -
  let ?rest = "tryFinally (runOrch (runStep E storyToScriptNames C)
          (runStoryToScriptOrchestrator S (storyOrchestratorInput E job novel content)))
       (emit CallbacksFlush)"
  let ?w1 = "w\<lparr>trace := trace w @ [ReportTaskProgress 10 (lit ''story_to_script_prepare'') None]\<rparr>"
  have "safe E ?rest"
    by (intro safe_intros safe_runOrch safe_runStep quiet_safe) (simp_all add: isQuiet_def)
  from safe_grows[OF this, of ?w1] obtain evs where "trace (snd (?rest ?w1)) = trace ?w1 @ evs" ..
  moreover have "storyRun E S job C novel content w = ?rest ?w1"
    by (simp add: storyRun_def reportTaskProgress_def andThen_def emit_def)
  ultimately show ?thesis by auto
qed

lemma boardRun_first:
  "\<exists>evs. trace (snd (boardRun E B job C novel episode w)) =
      trace w @ ReportTaskProgress 10 (lit ''script_to_storyboard_prepare'') None # evs"
proof -
  let ?rest = "tryFinally (tryCatch (runOrch (runStep E scriptToStoryboardNames C)
          (runScriptToStoryboardOrchestrator B (boardOrchestratorInput E job novel episode)))
          (logParseError C))
       (emit CallbacksFlush)"
  let ?w1 = "w\<lparr>trace := trace w @ [ReportTaskProgress 10 (lit ''script_to_storyboard_prepare'') None]\<rparr>"
  have "safe E ?rest"
    by (intro safe_intros safe_runOrch safe_runStep quiet_safe quiet_logParseError)
       (simp_all add: isQuiet_def)
  from safe_grows[OF this, of ?w1] obtain evs where "trace (snd (?rest ?w1)) = trace ?w1 @ evs" ..
  moreover have "boardRun E B job C novel episode w = ?rest ?w1"
    by (simp add: boardRun_def reportTaskProgress_def andThen_def emit_def)
  ultimately show ?thesis by auto
qed

lemma first_event:
  assumes "\<And>u. safe E (f u)"
  shows "\<exists>evs. trace (snd (andThen (emit ev) f w)) = trace w @ ev # evs"
proof -
  let ?w1 = "w\<lparr>trace := trace w @ [ev]\<rparr>"
  from safe_grows[OF assms, of "()" ?w1] obtain evs
    where "trace (snd (f () ?w1)) = trace ?w1 @ evs" ..
  moreover have "andThen (emit ev) f w = f () ?w1" by (simp add: andThen_def emit_def)
  ultimately show ?thesis by auto
qed

lemma storyPersist_first:
  "\<exists>evs. trace (snd (storyPersist E S eid novel result w)) =
      trace w @ ReportTaskProgress 80 (lit ''story_to_script_persist'') None # evs"
  unfolding storyPersist_def reportTaskProgress_def
  by (rule first_event[where E=E], rule safe_checkpoint)
     (auto simp: isWrite_def writes_updateScreenplays intro!: emits_intros)

lemma boardPersistStoryboards_first:
  "\<exists>evs. trace (snd (boardPersistStoryboards E B eid result w)) =
      trace w @ ReportTaskProgress 80 (lit ''script_to_storyboard_persist'') None # evs"
  unfolding boardPersistStoryboards_def persistStoryboardsAndPanels_def reportTaskProgress_def
  by (rule first_event[where E=E], rule safe_checkpoint)
     (auto simp: isWrite_def intro!: emits_intros)

lemma endsWith_failWith [simp]: "endsWith ev (failWith e)"
  by (simp add: endsWith_def failWith_def)

lemma endsWith_final [simp]: "endsWith ev (andThen (emit ev) (\<lambda>_. succeed r))"
  by (simp add: endsWith_def io_defs)

lemma endsWith_andThen:
  assumes "emits P m" and "\<And>x. endsWith ev (f x)"
  shows "endsWith ev (andThen m f)"
  unfolding endsWith_def
proof
  fix w
  obtain r w1 where mw: "m w = (r, w1)" by (cases "m w")
  from assms(1) mw obtain e1 where e1: "trace w1 = trace w @ e1"
    unfolding emits_def by (metis snd_conv)
  show "case andThen m f w of (Inl e, w') \<Rightarrow> True
        | (Inr r, w') \<Rightarrow> \<exists>evs. trace w' = trace w @ evs @ [ev]"
  proof (cases r)
    case (Inl e)
    then show ?thesis using mw by (simp add: andThen_def)
  next
    case (Inr x)
    then have eq: "andThen m f w = f x w1" using mw by (simp add: andThen_def)
    show ?thesis using assms(2)[of x] e1 unfolding eq endsWith_def
      by (auto split: prod.splits sum.splits dest!: spec[of _ w1])
  qed
qed

lemma emits_assert: "emits (\<lambda>ev. True) (assertTaskActive E l)"
  by (auto simp: emits_def assertTaskActive_def io_defs)

lemma endsWith_if: "endsWith ev a \<Longrightarrow> endsWith ev b \<Longrightarrow> endsWith ev (if c then a else b)"
  by simp

lemma emits_any: "emits P m \<Longrightarrow> emits (\<lambda>ev. True) m"
  by (erule emits_mono) simp

lemma storyPersist_last:
  "endsWith (ReportTaskProgress 96 (lit ''story_to_script_persist_done'') None)
     (storyPersist E S eid novel result)"
  unfolding storyPersist_def reportTaskProgress_def
  by (intro endsWith_final endsWith_if endsWith_failWith endsWith_andThen[where P="\<lambda>ev. True"]
        emits_assert emits_any[OF writes_updateScreenplays])
     simp_all

lemma safe_emits: "safe E m \<Longrightarrow> emits (\<lambda>ev. True) m"
  unfolding safe_def emits_def by (simp add: list_all_iff) blast

lemma boardFinish_last:
  "endsWith (ReportTaskProgress 96 (lit ''script_to_storyboard_persist_done'') None)
     (boardFinish E B job C novel episode result)"
  unfolding boardFinish_def reportTaskProgress_def
  by (intro endsWith_final endsWith_andThen[where P="\<lambda>ev. True"]
        safe_emits[OF safe_boardPersistStoryboards] safe_emits[OF safe_boardVoiceAnalyze]
        safe_emits[OF safe_boardPersistVoiceLines])

text \<open>
  The voice-analysis step of the script-to-storyboard handler has index and total equal to
  the orchestrator's step count, so with a rounding that is exact on 1 and 55 it reports
  70 percent; the handler runs it after its report of 80 percent.
\<close>

lemma voice_step_progress:
  assumes "round64 E 1 = 1" and "round64 E 55 = 55" and "1 \<le> totalStepCount (board_summary r)"
  shows "stepProgress E (voiceAttemptMeta (voiceStepMeta r) k) = 70"
  using assms by (simp add: stepProgress_def voiceAttemptMeta_def voiceStepMeta_def)

section \<open>The content to analyse\<close>

lemma trim_id: "s \<noteq> [] \<Longrightarrow> \<not> isWhiteSpace (hd s) \<Longrightarrow> \<not> isWhiteSpace (last s) \<Longrightarrow> trim s = s"
proof -
  assume s: "s \<noteq> []" and h: "\<not> isWhiteSpace (hd s)" and l: "\<not> isWhiteSpace (last s)"
  have a: "dropWhile isWhiteSpace s = s" using s h by (cases s) auto
  have hd: "hd (rev s) = last s" using s by (simp add: hd_rev)
  obtain x xs where r: "rev s = x # xs" using s by (cases "rev s") auto
  have b: "dropWhile isWhiteSpace (rev s) = rev s" using hd l unfolding r by simp
  show ?thesis by (simp add: trim_def a b)
qed

lemma longJob_fields:
  "job_projectId longJob = lit ''project-1''"
  "job_userId longJob = lit ''user-1''"
  "job_episodeId longJob = Some (lit ''episode-1'')"
  "payloadOf longJob = JObject [(lit ''episodeId'', JString (lit ''episode-1'')),
                                (lit ''content'', JString longContent)]"
  by (simp_all add: longJob_def testJob_def payloadOf_def)

lemma test_storyLoad_any:
  assumes "job_projectId job = lit ''project-1''" and "storyEpisodeId S job = lit ''episode-1''"
  shows "storyLoad S job testWorld = (Inr (testProject, testNovel, testEpisode), testLoaded)"
  using assms
  by (simp add: storyLoad_def loadProject_def loadEpisode_def io_defs fixture_defs testLoaded_def)

lemma test_resolveModel:
  assumes "job_projectId job = lit ''project-1''" and "job_userId job = lit ''user-1''"
  shows "resolveModel testEnv job [] None testLoaded =
           (Inr (lit ''llm::analysis-1'', lit ''high''), testResolved)"
  using assms
  by (simp add: resolveModel_def io_defs chooseModel_def chooseReasoningEffort_def orEmpty_def
      isReasoningEffort_def stringOf_def testEnv_def testLoaded_def testResolved_def)

lemma trim_longContent: "trim longContent = longContent"
  by (rule trim_id) (simp_all add: longContent_def lit_def isWhiteSpace_def hd_append)

lemma storyContent_eq:
  "storyContent raw nt =
     (if trim (mergedContent raw nt) = [] then Inl (Error (lit ''content is required''))
      else Inr (take 30000 (mergedContent raw nt)))"
  by (simp add: storyContent_def slice0_def maxLength_def)

lemma storyPrepare_content:
  assumes load: "storyLoad S job w = (Inr (project, novel, episode), w1)"
    and model: "resolveModel E job (storyInputModel S job)
                  (parseEffort S (field (payloadOf job) ''reasoningEffort'')) w1 = (Inr (m, eff), w2)"
  shows "storyPrepare E S job w =
     (case storyContent (asString S (field (payloadOf job) ''content'')) (novelText episode) of
        Inl err \<Rightarrow> (Inl err, w2)
      | Inr content \<Rightarrow> (Inr (novel, storyContext S job m eff, content), w2))"
  by (simp add: storyPrepare_def andThen_def load model fromEither_def succeed_def split: sum.splits)

section \<open>The partial failure\<close>

lemma showInt_1: "showInt 1 = lit ''1''"
  by (simp add: showInt_def digits.simps lit_def)

lemma test_storyPrepare:
  "storyPrepare testEnv (storyDepsReturning r) testJob testWorld =
     (Inr (testNovel, testContext, lit ''input content''), testResolved)"
proof -
  let ?S = "storyDepsReturning r"
  have eid: "storyEpisodeId ?S testJob = lit ''episode-1''"
    by (simp add: storyEpisodeId_def storyDepsReturning_def testStoryDeps_def test_job_fields trim_episode)
  have load: "storyLoad ?S testJob testWorld = (Inr (testProject, testNovel, testEpisode), testLoaded)"
    by (rule test_storyLoad_any[OF test_job_fields(1) eid])
  have model: "resolveModel testEnv testJob (storyInputModel ?S testJob)
      (parseEffort ?S (field (payloadOf testJob) ''reasoningEffort'')) testLoaded =
      (Inr (lit ''llm::analysis-1'', lit ''high''), testResolved)"
    using test_resolveModel[OF test_job_fields(1,2)]
    by (simp add: storyInputModel_def storyDepsReturning_def testStoryDeps_def test_job_fields trim_def)
  have content: "storyContent (asString ?S (field (payloadOf testJob) ''content'')) (novelText testEpisode)
      = Inr (lit ''input content'')"
    by (simp add: storyContent_eq mergedContent_def storyDepsReturning_def testStoryDeps_def
        test_job_fields trim_content) (simp add: lit_def)
  have ctx: "storyContext ?S testJob (lit ''llm::analysis-1'') (lit ''high'') = testContext"
    by (simp add: storyContext_def testContext_def storyDepsReturning_def testStoryDeps_def)
  show ?thesis
    by (simp add: storyPrepare_content[OF load model] content ctx)
qed

lemma test_runStep:
  "runStep testEnv storyToScriptNames testContext testStep (lit ''prompt'') (lit ''analyze_characters'')
     2000 w =
     (Inr \<lparr>out_text = [], out_reasoning = []\<rparr>, w\<lparr>trace := trace w @ testStepCalls\<rparr>)"
  by (simp add: runStep_def assertTaskActive_def reportTaskProgress_def callChatCompletion_def io_defs
      testEnv_def storyToScriptNames_def testStepCalls_def stepProgress_def testStep_def
      testContext_def storyContext_def test_job_fields lit_append[symmetric])

lemma test_storyRun:
  "storyRun testEnv (storyDepsReturning r) testJob testContext testNovel content testResolved =
     (Inr r, testOrchestrated)"
  by (simp add: storyRun_def storyDepsReturning_def testStoryDeps_def oneStep_def test_runStep
      reportTaskProgress_def io_defs testOrchestrated_def testResolved_def testWorld_def)


lemma emits_runOrch: "(\<And>meta p a n. emits P (rs meta p a n)) \<Longrightarrow> emits P (runOrch rs t)"
proof (induction t)
  case (RunStep meta p a n k)
  have "runOrch rs (RunStep meta p a n k) = followedBy (rs meta p a n) (\<lambda>r. runOrch rs (k r))"
    by (simp add: followedBy_def)
  then show ?case using RunStep by (auto intro!: emits_followedBy)
qed simp_all

lemma emits_runStep: "emits (\<lambda>ev. \<not> isDbWrite ev) (runStep E N C meta prompt action n)"
  unfolding emits_def
proof
  fix w
  show "\<exists>evs. trace (snd (runStep E N C meta prompt action n w)) = trace w @ evs \<and>
       list_all (\<lambda>ev. \<not> isDbWrite ev) evs"
    by (cases "taskTerminated E (trace w @ [AssertTaskActive (lit (checkpointPrefix N) @ stepId meta)])")
       (auto simp: runStep_def assertTaskActive_def reportTaskProgress_def callChatCompletion_def io_defs
             split: sum.splits)
qed

lemma nowrite_storyRun: "emits (\<lambda>ev. \<not> isDbWrite ev) (storyRun E S job C novel content)"
  unfolding storyRun_def
  by (intro emits_intros emits_runOrch emits_runStep emits_report emits_emit) simp_all

lemma nowrite_storyPrepare: "emits (\<lambda>ev. \<not> isDbWrite ev) (storyPrepare E S job)"
  by (rule emits_mono[OF quiet_storyPrepare]) (simp add: isQuiet_def)

lemma emits_result: "emits P m \<Longrightarrow> m w = (r, w') \<Longrightarrow> \<exists>evs. trace w' = trace w @ evs \<and> list_all P evs"
  unfolding emits_def by (metis snd_conv)

lemma sublist_lit_prefix: "sublist (lit a) (lit (a @ b) @ rest)"
  unfolding lit_append by (metis append.assoc sublist_append_rightI)

lemma sublist_message: "sublist (lit ''STORY_TO_SCRIPT_PARTIAL_FAILED'') (partialFailureMessage r)"
  unfolding partialFailureMessage_def
  using sublist_lit_prefix[of "''STORY_TO_SCRIPT_PARTIAL_FAILED''" "'': ''"] by simp

lemma sublist_clipId:
  assumes "screenplayResults r = [item]" and "\<not> sr_success item"
  shows "sublist (sr_clipId item) (partialFailureMessage r)"
proof -
  have "failurePreview r = sr_clipId item @ lit '':'' @
      (if orEmpty (sr_error item) \<noteq> [] then orEmpty (sr_error item) else lit ''unknown error'')"
    using assms by (simp add: failurePreview_def failurePreviewItem_def)
  then show ?thesis
    unfolding partialFailureMessage_def sublist_def by (metis append.assoc)
qed

text \<open>
  C2. The partial failure of the story-to-script handler. When the run has come through
  the orchestrator and the summary counts a failed screenplay, the handler throws, at the
  world the orchestration ended in and without any further call: the handler made no
  database write in the whole run. The message is \<open>STORY_TO_SCRIPT_PARTIAL_FAILED: \<close>,
  the failed and the total counts, and a preview of the first three failed items at most,
  each its clip id, a colon and its reason; with a single failed item it contains that
  item's clip id.
\<close>

theorem C2_partial_failure:
  assumes prepare: "storyPrepare E S job w = (Inr (novel, C, content), w1)"
    and run: "storyRun E S job C novel content w1 = (Inr result, w2)"
    and failed: "screenplayFailedCount (summary result) > 0"
  shows
    "handleStoryToScriptTask E S job w = (Inl (Error (partialFailureMessage result)), w2) \<and>
     storyFinish E S job novel result w2 = (Inl (Error (partialFailureMessage result)), w2) \<and>
     (\<exists>evs. trace w2 = trace w @ evs \<and> list_all (\<lambda>ev. \<not> isDbWrite ev) evs) \<and>
     partialFailureMessage result =
       lit ''STORY_TO_SCRIPT_PARTIAL_FAILED: '' @ showInt (screenplayFailedCount (summary result)) @
       lit ''/'' @ showInt (clipCount (summary result)) @ lit '' screenplay steps failed. '' @
       join (lit '' | '')
         (map (\<lambda>item. sr_clipId item @ lit '':'' @
                 (case sr_error item of
                    Some reason \<Rightarrow> if reason \<noteq> [] then reason else lit ''unknown error''
                  | None \<Rightarrow> lit ''unknown error''))
            (take 3 (filter (\<lambda>item. \<not> sr_success item) (screenplayResults result)))) \<and>
     length (take 3 (filter (\<lambda>item. \<not> sr_success item) (screenplayResults result))) \<le> 3 \<and>
     sublist (lit ''STORY_TO_SCRIPT_PARTIAL_FAILED'') (partialFailureMessage result) \<and>
     (\<forall>item. screenplayResults result = [item] \<and> \<not> sr_success item \<longrightarrow>
        sublist (sr_clipId item) (partialFailureMessage result))"
proof -
  have fin: "storyFinish E S job novel result w2 = (Inl (Error (partialFailureMessage result)), w2)"
    using failed by (simp add: storyFinish_def storyPartialFailure_def andThen_def fromEither_def)
  have h: "handleStoryToScriptTask E S job w = (Inl (Error (partialFailureMessage result)), w2)"
    by (simp add: handleStoryToScriptTask_def andThen_def prepare run fin)
  from emits_result[OF nowrite_storyPrepare prepare] obtain e1
    where e1: "trace w1 = trace w @ e1" "list_all (\<lambda>ev. \<not> isDbWrite ev) e1" by blast
  from emits_result[OF nowrite_storyRun run] obtain e2
    where e2: "trace w2 = trace w1 @ e2" "list_all (\<lambda>ev. \<not> isDbWrite ev) e2" by blast
  have nw: "\<exists>evs. trace w2 = trace w @ evs \<and> list_all (\<lambda>ev. \<not> isDbWrite ev) evs"
    using e1 e2 by (intro exI[of _ "e1 @ e2"]) simp
  have item: "(\<lambda>item. sr_clipId item @ lit '':'' @
                 (case sr_error item of
                    Some reason \<Rightarrow> if reason \<noteq> [] then reason else lit ''unknown error''
                  | None \<Rightarrow> lit ''unknown error'')) = failurePreviewItem"
    by (auto simp: failurePreviewItem_def orEmpty_def fun_eq_iff split: option.splits)
  have msg: "partialFailureMessage result =
       lit ''STORY_TO_SCRIPT_PARTIAL_FAILED: '' @ showInt (screenplayFailedCount (summary result)) @
       lit ''/'' @ showInt (clipCount (summary result)) @ lit '' screenplay steps failed. '' @
       join (lit '' | '')
         (map (\<lambda>item. sr_clipId item @ lit '':'' @
                 (case sr_error item of
                    Some reason \<Rightarrow> if reason \<noteq> [] then reason else lit ''unknown error''
                  | None \<Rightarrow> lit ''unknown error''))
            (take 3 (filter (\<lambda>item. \<not> sr_success item) (screenplayResults result))))"
    unfolding item by (simp add: partialFailureMessage_def failurePreview_def)
  show ?thesis
    using h fin nw msg sublist_message[of result] sublist_clipId[of result]
    by (intro conjI) simp_all
qed

text \<open>The unit test's partial failure: one failed item of one.\<close>

theorem C2_partial_failure_witness:
  "handleStoryToScriptTask testEnv (storyDepsReturning testFailedResult) testJob testWorld =
     (Inl (Error (lit ''STORY_TO_SCRIPT_PARTIAL_FAILED: 1/1 screenplay steps failed. clip-3:bad screenplay json'')),
      testOrchestrated) \<and>
   db testOrchestrated = db testWorld \<and>
   sublist (lit ''clip-3'') (partialFailureMessage testFailedResult)"
proof -
  have f: "screenplayFailedCount (summary testFailedResult) > 0" by (simp add: testFailedResult_def)
  note c = C2_partial_failure[OF test_storyPrepare test_storyRun f]
  have m: "partialFailureMessage testFailedResult =
      lit ''STORY_TO_SCRIPT_PARTIAL_FAILED: 1/1 screenplay steps failed. clip-3:bad screenplay json''"
    by (simp add: partialFailureMessage_def failurePreview_def failurePreviewItem_def
        testFailedResult_def showInt_1 orEmpty_def lit_append[symmetric])
  from c have "screenplayResults testFailedResult = [hd (screenplayResults testFailedResult)] \<and>
      \<not> sr_success (hd (screenplayResults testFailedResult)) \<longrightarrow>
      sublist (sr_clipId (hd (screenplayResults testFailedResult))) (partialFailureMessage testFailedResult)"
    by blast
  then have s: "sublist (lit ''clip-3'') (partialFailureMessage testFailedResult)"
    by (simp add: testFailedResult_def)
  show ?thesis using c s by (simp add: m testOrchestrated_def)
qed

section \<open>The analysis model\<close>

lemma usesModel_runStep: "emits (usesModel (ctx_model C)) (runStep E N C meta prompt action n)"
  unfolding emits_def
proof
  fix w
  show "\<exists>evs. trace (snd (runStep E N C meta prompt action n w)) = trace w @ evs \<and>
       list_all (usesModel (ctx_model C)) evs"
    by (cases "taskTerminated E (trace w @ [AssertTaskActive (lit (checkpointPrefix N) @ stepId meta)])")
       (auto simp: runStep_def assertTaskActive_def reportTaskProgress_def callChatCompletion_def io_defs
             split: sum.splits)
qed

lemma usesModel_write: "isWrite ev \<Longrightarrow> usesModel m ev"
  by (cases ev) (auto simp: isWrite_def)

lemma usesModel_checkpoint:
  "emits isWrite m \<Longrightarrow> emits (usesModel model) (andThen (assertTaskActive E l) (\<lambda>_. m))"
proof (rule emits_andThen)
  show "emits (usesModel model) (assertTaskActive E l)"
    by (auto simp: emits_def assertTaskActive_def io_defs)
  show "emits (usesModel model) m" if "emits isWrite m"
    using that by (rule emits_mono) (rule usesModel_write)
qed

lemma usesModel_storyRun: "emits (usesModel (ctx_model C)) (storyRun E S job C novel content)"
  unfolding storyRun_def
  by (intro emits_intros emits_runOrch usesModel_runStep emits_report emits_emit) simp_all

lemma usesModel_boardRun: "emits (usesModel (ctx_model C)) (boardRun E B job C novel episode)"
  unfolding boardRun_def
  by (intro emits_intros emits_runOrch usesModel_runStep emits_report emits_emit
        emits_mono[OF quiet_logParseError])
     (simp_all add: isQuiet_def usesModel_write isWrite_def)

lemma usesModel_storyFinish: "emits (usesModel m) (storyFinish E S job novel result)"
  unfolding storyFinish_def storyPersist_def
  by (intro emits_andThen usesModel_checkpoint emits_report)
     (auto simp: isWrite_def writes_updateScreenplays intro!: emits_intros)

lemma usesModel_voiceTry: "emits (usesModel (ctx_model C)) (voiceTry E B C prompt meta k)"
  unfolding voiceTry_def by (intro emits_intros usesModel_runStep) simp

lemma usesModel_voiceLoop: "emits (usesModel (ctx_model C)) (voiceLoop E B C prompt meta k lastErr)"
proof (induction E B C prompt meta k lastErr rule: voiceLoop.induct)
  case (1 E B C prompt meta voiceAttempt voiceLastError)
  then show ?case
    by (subst voiceLoop.simps)
       (auto intro!: emits_intros usesModel_voiceTry split: option.splits)
qed

lemma writes_voiceTransaction:
  "emits isWrite (transaction t (andThen (voiceLineDeleteMany eid) (\<lambda>_. createVoiceLines E B pm eid 0 rows)))"
  apply (rule emits_transaction)
   apply (simp add: isWrite_def)
  apply (rule emits_andThen)
   apply (auto simp: emits_def voiceLineDeleteMany_def io_defs isWrite_def)[1]
  apply (rule writes_createVoiceLines)
  done

lemma usesModel_boardFinish:
  "emits (usesModel (ctx_model C)) (boardFinish E B job C novel episode result)"
  unfolding boardFinish_def boardPersistStoryboards_def persistStoryboardsAndPanels_def
    boardVoiceAnalyze_def boardPersistVoiceLines_def
  by (intro emits_andThen usesModel_checkpoint emits_report writes_voiceTransaction)
     (auto simp: isWrite_def usesModel_voiceLoop intro!: emits_intros)


lemma resolveModel_unconfigured:
  assumes "getProjectModelConfig E (job_projectId job) (job_userId job) (db w) = Inr config"
    and "chooseModel im config = []"
  shows "resolveModel E job im req w =
     (Inl (Error (lit ''analysisModel is not configured'')),
      w\<lparr>trace := trace w @ [GetProjectModelConfig (job_projectId job) (job_userId job)]\<rparr>)"
  using assms by (simp add: resolveModel_def io_defs)

lemma resolveModel_configured:
  assumes "getProjectModelConfig E (job_projectId job) (job_userId job) (db w) = Inr config"
    and "chooseModel im config \<noteq> []"
  shows "resolveModel E job im req w =
     (case resolveCapabilityOptions E (job_projectId job) (job_userId job) (chooseModel im config) (db w) of
        Inl err \<Rightarrow> Inl err
      | Inr cap \<Rightarrow> Inr (chooseModel im config, chooseReasoningEffort req cap),
      w\<lparr>trace := trace w @ [GetProjectModelConfig (job_projectId job) (job_userId job),
          ResolveCapabilityOptions (job_projectId job) (job_userId job) (chooseModel im config)]\<rparr>)"
  using assms by (simp add: resolveModel_def io_defs split: sum.splits)

lemma story_after_model:
  assumes load: "storyLoad S job w = (Inr (project, novel, episode), w1)"
    and model: "resolveModel E job (storyInputModel S job)
                  (parseEffort S (field (payloadOf job) ''reasoningEffort'')) w1 = (r, w2)"
    and r: "case r of Inl err \<Rightarrow> True | Inr (m', eff) \<Rightarrow> m' = m"
  shows "\<exists>evs. trace (snd (handleStoryToScriptTask E S job w)) = trace w2 @ evs \<and>
           list_all (usesModel m) evs"
proof (cases r)
  case (Inl err)
  then have "handleStoryToScriptTask E S job w = (Inl err, w2)"
    by (simp add: handleStoryToScriptTask_def storyPrepare_def andThen_def load model)
  then show ?thesis by simp
next
  case (Inr p)
  then obtain eff where p: "r = Inr (m, eff)" using r by (cases p) auto
  let ?C = "storyContext S job m eff"
  note prep = storyPrepare_content[OF load model[unfolded p]]
  show ?thesis
  proof (cases "storyContent (asString S (field (payloadOf job) ''content'')) (novelText episode)")
    case (Inl err)
    then have "handleStoryToScriptTask E S job w = (Inl err, w2)"
      by (simp add: handleStoryToScriptTask_def andThen_def prep)
    then show ?thesis by simp
  next
    case (Inr content)
    then have h: "handleStoryToScriptTask E S job w =
        andThen (storyRun E S job ?C novel content) (storyFinish E S job novel) w2"
      by (simp add: handleStoryToScriptTask_def andThen_def prep)
    have "ctx_model ?C = m" by (simp add: storyContext_def)
    then have "emits (usesModel m) (andThen (storyRun E S job ?C novel content) (storyFinish E S job novel))"
      using usesModel_storyRun[of ?C E S job novel content]
      by (intro emits_andThen usesModel_storyFinish) simp
    then show ?thesis unfolding h emits_def by blast
  qed
qed

lemma board_after_model:
  assumes load: "boardLoad job w = (Inr (project, novel, episode), w1)"
    and model: "resolveModel E job (boardInputModel job)
                  (b_parseEffort B (field (payloadOf job) ''reasoningEffort'')) w1 = (r, w2)"
    and r: "case r of Inl err \<Rightarrow> True | Inr (m', eff) \<Rightarrow> m' = m"
  shows "\<exists>evs. trace (snd (handleScriptToStoryboardTask E B job w)) = trace w2 @ evs \<and>
           list_all (usesModel m) evs"
proof (cases r)
  case (Inl err)
  then have "handleScriptToStoryboardTask E B job w = (Inl err, w2)"
    by (simp add: handleScriptToStoryboardTask_def boardPrepare_def andThen_def load model)
  then show ?thesis by simp
next
  case (Inr p)
  then obtain eff where p: "r = Inr (m, eff)" using r by (cases p) auto
  let ?C = "boardContext B job m eff"
  have h: "handleScriptToStoryboardTask E B job w =
        andThen (boardRun E B job ?C novel episode) (boardFinish E B job ?C novel episode) w2"
    by (simp add: handleScriptToStoryboardTask_def boardPrepare_def andThen_def load model p succeed_def)
  have "ctx_model ?C = m" by (simp add: boardContext_def)
  then have "emits (usesModel m) (andThen (boardRun E B job ?C novel episode)
      (boardFinish E B job ?C novel episode))"
    using usesModel_boardRun[of ?C E B job novel episode] usesModel_boardFinish[of ?C E B job novel episode]
    by (intro emits_andThen) simp_all
  then show ?thesis unfolding h emits_def by blast
qed

lemma test_boardLoad:
  "boardLoad testJob testWorld = (Inr (testProject, testNovel, testEpisode), testLoaded)"
proof -
  have "boardEpisodeId testJob = lit ''episode-1''"
    by (simp add: boardEpisodeId_def test_job_fields trim_episode)
  then show ?thesis
    by (simp add: boardLoad_def loadProject_def loadEpisode_def io_defs fixture_defs testLoaded_def
        test_job_fields)
qed

lemma test_inputModels: "storyInputModel testStoryDeps testJob = []" "boardInputModel testJob = []"
  by (simp_all add: storyInputModel_def boardInputModel_def testStoryDeps_def test_job_fields trim_def)

section \<open>The retry of the voice analysis\<close>








section \<open>The voice lines and their panels\<close>

lemma createVoiceLines_result:
  "createVoiceLines E B pm eid i rows w = (r, w') \<Longrightarrow>
     (case voiceLinesOfRows E B pm eid i rows of
        Inl err \<Rightarrow> r = Inl err
      | Inr ds \<Rightarrow>
          (\<exists>ids. r = Inr ids \<and> length ids = length ds \<and>
             db w' = (db w)\<lparr>voiceLines := voiceLines (db w) @ voiceLineRows ids ds\<rparr> \<and>
             trace w' = trace w @ map VoiceLineCreate ds))"
proof (induction rows arbitrary: i w r w')
  case Nil
  then show ?case by (simp add: succeed_def voiceLineRows_def)
next
  case (Cons row rows)
  show ?case
  proof (cases "voiceLineOfRow E B pm eid i (rowOrEmpty row)")
    case (Inl err)
    then show ?thesis using Cons.prems by (simp add: io_defs)
  next
    case (Inr d)
    let ?id = "newVoiceLineId B (trace w @ [VoiceLineCreate d])"
    let ?w1 = "w\<lparr>trace := trace w @ [VoiceLineCreate d],
                  db := (db w)\<lparr>voiceLines := voiceLines (db w) @ [\<lparr>vl_id = ?id, vl_data = d\<rparr>]\<rparr>\<rparr>"
    obtain r2 w2 where rec: "createVoiceLines E B pm eid (Suc i) rows ?w1 = (r2, w2)"
      by (cases "createVoiceLines E B pm eid (Suc i) rows ?w1")
    have step: "createVoiceLines E B pm eid i (row # rows) w =
        (case r2 of Inl err \<Rightarrow> (Inl err, w2) | Inr created \<Rightarrow> (Inr (?id # created), w2))"
      using rec by (simp add: Inr io_defs voiceLineCreate_def split: sum.splits)
    note ih = Cons.IH[OF rec]
    show ?thesis
    proof (cases "voiceLinesOfRows E B pm eid (Suc i) rows")
      case (Inl err)
      then show ?thesis using ih step Cons.prems Inr by simp
    next
      case ds: (Inr ds)
      then obtain ids where ids: "r2 = Inr ids" "length ids = length ds"
        "db w2 = (db ?w1)\<lparr>voiceLines := voiceLines (db ?w1) @ voiceLineRows ids ds\<rparr>"
        "trace w2 = trace ?w1 @ map VoiceLineCreate ds"
        using ih by auto
      have "r = Inr (?id # ids)" "w' = w2" using step Cons.prems ids(1) by simp_all
      then show ?thesis using ids ds Inr
        by (simp add: voiceLineRows_def)
    qed
  qed
qed

lemma voiceLinesOfRows_length:
  "voiceLinesOfRows E B pm eid i rows = Inr ds \<Longrightarrow> length ds = length rows"
  by (induction rows arbitrary: i ds) (auto split: sum.splits)

lemma voiceLinesOfRows_nth:
  "voiceLinesOfRows E B pm eid i rows = Inr ds \<Longrightarrow> j < length rows \<Longrightarrow>
     voiceLineOfRow E B pm eid (i + j) (rowOrEmpty (rows ! j)) = Inr (ds ! j)"
proof (induction rows arbitrary: i ds j)
  case Nil
  then show ?case by simp
next
  case (Cons row rows)
  show ?case
  proof (cases j)
    case 0
    then show ?thesis using Cons.prems by (auto split: sum.splits)
  next
    case (Suc n)
    from Cons.prems obtain d ds' where d: "voiceLinesOfRows E B pm eid (Suc i) rows = Inr ds'"
      "ds = d # ds'"
      by (auto split: sum.splits)
    have "n < length rows" using Cons.prems Suc by simp
    from Cons.IH[OF d(1) this] show ?thesis using Suc d by simp
  qed
qed

lemma voiceLinesOfRows_fails:
  "j < length rows \<Longrightarrow> voiceLineOfRow E B pm eid (i + j) (rowOrEmpty (rows ! j)) = Inl err \<Longrightarrow>
     \<exists>err'. voiceLinesOfRows E B pm eid i rows = Inl err'"
  using voiceLinesOfRows_nth[of E B pm eid i rows _ j]
  by (cases "voiceLinesOfRows E B pm eid i rows") auto

lemma persistVoiceLines_active:
  assumes active: "\<not> taskTerminated E (trace w @ [AssertTaskActive (lit ''script_to_storyboard_voice_persist'')])"
    and run: "boardPersistVoiceLines E B eid ps rows w = (r, w')"
  shows "case voiceLinesOfRows E B (panelIdByStoryboardPanel ps) eid 0 rows of
           Inl err \<Rightarrow> r = Inl err \<and> db w' = db w
         | Inr ds \<Rightarrow>
             (\<exists>ids. r = Inr ids \<and> length ids = length ds \<and>
                db w' = (db w)\<lparr>voiceLines :=
                  filter (\<lambda>r. vl_episodeId (vl_data r) \<noteq> eid) (voiceLines (db w)) @
                  voiceLineRows ids ds\<rparr> \<and>
                trace w' = trace w @
                  [AssertTaskActive (lit ''script_to_storyboard_voice_persist''),
                   Transaction 15000, VoiceLineDeleteMany eid] @ map VoiceLineCreate ds)"
proof -
  let ?pm = "panelIdByStoryboardPanel ps"
  let ?w0 = "w\<lparr>trace := trace w @ [AssertTaskActive (lit ''script_to_storyboard_voice_persist''),
        Transaction 15000]\<rparr>"
  let ?w1 = "w\<lparr>trace := trace w @ [AssertTaskActive (lit ''script_to_storyboard_voice_persist''),
        Transaction 15000, VoiceLineDeleteMany eid],
      db := (db w)\<lparr>voiceLines := filter (\<lambda>r. vl_episodeId (vl_data r) \<noteq> eid) (voiceLines (db w))\<rparr>\<rparr>"
  obtain r2 w2 where rec: "createVoiceLines E B ?pm eid 0 rows ?w1 = (r2, w2)"
    by (cases "createVoiceLines E B ?pm eid 0 rows ?w1")
  have eq: "boardPersistVoiceLines E B eid ps rows w =
      (case r2 of Inl err \<Rightarrow> (Inl err, w2\<lparr>db := db w\<rparr>) | Inr x \<Rightarrow> (Inr x, w2))"
    using active rec
    by (simp add: boardPersistVoiceLines_def assertTaskActive_def transaction_def
        voiceLineDeleteMany_def io_defs split: sum.splits)
  note res = createVoiceLines_result[OF rec]
  show ?thesis
  proof (cases "voiceLinesOfRows E B ?pm eid 0 rows")
    case (Inl err)
    then show ?thesis using res eq run by auto
  next
    case (Inr ds)
    then show ?thesis using res eq run by auto
  qed
qed

lemma persistVoiceLines_throws_unchanged:
  assumes "\<exists>err. voiceLinesOfRows E B (panelIdByStoryboardPanel ps) eid 0 rows = Inl err"
  shows "\<exists>err w'. boardPersistVoiceLines E B eid ps rows w = (Inl err, w') \<and> db w' = db w"
proof (cases "taskTerminated E (trace w @ [AssertTaskActive (lit ''script_to_storyboard_voice_persist'')])")
  case True
  then show ?thesis using boardPersistVoiceLines_terminated[OF True] by simp
next
  case False
  obtain r w' where run: "boardPersistVoiceLines E B eid ps rows w = (r, w')"
    by (cases "boardPersistVoiceLines E B eid ps rows w")
  from persistVoiceLines_active[OF False run] assms show ?thesis using run by auto
qed


lemma digits_range: "c \<in> set (digits n) \<Longrightarrow> 48 \<le> c \<and> c \<le> 57"
proof (induction n arbitrary: c rule: digits.induct)
  case (1 n)
  show ?case
  proof (cases "n < 10")
    case True
    then have "digits n = [48 + n]" by (subst digits.simps) simp
    then show ?thesis using "1.prems" True by simp
  next
    case False
    have "c \<in> set (digits (n div 10)) \<or> c = 48 + n mod 10"
      using "1.prems" False by (subst (asm) digits.simps) auto
    then show ?thesis using "1.IH"[OF False] by auto
  qed
qed

lemma digits_nonempty: "digits n \<noteq> []"
  by (subst digits.simps) simp

lemma digits_inj: "digits m = digits n \<Longrightarrow> m = n"
proof (induction m arbitrary: n rule: digits.induct)
  case (1 m)
  show ?case
  proof (cases "m < 10")
    case True
    show ?thesis
    proof (cases "n < 10")
      case n: True
      then have "digits n = [48 + n]" by (subst digits.simps) simp
      moreover have "digits m = [48 + m]" using True by (subst digits.simps) simp
      ultimately show ?thesis using "1.prems" by simp
    next
      case False
      then have "digits n = digits (n div 10) @ [48 + n mod 10]" by (subst digits.simps) simp
      moreover have "digits m = [48 + m]" using True by (subst digits.simps) simp
      ultimately show ?thesis using "1.prems" digits_nonempty[of "n div 10"]
        by (cases "digits (n div 10)") auto
    qed
  next
    case False
    then have m: "digits m = digits (m div 10) @ [48 + m mod 10]" by (subst digits.simps) simp
    show ?thesis
    proof (cases "n < 10")
      case True
      then have "digits n = [48 + n]" by (subst digits.simps) simp
      then show ?thesis using "1.prems" m digits_nonempty[of "m div 10"]
        by (cases "digits (m div 10)") auto
    next
      case n: False
      then have "digits n = digits (n div 10) @ [48 + n mod 10]" by (subst digits.simps) simp
      then have "digits (m div 10) = digits (n div 10)" "m mod 10 = n mod 10"
        using "1.prems" m by auto
      then have "m div 10 = n div 10" "m mod 10 = n mod 10" using "1.IH"[OF False] by auto
      then show ?thesis by (metis div_mult_mod_eq)
    qed
  qed
qed

lemma showInt_no_colon: "58 \<notin> set (showInt i)"
  using digits_range[of 58] by (auto simp: showInt_def)

lemma showInt_inj: "showInt i = showInt j \<Longrightarrow> i = j"
proof -
  assume eq: "showInt i = showInt j"
  have hd: "hd (digits n) \<noteq> 45" for n
    using digits_range[of "hd (digits n)" n] digits_nonempty[of n] by (cases "digits n") auto
  have sign: "hd (showInt k) = 45 \<longleftrightarrow> k < 0" for k
    using hd[of "nat k"] by (simp add: showInt_def)
  have same: "i < 0 \<longleftrightarrow> j < 0" using sign[of i] sign[of j] eq by simp
  show ?thesis
  proof (cases "i < 0")
    case True
    then have j: "j < 0" using same by simp
    then have "digits (nat (- i)) = digits (nat (- j))" using eq True by (simp add: showInt_def)
    then have "nat (- i) = nat (- j)" by (rule digits_inj)
    then show ?thesis using True j by simp
  next
    case False
    then have j: "\<not> j < 0" using same by simp
    then have "digits (nat i) = digits (nat j)" using eq False by (simp add: showInt_def)
    then have "nat i = nat j" by (rule digits_inj)
    then show ?thesis using False j by simp
  qed
qed

lemma split_at_first:
  "x \<notin> set xs \<Longrightarrow> x \<notin> set xs' \<Longrightarrow> xs @ x # ys = xs' @ x # ys' \<Longrightarrow> xs = xs' \<and> ys = ys'"
proof (induction xs arbitrary: xs')
  case Nil
  then show ?case by (cases xs') auto
next
  case (Cons a xs)
  then show ?case by (cases xs') auto
qed

lemma panelKey_inj: "panelKey s i = panelKey t j \<longleftrightarrow> s = t \<and> i = j"
proof
  assume "panelKey s i = panelKey t j"
  then have "s @ 58 # showInt i = t @ 58 # showInt j"
    by (simp add: panelKey_def lit_def)
  then have "rev (s @ 58 # showInt i) = rev (t @ 58 # showInt j)" by (rule arg_cong)
  then have e: "rev (showInt i) @ 58 # rev s = rev (showInt j) @ 58 # rev t" by simp
  have n: "58 \<notin> set (rev (showInt i))" "58 \<notin> set (rev (showInt j))"
    using showInt_no_colon by simp_all
  have "rev (showInt i) = rev (showInt j) \<and> rev s = rev t"
    using n e by (rule split_at_first)
  then have q: "showInt i = showInt j" and "s = t" by simp_all
  then show "s = t \<and> i = j" using showInt_inj[OF q] by simp
next
  assume "s = t \<and> i = j"
  then show "panelKey s i = panelKey t j" by simp
qed

lemma setPanels_fold:
  "foldl (\<lambda>m' panel. m'(panelKey sid (panelIndex panel) \<mapsto> panel_id panel)) m xs k = Some v \<Longrightarrow>
     m k = Some v \<or> (\<exists>p \<in> set xs. k = panelKey sid (panelIndex p) \<and> v = panel_id p)"
proof (induction xs arbitrary: m)
  case Nil
  then show ?case by simp
next
  case (Cons x xs)
  from Cons.IH[OF Cons.prems[unfolded foldl_Cons]]
  show ?case by (auto split: if_splits)
qed

lemma setPanels_Some:
  "setPanels m sb k = Some v \<Longrightarrow>
     m k = Some v \<or> (\<exists>p \<in> set (panels sb). k = panelKey (storyboardId sb) (panelIndex p) \<and> v = panel_id p)"
  unfolding setPanels_def by (rule setPanels_fold)

lemma panelMap_Some:
  "panelIdByStoryboardPanel ps k = Some v \<Longrightarrow>
     \<exists>sb \<in> set ps. \<exists>p \<in> set (panels sb). k = panelKey (storyboardId sb) (panelIndex p) \<and> v = panel_id p"
proof -
  have "foldl setPanels m ps k = Some v \<Longrightarrow>
     m k = Some v \<or> (\<exists>sb \<in> set ps. \<exists>p \<in> set (panels sb).
        k = panelKey (storyboardId sb) (panelIndex p) \<and> v = panel_id p)" for m
  proof (induction ps arbitrary: m)
    case Nil
    then show ?case by simp
  next
    case (Cons sb ps)
    from Cons.IH[of "setPanels m sb"] Cons.prems
    have "setPanels m sb k = Some v \<or> (\<exists>sb \<in> set ps. \<exists>p \<in> set (panels sb).
        k = panelKey (storyboardId sb) (panelIndex p) \<and> v = panel_id p)" by simp
    then show ?case using setPanels_Some[of m sb k v] by auto
  qed
  from this[of Map.empty] show "panelIdByStoryboardPanel ps k = Some v \<Longrightarrow> ?thesis"
    unfolding panelIdByStoryboardPanel_def by simp
qed

lemma panelMap_None:
  assumes "\<forall>sb \<in> set ps. \<forall>p \<in> set (panels sb). (storyboardId sb, panelIndex p) \<noteq> (s, i)"
  shows "panelIdByStoryboardPanel ps (panelKey s i) = None"
proof (cases "panelIdByStoryboardPanel ps (panelKey s i)")
  case (Some v)
  from panelMap_Some[OF this] assms show ?thesis by (auto simp: panelKey_inj)
qed simp


lemma handler_at_voice_persist:
  assumes "reachesVoicePersist E B job w0 r ps rows w"
  shows "handleScriptToStoryboardTask E B job w0 = boardAfterVoice E B job r ps rows w"
  using assms
  by (auto simp: reachesVoicePersist_def handleScriptToStoryboardTask_def boardFinish_def
      boardAfterVoice_def andThen_def)

lemma boardAfterVoice_throws:
  assumes "boardPersistVoiceLines E B (boardEpisodeId job) ps rows w = (Inl err, w')"
  shows "boardAfterVoice E B job r ps rows w = (Inl err, w')"
  using assms by (simp add: boardAfterVoice_def andThen_def)

lemma dangling_resolve:
  assumes "danglingPanelRef B ps row"
  shows "\<exists>err. resolveMatchedPanel B (panelIdByStoryboardPanel ps) i row = Inl err \<and>
           (err = voiceLineError i '' has invalid matchedPanel reference'' \<or>
            (\<exists>key. err = missingPanelError i key))"
proof -
  from assms obtain mp where mp: "asJsonRecord B (field row ''matchedPanel'') = Some mp"
    by (auto simp: danglingPanelRef_def split: option.splits)
  show ?thesis
  proof (cases "toPositiveInt B (field mp ''panelIndex'')")
    case None
    then show ?thesis by (simp add: resolveMatchedPanel_def mp matchedPanelIndexOf_def)
  next
    case (Some idx)
    show ?thesis
    proof (cases "\<exists>sid. field mp ''storyboardId'' = JString sid")
      case False
      then have "matchedStoryboardIdOf (Some mp) = None"
        by (cases "field mp ''storyboardId''") (auto simp: matchedStoryboardIdOf_def)
      then show ?thesis
        by (simp add: resolveMatchedPanel_def mp matchedPanelIndexOf_def Some orEmpty_def)
    next
      case True
      then obtain sid where sid: "field mp ''storyboardId'' = JString sid" by blast
      have "\<forall>sb \<in> set ps. \<forall>p \<in> set (panels sb). (storyboardId sb, panelIndex p) \<noteq> (trim sid, idx)"
        using assms by (simp add: danglingPanelRef_def mp sid Some list_all_iff)
      then have "panelIdByStoryboardPanel ps (panelKey (trim sid) idx) = None"
        by (rule panelMap_None)
      then show ?thesis
        by (auto simp: resolveMatchedPanel_def mp matchedPanelIndexOf_def Some
            matchedStoryboardIdOf_def sid orEmpty_def)
    qed
  qed
qed

lemma dangling_fails:
  assumes "j < length rows" and "danglingPanelRef B ps (rowOrEmpty (rows ! j))"
  shows "\<exists>err. voiceLinesOfRows E B (panelIdByStoryboardPanel ps) eid 0 rows = Inl err"
proof -
  from dangling_resolve[OF assms(2), of j] obtain err
    where "resolveMatchedPanel B (panelIdByStoryboardPanel ps) j (rowOrEmpty (rows ! j)) = Inl err"
    by blast
  then have "voiceLineOfRow E B (panelIdByStoryboardPanel ps) eid (0 + j) (rowOrEmpty (rows ! j)) = Inl err"
    by (simp add: voiceLineOfRow_def)
  from voiceLinesOfRows_fails[OF assms(1) this] show ?thesis .
qed

text \<open>
  C1. A voice line whose \<open>matchedPanel\<close> is not null and does not resolve against the
  panels persisted in this run. Whatever the other rows are, the persistence of the voice
  lines throws, and the database after it is the database before it: the \<open>deleteMany\<close>
  and every \<open>create\<close> of the transaction are undone, so the voice lines of the episode
  are the ones it had. What is thrown for the row itself is
  \<open>voice line N has invalid matchedPanel reference\<close> or
  \<open>voice line N references non-existent panel KEY\<close>. A run of the handler that reaches
  the persistence of the voice lines with such a row throws, with the database as it was
  then.
\<close>

theorem C1_dangling_panel:
  assumes row: "j < length rows" and dangling: "danglingPanelRef B ps (rowOrEmpty (rows ! j))"
  shows
    "(\<exists>err w'. boardPersistVoiceLines E B eid ps rows w = (Inl err, w') \<and> db w' = db w \<and>
        episodeVoiceLines (db w') eid = episodeVoiceLines (db w) eid) \<and>
     (\<exists>err. resolveMatchedPanel B (panelIdByStoryboardPanel ps) j (rowOrEmpty (rows ! j)) = Inl err \<and>
        (err = voiceLineError j '' has invalid matchedPanel reference'' \<or>
         (\<exists>key. err = missingPanelError j key))) \<and>
     (reachesVoicePersist E B job w0 r ps rows w \<longrightarrow>
        (\<exists>err w'. handleScriptToStoryboardTask E B job w0 = (Inl err, w') \<and> db w' = db w))"
proof -
  from persistVoiceLines_throws_unchanged[OF dangling_fails[OF row dangling], of E eid w]
  have a: "\<exists>err w'. boardPersistVoiceLines E B eid ps rows w = (Inl err, w') \<and> db w' = db w \<and>
        episodeVoiceLines (db w') eid = episodeVoiceLines (db w) eid"
    by auto
  from persistVoiceLines_throws_unchanged[OF dangling_fails[OF row dangling], of E "boardEpisodeId job" w]
  have b: "reachesVoicePersist E B job w0 r ps rows w \<longrightarrow>
        (\<exists>err w'. handleScriptToStoryboardTask E B job w0 = (Inl err, w') \<and> db w' = db w)"
    using handler_at_voice_persist[of E B job w0 r ps rows w] boardAfterVoice_throws[of E B job ps rows w]
    by auto
  show ?thesis using a b dangling_resolve[OF dangling, of j] by blast
qed


lemma test_boardContext:
  "boardContext (boardDepsParsing rows) testJob (lit ''llm::analysis-1'') (lit ''high'') = testContext"
  by (simp add: boardContext_def testContext_def storyContext_def boardDepsParsing_def
      testBoardDeps_def testStoryDeps_def)

lemma test_boardPrepare:
  "boardPrepare testEnv (boardDepsParsing rows) testJob testWorld =
     (Inr (testNovel, testEpisode, testContext), testResolved)"
proof -
  have effort: "b_parseEffort (boardDepsParsing rows) v = None" for v
    by (simp add: boardDepsParsing_def testBoardDeps_def)
  show ?thesis
    using test_resolveModel[OF test_job_fields(1,2)]
    by (simp add: boardPrepare_def andThen_def test_boardLoad test_inputModels succeed_def
        test_boardContext effort)
qed

lemma test_reaches:
  "reachesVoicePersist testEnv (boardDepsParsing rows) testJob testWorld testBoardResult
     [testStoryboard] rows testAtVoicePersist"
proof -
  let ?B = "boardDepsParsing rows"
  let ?w2 = "testWorld\<lparr>trace := trace testResolved @ take 7 testBoardCalls\<rparr>"
  let ?w3 = "testWorld\<lparr>trace := trace testResolved @ take 10 testBoardCalls\<rparr>"
  have eid: "boardEpisodeId testJob = lit ''episode-1''"
    by (simp add: boardEpisodeId_def test_job_fields trim_episode)
  have run: "boardRun testEnv ?B testJob testContext testNovel testEpisode testResolved =
      (Inr testBoardResult, ?w2)"
    by (simp add: boardRun_def boardDepsParsing_def testBoardDeps_def oneStep_def
        runStep_def assertTaskActive_def reportTaskProgress_def callChatCompletion_def io_defs
        testEnv_def scriptToStoryboardNames_def testBoardCalls_def stepProgress_def testStep_def
        testContext_def storyContext_def test_job_fields testResolved_def testWorld_def
        lit_append[symmetric])
  have persist: "boardPersistStoryboards testEnv ?B (lit ''episode-1'') testBoardResult ?w2 =
      (Inr [testStoryboard], ?w3)"
    by (simp add: boardPersistStoryboards_def persistStoryboardsAndPanels_def assertTaskActive_def
        reportTaskProgress_def io_defs testEnv_def boardDepsParsing_def testBoardDeps_def
        testBoardCalls_def testWorld_def testDb_def testResolved_def)
  have voice: "boardVoiceAnalyze testEnv ?B testJob testContext testNovel testEpisode testBoardResult
      [testStoryboard] ?w3 = (Inr rows, testAtVoicePersist)"
    by (subst boardVoiceAnalyze_def, subst voiceLoop.simps)
       (simp add: voiceTry_def voicePrompt_def voiceAttemptMeta_def voiceStepMeta_def
        testEpisode_def orEmpty_def trim_def lit_def isWhiteSpace_def
        runStep_def assertTaskActive_def reportTaskProgress_def callChatCompletion_def io_defs
        testEnv_def scriptToStoryboardNames_def testBoardCalls_def stepProgress_def
        testContext_def storyContext_def test_job_fields testResolved_def testWorld_def
        testAtVoicePersist_def boardDepsParsing_def testBoardDeps_def testBoardResult_def)
  show ?thesis
    unfolding reachesVoicePersist_def eid
    using test_boardPrepare run persist voice by blast
qed


lemma test_dangling:
  "danglingPanelRef (boardDepsParsing danglingRows) [testStoryboard] (rowOrEmpty (danglingRows ! 0))"
  by (simp add: danglingPanelRef_def danglingRows_def boardDepsParsing_def testBoardDeps_def
      testVoiceRow_def testPanelRef_def testStoryboard_def rowOrEmpty_def
      trim_def lit_def isWhiteSpace_def)

text \<open>
  The voice line of the fixtures pointed at panel 2: the line the table held stays, and
  the run of the handler throws and leaves the table empty as it was.
\<close>

theorem C1_dangling_panel_witness:
  "(\<exists>err w'. boardPersistVoiceLines testEnv (boardDepsParsing danglingRows) (lit ''episode-1'')
       [testStoryboard] danglingRows oldWorld = (Inl err, w') \<and>
       voiceLines (db w') = [oldVoiceLine]) \<and>
   (\<exists>err w'. handleScriptToStoryboardTask testEnv (boardDepsParsing danglingRows) testJob testWorld =
       (Inl err, w') \<and> voiceLines (db w') = [])"
proof -
  have j: "0 < length danglingRows" by (simp add: danglingRows_def)
  note old = C1_dangling_panel[OF j test_dangling, where E=testEnv and eid="lit ''episode-1''"
      and w=oldWorld and job=testJob and ?w0.0=testWorld and r=testBoardResult]
  note run = C1_dangling_panel[OF j test_dangling, where E=testEnv and eid="lit ''episode-1''"
      and w=testAtVoicePersist and job=testJob and ?w0.0=testWorld and r=testBoardResult]
  from old have a: "\<exists>err w'. boardPersistVoiceLines testEnv (boardDepsParsing danglingRows)
      (lit ''episode-1'') [testStoryboard] danglingRows oldWorld = (Inl err, w') \<and>
      db w' = db oldWorld"
    by blast
  from run test_reaches[of danglingRows]
  have b: "\<exists>err w'. handleScriptToStoryboardTask testEnv (boardDepsParsing danglingRows) testJob
      testWorld = (Inl err, w') \<and> db w' = db testAtVoicePersist"
    by blast
  have "voiceLines (db oldWorld) = [oldVoiceLine]" "voiceLines (db testAtVoicePersist) = []"
    by (simp_all add: oldWorld_def testAtVoicePersist_def testWorld_def testDb_def)
  with a b show ?thesis by auto
qed

section \<open>The order of the progress reports\<close>

lemma testBoardDeps_parsing:
  "testBoardDeps = boardDepsParsing [testVoiceRow (testPanelRef ''sb-1'' 1)]"
  by (simp add: boardDepsParsing_def testBoardDeps_def)

lemma test_story_reports:
  "\<exists>res w'. handleStoryToScriptTask testEnv testStoryDeps testJob testWorld = (Inr res, w') \<and>
     progressReports (trace w') = [10, 28, 80, 96]"
proof -
  have deps: "testStoryDeps = storyDepsReturning testResult"
    by (simp add: storyDepsReturning_def testStoryDeps_def)
  have persist: "\<exists>res w'. storyPersist testEnv testStoryDeps (lit ''episode-1'') testNovel testResult
      testOrchestrated = (Inr res, w') \<and> progressReports (trace w') = [10, 28, 80, 96]"
    by (simp add: testResult_def storyPersist_def
        reportTaskProgress_def assertTaskActive_def io_defs testEnv_def
        testOrchestrated_def testResolved_def testWorld_def testDb_def testStepCalls_def
        testStoryDeps_def clipIdMap_def)
  have finish: "\<exists>res w'. storyFinish testEnv testStoryDeps testJob testNovel testResult testOrchestrated =
      (Inr res, w') \<and> progressReports (trace w') = [10, 28, 80, 96]"
    unfolding storyFinish_def test_storyEpisodeId using persist
    by (simp add: storyPartialFailure_def testResult_def io_defs)
  show ?thesis
    using finish test_storyPrepare[of testResult] test_storyRun[of testResult "lit ''input content''"]
    by (simp add: handleStoryToScriptTask_def andThen_def deps[symmetric])
qed


lemma test_board_reports:
  "\<exists>res w'. handleScriptToStoryboardTask testEnv testBoardDeps testJob testWorld = (Inr res, w') \<and>
     progressReports (trace w') = [10, 28, 80, 70, 96]"
proof -
  let ?rows = "[testVoiceRow (testPanelRef ''sb-1'' 1)]"
  have eid: "boardEpisodeId testJob = lit ''episode-1''"
    by (simp add: boardEpisodeId_def test_job_fields trim_episode)
  have run: "handleScriptToStoryboardTask testEnv testBoardDeps testJob testWorld =
      boardAfterVoice testEnv testBoardDeps testJob testBoardResult [testStoryboard] ?rows
        testAtVoicePersist"
    using handler_at_voice_persist[OF test_reaches[of ?rows]]
    by (simp add: testBoardDeps_parsing[symmetric])
  have "\<exists>res w'. boardAfterVoice testEnv testBoardDeps testJob testBoardResult [testStoryboard] ?rows
      testAtVoicePersist = (Inr res, w') \<and> progressReports (trace w') = [10, 28, 80, 70, 96]"
    unfolding boardAfterVoice_def eid
    by (simp add: boardPersistVoiceLines_def transaction_def voiceLineDeleteMany_def
        voiceLineCreate_def voiceLineOfRow_def resolveMatchedPanel_def matchedPanelIndexOf_def
        matchedStoryboardIdOf_def panelIdByStoryboardPanel_def setPanels_def panelKey_def
        rowOrEmpty_def orEmpty_def testVoiceRow_def testPanelRef_def testStoryboard_def
        testBoardDeps_def reportTaskProgress_def assertTaskActive_def io_defs testEnv_def
        testAtVoicePersist_def testResolved_def testWorld_def testDb_def testBoardCalls_def
        trim_def lit_def isWhiteSpace_def showInt_1)
  with run show ?thesis by simp
qed

text \<open>
  C9. The order of the progress reports of a run. The step runner computes
  \<open>15 + min(55, floor((stepIndex / max(1, stepTotal)) * 55))\<close>, which lies between 15 and
  70 and grows with the index (\<open>stepProgress_lower\<close>, \<open>stepProgress_upper\<close>,
  \<open>stepProgress_mono\<close>, \<open>stepProgress_zero\<close>), and the story-to-script handler reports
  10, the band, 80 and 96 in that order. The script-to-storyboard handler does not: its
  voice-analysis step goes through the same step runner after the report of 80, with the
  index and the total both equal to the orchestrator's step count, so that it reports 70
  (\<open>voice_step_progress\<close>). On the fixtures, with one orchestrator step at index 1 of 4,
  the reports of a run that returns are 10, 28, 80, 70, 96. The quotients 1/4 and 1/1 and
  their products with 55 are exact in doubles, so the rounding plays no part here.
\<close>

theorem C9_progress_order:
  "(\<exists>res w'. handleScriptToStoryboardTask testEnv testBoardDeps testJob testWorld = (Inr res, w') \<and>
      progressReports (trace w') = [10, 28, 80, 70, 96] \<and> \<not> sorted (progressReports (trace w'))) \<and>
   (\<exists>res w'. handleStoryToScriptTask testEnv testStoryDeps testJob testWorld = (Inr res, w') \<and>
      progressReports (trace w') = [10, 28, 80, 96] \<and> sorted (progressReports (trace w')))"
proof -
  have "\<not> sorted [10, 28, 80, 70, 96::int]" "sorted [10, 28, 80, 96::int]" by simp_all
  with test_board_reports test_story_reports show ?thesis by metis
qed

section \<open>The content that reaches the model\<close>

lemma same_fields:
  assumes "sameButContent job job'"
  shows "job_projectId job' = job_projectId job" "job_episodeId job' = job_episodeId job"
    "job_userId job' = job_userId job" "job_locale job' = job_locale job"
    "field (payloadOf job') ''episodeId'' = field (payloadOf job) ''episodeId''"
    "field (payloadOf job') ''model'' = field (payloadOf job) ''model''"
    "field (payloadOf job') ''reasoning'' = field (payloadOf job) ''reasoning''"
    "field (payloadOf job') ''reasoningEffort'' = field (payloadOf job) ''reasoningEffort''"
    "field (payloadOf job') ''temperature'' = field (payloadOf job) ''temperature''"
  using assms by (simp_all add: sameButContent_def)

lemma same_storyEpisodeId:
  "sameButContent job job' \<Longrightarrow> storyEpisodeId S job' = storyEpisodeId S job"
  by (simp add: storyEpisodeId_def same_fields)

lemma same_storyLoad: "sameButContent job job' \<Longrightarrow> storyLoad S job' = storyLoad S job"
  by (simp add: storyLoad_def loadProject_def same_storyEpisodeId same_fields cong: if_cong option.case_cong)

lemma same_resolveModel:
  "sameButContent job job' \<Longrightarrow> resolveModel E job' im re = resolveModel E job im re"
  by (simp add: resolveModel_def same_fields cong: if_cong)

lemma same_storyContext:
  "sameButContent job job' \<Longrightarrow> storyContext S job' m eff = storyContext S job m eff"
  by (simp add: storyContext_def reasoningFlag_def same_fields)

lemma same_storyRun:
  "sameButContent job job' \<Longrightarrow> storyRun E S job' C novel content = storyRun E S job C novel content"
  by (simp add: storyRun_def storyOrchestratorInput_def same_fields)

lemma same_storyFinish:
  "sameButContent job job' \<Longrightarrow> storyFinish E S job' novel result = storyFinish E S job novel result"
  by (simp add: storyFinish_def same_storyEpisodeId)

lemma same_handler:
  assumes same: "sameButContent job job'"
    and load: "storyLoad S job w = (Inr (project, novel, episode), w1)"
    and model: "resolveModel E job (storyInputModel S job)
                  (parseEffort S (field (payloadOf job) ''reasoningEffort'')) w1 = (Inr (m, eff), w2)"
    and content: "storyContent (asString S (field (payloadOf job') ''content'')) (novelText episode) =
                  storyContent (asString S (field (payloadOf job) ''content'')) (novelText episode)"
  shows "handleStoryToScriptTask E S job' w = handleStoryToScriptTask E S job w"
proof -
  have load': "storyLoad S job' w = (Inr (project, novel, episode), w1)"
    using load by (simp add: same_storyLoad[OF same])
  have model': "resolveModel E job' (storyInputModel S job')
                  (parseEffort S (field (payloadOf job') ''reasoningEffort'')) w1 = (Inr (m, eff), w2)"
    using model by (simp add: same_resolveModel[OF same] storyInputModel_def same_fields[OF same])
  have "storyPrepare E S job' w = storyPrepare E S job w"
    by (simp add: storyPrepare_content[OF load model] storyPrepare_content[OF load' model'] content
        same_storyContext[OF same] cong: sum.case_cong)
  then show ?thesis
    by (simp add: handleStoryToScriptTask_def andThen_def same_storyRun[OF same]
        same_storyFinish[OF same] split: sum.splits prod.splits)
qed

text \<open>
  C10. The content the story-to-script handler analyses. Once the inputs are loaded and the
  model is resolved, the merged content is the payload's content trimmed, or the episode's
  novel text when that is empty. If the merged content is empty after trimming, the handler
  throws \<open>content is required\<close> there and then. Otherwise it reports 10 percent and runs
  the orchestrator on an input whose content is the first 30000 code units of the merged
  content (all of it when it is not longer), the other fields of the input being the names
  and introductions of the project's characters and locations and the four prompt
  templates. What follows the first 30000 code units has no effect on the run: a job that
  differs only in the content of its payload, with a merged content that has the same
  first 30000 code units, makes the handler return the same result, after the same calls
  with the same arguments (the prompts of the model calls among them), in the same final
  state.
\<close>

theorem C10_content:
  assumes load: "storyLoad S job w = (Inr (project, novel, episode), w1)"
    and model: "resolveModel E job (storyInputModel S job)
                  (parseEffort S (field (payloadOf job) ''reasoningEffort'')) w1 = (Inr (m, eff), w2)"
    and raw: "raw = asString S (field (payloadOf job) ''content'')"
    and merged: "merged = (if trim raw \<noteq> [] then trim raw
                           else case novelText episode of Some t \<Rightarrow> t | None \<Rightarrow> [])"
  shows
    "(if trim merged = []
      then handleStoryToScriptTask E S job w = (Inl (Error (lit ''content is required'')), w2)
      else handleStoryToScriptTask E S job w =
             andThen
               (andThen (reportTaskProgress 10 ''story_to_script_prepare'' None) (\<lambda>_.
                tryFinally
                  (runOrch (runStep E storyToScriptNames (storyContext S job m eff))
                     (runStoryToScriptOrchestrator S
                        \<lparr>in_content = take 30000 merged,
                         baseCharacters = map character_name (characters novel),
                         baseLocations = map location_name (locations novel),
                         baseCharacterIntroductions =
                           map (\<lambda>item. (character_name item, orEmpty (character_introduction item)))
                             (characters novel),
                         characterPromptTemplate =
                           getPromptTemplate E NP_AGENT_CHARACTER_PROFILE (job_locale job),
                         locationPromptTemplate = getPromptTemplate E NP_SELECT_LOCATION (job_locale job),
                         clipPromptTemplate = getPromptTemplate E NP_AGENT_CLIP (job_locale job),
                         screenplayPromptTemplate =
                           getPromptTemplate E NP_SCREENPLAY_CONVERSION (job_locale job)\<rparr>))
                  (emit CallbacksFlush)))
               (storyFinish E S job novel) w2) \<and>
     length (take 30000 merged) \<le> 30000 \<and>
     prefix (take 30000 merged) merged \<and>
     (length merged \<le> 30000 \<longrightarrow> take 30000 merged = merged) \<and>
     (\<forall>job' raw' merged'.
        sameButContent job job' \<and> raw' = asString S (field (payloadOf job') ''content'') \<and>
        merged' = (if trim raw' \<noteq> [] then trim raw'
                   else case novelText episode of Some t \<Rightarrow> t | None \<Rightarrow> []) \<and>
        trim merged \<noteq> [] \<and> trim merged' \<noteq> [] \<and> take 30000 merged' = take 30000 merged \<longrightarrow>
        handleStoryToScriptTask E S job' w = handleStoryToScriptTask E S job w)"
proof -
  have mc: "mergedContent raw (novelText episode) = merged"
    by (simp add: mergedContent_def merged orEmpty_def)
  have prep: "storyPrepare E S job w =
     (if trim merged = [] then (Inl (Error (lit ''content is required'')), w2)
      else (Inr (novel, storyContext S job m eff, take 30000 merged), w2))"
    by (simp add: storyPrepare_content[OF load model] storyContent_eq raw[symmetric] mc)
  have first: "if trim merged = []
      then handleStoryToScriptTask E S job w = (Inl (Error (lit ''content is required'')), w2)
      else handleStoryToScriptTask E S job w =
             andThen (storyRun E S job (storyContext S job m eff) novel (take 30000 merged))
               (storyFinish E S job novel) w2"
    by (simp add: handleStoryToScriptTask_def andThen_def prep)
  have same: "handleStoryToScriptTask E S job' w = handleStoryToScriptTask E S job w"
    if s: "sameButContent job job'" and r: "raw' = asString S (field (payloadOf job') ''content'')"
      and m': "merged' = (if trim raw' \<noteq> [] then trim raw'
                   else case novelText episode of Some t \<Rightarrow> t | None \<Rightarrow> [])"
      and ne: "trim merged \<noteq> []" "trim merged' \<noteq> []" and tk: "take 30000 merged' = take 30000 merged"
    for job' raw' merged'
  proof -
    have mc': "mergedContent raw' (novelText episode) = merged'"
      by (simp add: mergedContent_def m' orEmpty_def)
    have "storyContent raw' (novelText episode) = storyContent raw (novelText episode)"
      by (simp add: storyContent_eq mc mc' ne tk)
    then show ?thesis
      using same_handler[OF s load model] by (simp add: r raw)
  qed
  show ?thesis
    using first same
    by (simp add: storyRun_def storyOrchestratorInput_def take_is_prefix)
qed


lemma long_jobs_fields:
  "job_projectId otherLongJob = lit ''project-1''"
  "job_userId otherLongJob = lit ''user-1''"
  "payloadOf otherLongJob = JObject [(lit ''episodeId'', JString (lit ''episode-1'')),
      (lit ''content'', JString (replicate 30000 97 @ lit ''ANOTHER END''))]"
  "job_projectId blankJob = lit ''project-1''"
  "job_userId blankJob = lit ''user-1''"
  "payloadOf blankJob = JObject [(lit ''episodeId'', JString (lit ''episode-1'')),
      (lit ''content'', JString (lit '' ''))]"
  by (simp_all add: otherLongJob_def blankJob_def testJob_def payloadOf_def)

lemma echo_loaded:
  assumes p: "job_projectId job = lit ''project-1''" and u: "job_userId job = lit ''user-1''"
    and l: "payloadOf job = JObject [(lit ''episodeId'', JString (lit ''episode-1'')),
      (lit ''content'', c)]"
  shows "storyLoad echoStoryDeps job testWorld = (Inr (testProject, testNovel, testEpisode), testLoaded)"
    and "resolveModel testEnv job (storyInputModel echoStoryDeps job)
      (parseEffort echoStoryDeps (field (payloadOf job) ''reasoningEffort'')) testLoaded =
      (Inr (lit ''llm::analysis-1'', lit ''high''), testResolved)"
proof -
  have eid: "storyEpisodeId echoStoryDeps job = lit ''episode-1''"
    by (simp add: storyEpisodeId_def echoStoryDeps_def testStoryDeps_def l trim_episode)
  show "storyLoad echoStoryDeps job testWorld = (Inr (testProject, testNovel, testEpisode), testLoaded)"
    by (rule test_storyLoad_any[OF p eid])
  show "resolveModel testEnv job (storyInputModel echoStoryDeps job)
      (parseEffort echoStoryDeps (field (payloadOf job) ''reasoningEffort'')) testLoaded =
      (Inr (lit ''llm::analysis-1'', lit ''high''), testResolved)"
    using test_resolveModel[OF p u]
    by (simp add: storyInputModel_def echoStoryDeps_def testStoryDeps_def l trim_def)
qed

lemma echo_run:
  assumes "job_projectId job = lit ''project-1''" and "job_userId job = lit ''user-1''"
    and "job_locale job = lit ''zh''"
    and "storyEpisodeId echoStoryDeps job = lit ''episode-1''"
  shows "\<exists>res w'. andThen (storyRun testEnv echoStoryDeps job C testNovel content)
      (storyFinish testEnv echoStoryDeps job testNovel) testResolved = (Inr res, w') \<and>
      promptsOf (trace w') = [content]"
  unfolding storyFinish_def assms
  by (simp add: storyRun_def storyOrchestratorInput_def echoStoryDeps_def testStoryDeps_def
      runStep_def callChatCompletion_def storyPartialFailure_def testResult_def storyPersist_def
      reportTaskProgress_def assertTaskActive_def io_defs testEnv_def tryFinally_def
      testResolved_def testWorld_def testDb_def clipIdMap_def)


text \<open>
  An orchestrator whose only prompt is the content it was given. A content of 30004 code
  units: the model is called with the first 30000, and a job whose content ends otherwise
  after them runs the same. A content of one space: the model is called with the episode's
  novel text.
\<close>

theorem C10_content_witness:
  "(\<exists>res w'. handleStoryToScriptTask testEnv echoStoryDeps longJob testWorld = (Inr res, w') \<and>
      promptsOf (trace w') = [replicate 30000 97]) \<and>
   handleStoryToScriptTask testEnv echoStoryDeps otherLongJob testWorld =
     handleStoryToScriptTask testEnv echoStoryDeps longJob testWorld \<and>
   job_payload otherLongJob \<noteq> job_payload longJob \<and>
   length longContent = 30004 \<and>
   (\<exists>res w'. handleStoryToScriptTask testEnv echoStoryDeps blankJob testWorld = (Inr res, w') \<and>
      promptsOf (trace w') = [lit ''episode text''])"
proof -
  let ?other = "replicate 30000 97 @ lit ''ANOTHER END''"
  have raw: "longContent = asString echoStoryDeps (field (payloadOf longJob) ''content'')"
    by (simp add: echoStoryDeps_def testStoryDeps_def longJob_fields)
  have ne: "longContent \<noteq> []" by (simp add: longContent_def)
  have merged: "longContent = (if trim longContent \<noteq> [] then trim longContent
      else case novelText testEpisode of Some t \<Rightarrow> t | None \<Rightarrow> [])"
    by (simp add: trim_longContent ne)
  have tk: "take 30000 longContent = replicate 30000 97" by (simp add: longContent_def)
  note long = C10_content[OF echo_loaded[OF longJob_fields(1,2,4)] raw merged]
  have eid: "storyEpisodeId echoStoryDeps job = lit ''episode-1''"
    if "payloadOf job = JObject [(lit ''episodeId'', JString (lit ''episode-1'')), (lit ''content'', c)]"
    for job c
    by (simp add: storyEpisodeId_def echoStoryDeps_def testStoryDeps_def that trim_episode)
  have loc: "job_locale longJob = lit ''zh''" "job_locale blankJob = lit ''zh''"
    by (simp_all add: longJob_def blankJob_def testJob_def)
  from long[THEN conjunct1] ne have run: "handleStoryToScriptTask testEnv echoStoryDeps longJob testWorld =
      andThen (storyRun testEnv echoStoryDeps longJob
                 (storyContext echoStoryDeps longJob (lit ''llm::analysis-1'') (lit ''high''))
                 testNovel (replicate 30000 97))
        (storyFinish testEnv echoStoryDeps longJob testNovel) testResolved"
    by (simp add: trim_longContent tk storyRun_def storyOrchestratorInput_def)
  have a: "\<exists>res w'. handleStoryToScriptTask testEnv echoStoryDeps longJob testWorld = (Inr res, w') \<and>
      promptsOf (trace w') = [replicate 30000 97]"
    unfolding run
    by (rule echo_run[OF longJob_fields(1,2) loc(1) eid[OF longJob_fields(4)]])
  have trim_other: "trim ?other = ?other"
    by (rule trim_id) (simp_all add: lit_def isWhiteSpace_def hd_append)
  have same: "sameButContent longJob otherLongJob"
  proof -
    have "lit name \<noteq> lit ''content''" if "name \<noteq> ''content''" for name
      using that lit_eq_lit[of name "''content''"] by blast
    then show ?thesis
      unfolding sameButContent_def longJob_fields long_jobs_fields
      by (simp add: longJob_def otherLongJob_def test_job_fields)
  qed
  from long have "sameButContent longJob otherLongJob \<and>
      ?other = asString echoStoryDeps (field (payloadOf otherLongJob) ''content'') \<and>
      ?other = (if trim ?other \<noteq> [] then trim ?other
                else case novelText testEpisode of Some t \<Rightarrow> t | None \<Rightarrow> []) \<and>
      trim longContent \<noteq> [] \<and> trim ?other \<noteq> [] \<and>
      take 30000 ?other = take 30000 longContent \<longrightarrow>
      handleStoryToScriptTask testEnv echoStoryDeps otherLongJob testWorld =
        handleStoryToScriptTask testEnv echoStoryDeps longJob testWorld"
    by blast
  then have b: "handleStoryToScriptTask testEnv echoStoryDeps otherLongJob testWorld =
      handleStoryToScriptTask testEnv echoStoryDeps longJob testWorld"
    using same ne
    by (simp add: trim_other trim_longContent tk echoStoryDeps_def testStoryDeps_def long_jobs_fields)
  have c: "job_payload otherLongJob \<noteq> job_payload longJob"
    by (simp add: otherLongJob_def longJob_def longContent_def lit_def)
  have d: "length longContent = 30004" by (simp add: longContent_def lit_def)
  have rawb: "lit '' '' = asString echoStoryDeps (field (payloadOf blankJob) ''content'')"
    by (simp add: echoStoryDeps_def testStoryDeps_def long_jobs_fields)
  have blank: "trim (lit '' '') = []" by (simp add: trim_def lit_def isWhiteSpace_def)
  have mergedb: "lit ''episode text'' = (if trim (lit '' '') \<noteq> [] then trim (lit '' '')
      else case novelText testEpisode of Some t \<Rightarrow> t | None \<Rightarrow> [])"
    by (simp add: blank testEpisode_def)
  have trim_text: "trim (lit ''episode text'') = lit ''episode text''"
    by (rule trim_id) (simp_all add: lit_def isWhiteSpace_def)
  note short = C10_content[OF echo_loaded[OF long_jobs_fields(4,5,6)] rawb mergedb]
  have tkb: "take 30000 (lit ''episode text'') = lit ''episode text''" by (simp add: lit_def)
  from short[THEN conjunct1] have runb: "handleStoryToScriptTask testEnv echoStoryDeps blankJob testWorld =
      andThen (storyRun testEnv echoStoryDeps blankJob
                 (storyContext echoStoryDeps blankJob (lit ''llm::analysis-1'') (lit ''high''))
                 testNovel (lit ''episode text''))
        (storyFinish testEnv echoStoryDeps blankJob testNovel) testResolved"
    by (simp add: trim_text tkb storyRun_def storyOrchestratorInput_def)
  have e: "\<exists>res w'. handleStoryToScriptTask testEnv echoStoryDeps blankJob testWorld = (Inr res, w') \<and>
      promptsOf (trace w') = [lit ''episode text'']"
    unfolding runb
    by (rule echo_run[OF long_jobs_fields(4,5) loc(2) eid[OF long_jobs_fields(6)]])
  from a b c d e show ?thesis by blast
qed

section \<open>The analysis model of a run\<close>

lemma story_configured:
  assumes load: "storyLoad S job w = (Inr (project, novel, episode), w1)"
    and config: "getProjectModelConfig E (job_projectId job) (job_userId job) (db w1) = Inr config"
    and ne: "chooseModel (storyInputModel S job) config \<noteq> []"
  shows "handleStoryToScriptTask E S job w =
     (case resolveCapabilityOptions E (job_projectId job) (job_userId job)
             (chooseModel (storyInputModel S job) config) (db w1) of
        Inl err \<Rightarrow>
          (Inl err, w1\<lparr>trace := trace w1 @ [GetProjectModelConfig (job_projectId job) (job_userId job),
             ResolveCapabilityOptions (job_projectId job) (job_userId job)
               (chooseModel (storyInputModel S job) config)]\<rparr>)
      | Inr cap \<Rightarrow>
          (case storyContent (asString S (field (payloadOf job) ''content'')) (novelText episode) of
             Inl err \<Rightarrow>
               (Inl err, w1\<lparr>trace := trace w1 @ [GetProjectModelConfig (job_projectId job) (job_userId job),
                  ResolveCapabilityOptions (job_projectId job) (job_userId job)
                    (chooseModel (storyInputModel S job) config)]\<rparr>)
           | Inr content \<Rightarrow>
               andThen (storyRun E S job
                    (storyContext S job (chooseModel (storyInputModel S job) config)
                       (chooseReasoningEffort (parseEffort S (field (payloadOf job) ''reasoningEffort'')) cap))
                    novel content)
                 (storyFinish E S job novel)
                 (w1\<lparr>trace := trace w1 @ [GetProjectModelConfig (job_projectId job) (job_userId job),
                    ResolveCapabilityOptions (job_projectId job) (job_userId job)
                      (chooseModel (storyInputModel S job) config)]\<rparr>)))"
proof -
  let ?req = "parseEffort S (field (payloadOf job) ''reasoningEffort'')"
  note m = resolveModel_configured[OF config ne, of ?req]
  show ?thesis
  proof (cases "resolveCapabilityOptions E (job_projectId job) (job_userId job)
             (chooseModel (storyInputModel S job) config) (db w1)")
    case (Inl err)
    then show ?thesis
      using m by (simp add: handleStoryToScriptTask_def storyPrepare_def andThen_def load)
  next
    case (Inr cap)
    with m have m': "resolveModel E job (storyInputModel S job) ?req w1 =
        (Inr (chooseModel (storyInputModel S job) config, chooseReasoningEffort ?req cap),
         w1\<lparr>trace := trace w1 @ [GetProjectModelConfig (job_projectId job) (job_userId job),
            ResolveCapabilityOptions (job_projectId job) (job_userId job)
              (chooseModel (storyInputModel S job) config)]\<rparr>)"
      by simp
    show ?thesis
      by (simp add: Inr handleStoryToScriptTask_def andThen_def storyPrepare_content[OF load m']
          split: sum.splits)
  qed
qed

lemma board_configured:
  assumes load: "boardLoad job w = (Inr (project, novel, episode), w1)"
    and config: "getProjectModelConfig E (job_projectId job) (job_userId job) (db w1) = Inr config"
    and ne: "chooseModel (boardInputModel job) config \<noteq> []"
  shows "handleScriptToStoryboardTask E B job w =
     (case resolveCapabilityOptions E (job_projectId job) (job_userId job)
             (chooseModel (boardInputModel job) config) (db w1) of
        Inl err \<Rightarrow>
          (Inl err, w1\<lparr>trace := trace w1 @ [GetProjectModelConfig (job_projectId job) (job_userId job),
             ResolveCapabilityOptions (job_projectId job) (job_userId job)
               (chooseModel (boardInputModel job) config)]\<rparr>)
      | Inr cap \<Rightarrow>
          andThen (boardRun E B job
               (boardContext B job (chooseModel (boardInputModel job) config)
                  (chooseReasoningEffort (b_parseEffort B (field (payloadOf job) ''reasoningEffort'')) cap))
               novel episode)
            (boardFinish E B job
               (boardContext B job (chooseModel (boardInputModel job) config)
                  (chooseReasoningEffort (b_parseEffort B (field (payloadOf job) ''reasoningEffort'')) cap))
               novel episode)
            (w1\<lparr>trace := trace w1 @ [GetProjectModelConfig (job_projectId job) (job_userId job),
               ResolveCapabilityOptions (job_projectId job) (job_userId job)
                 (chooseModel (boardInputModel job) config)]\<rparr>))"
proof -
  let ?req = "b_parseEffort B (field (payloadOf job) ''reasoningEffort'')"
  note m = resolveModel_configured[OF config ne, of ?req]
  show ?thesis
    using m
    by (simp add: handleScriptToStoryboardTask_def boardPrepare_def andThen_def load succeed_def
        split: sum.splits)
qed


text \<open>
  C5. The analysis model of both handlers. Once the inputs are loaded, the handler calls
  \<open>getProjectModelConfig\<close> with the job's project and user. The override is the
  payload's \<open>model\<close> trimmed (read by \<open>asString\<close> in the story-to-script handler, and
  taken only when it is a string in the script-to-storyboard handler), and the model is
  the override when it is not empty and the resolver's \<open>analysisModel\<close> otherwise. If both
  are empty (the resolver's is \<open>null\<close> or empty) the handler throws
  \<open>analysisModel is not configured\<close> right after the resolver's answer. If not, it does
  not: its next call is the capability resolver with that model as the model key, and the
  outcome of the run is what the capability resolver throws, or else the outcome of the
  rest of the handler run with that model, in which every model call is made with it.
\<close>

theorem C5_analysis_model:
  assumes config: "getProjectModelConfig E (job_projectId job) (job_userId job) (db w1) = Inr config"
    and override: "override = trim (asString S (field (payloadOf job) ''model''))"
    and model: "model = (if override \<noteq> [] then override
                          else case analysisModel config of Some m \<Rightarrow> m | None \<Rightarrow> [])"
    and resolved: "w2 = w1\<lparr>trace := trace w1 @
        [GetProjectModelConfig (job_projectId job) (job_userId job),
         ResolveCapabilityOptions (job_projectId job) (job_userId job) model]\<rparr>"
    and boardOverride: "override' = (case field (payloadOf job) ''model'' of JString s \<Rightarrow> trim s | _ \<Rightarrow> [])"
    and boardModel: "model' = (if override' \<noteq> [] then override'
                          else case analysisModel config of Some m \<Rightarrow> m | None \<Rightarrow> [])"
    and boardResolved: "w2' = w1\<lparr>trace := trace w1 @
        [GetProjectModelConfig (job_projectId job) (job_userId job),
         ResolveCapabilityOptions (job_projectId job) (job_userId job) model']\<rparr>"
  shows
    "(storyLoad S job w = (Inr (project, novel, episode), w1) \<longrightarrow>
      (if override = [] \<and> (analysisModel config = None \<or> analysisModel config = Some [])
       then handleStoryToScriptTask E S job w =
              (Inl (Error (lit ''analysisModel is not configured'')),
               w1\<lparr>trace := trace w1 @ [GetProjectModelConfig (job_projectId job) (job_userId job)]\<rparr>)
       else handleStoryToScriptTask E S job w =
              (case resolveCapabilityOptions E (job_projectId job) (job_userId job) model (db w1) of
                 Inl err \<Rightarrow> (Inl err, w2)
               | Inr cap \<Rightarrow>
                   (case storyContent (asString S (field (payloadOf job) ''content''))
                           (novelText episode) of
                      Inl err \<Rightarrow> (Inl err, w2)
                    | Inr content \<Rightarrow>
                        andThen (storyRun E S job
                             (storyContext S job model
                                (chooseReasoningEffort
                                   (parseEffort S (field (payloadOf job) ''reasoningEffort'')) cap))
                             novel content)
                          (storyFinish E S job novel) w2)) \<and>
            handleStoryToScriptTask E S job w \<noteq>
              (Inl (Error (lit ''analysisModel is not configured'')),
               w1\<lparr>trace := trace w1 @ [GetProjectModelConfig (job_projectId job) (job_userId job)]\<rparr>) \<and>
            (\<exists>evs. trace (snd (handleStoryToScriptTask E S job w)) = trace w2 @ evs \<and>
               list_all (usesModel model) evs))) \<and>
     (boardLoad job w = (Inr (project, novel, episode'), w1) \<longrightarrow>
      (if override' = [] \<and> (analysisModel config = None \<or> analysisModel config = Some [])
       then handleScriptToStoryboardTask E B job w =
              (Inl (Error (lit ''analysisModel is not configured'')),
               w1\<lparr>trace := trace w1 @ [GetProjectModelConfig (job_projectId job) (job_userId job)]\<rparr>)
       else handleScriptToStoryboardTask E B job w =
              (case resolveCapabilityOptions E (job_projectId job) (job_userId job) model' (db w1) of
                 Inl err \<Rightarrow> (Inl err, w2')
               | Inr cap \<Rightarrow>
                   andThen (boardRun E B job
                        (boardContext B job model'
                           (chooseReasoningEffort
                              (b_parseEffort B (field (payloadOf job) ''reasoningEffort'')) cap))
                        novel episode')
                     (boardFinish E B job
                        (boardContext B job model'
                           (chooseReasoningEffort
                              (b_parseEffort B (field (payloadOf job) ''reasoningEffort'')) cap))
                        novel episode') w2') \<and>
            handleScriptToStoryboardTask E B job w \<noteq>
              (Inl (Error (lit ''analysisModel is not configured'')),
               w1\<lparr>trace := trace w1 @ [GetProjectModelConfig (job_projectId job) (job_userId job)]\<rparr>) \<and>
            (\<exists>evs. trace (snd (handleScriptToStoryboardTask E B job w)) = trace w2' @ evs \<and>
               list_all (usesModel model') evs)))"
proof -
  have im: "storyInputModel S job = override" by (simp add: storyInputModel_def override)
  have bim: "boardInputModel job = override'" by (simp add: boardInputModel_def boardOverride)
  have choose: "chooseModel override config = model" "chooseModel override' config = model'"
    by (simp_all add: chooseModel_def orEmpty_def model boardModel)
  have empty: "chooseModel x config = [] \<longleftrightarrow>
      x = [] \<and> (analysisModel config = None \<or> analysisModel config = Some [])" for x
    by (auto simp: chooseModel_def orEmpty_def split: option.splits)
  have s: "storyLoad S job w = (Inr (project, novel, episode), w1) \<longrightarrow>
      (if override = [] \<and> (analysisModel config = None \<or> analysisModel config = Some [])
       then handleStoryToScriptTask E S job w =
              (Inl (Error (lit ''analysisModel is not configured'')),
               w1\<lparr>trace := trace w1 @ [GetProjectModelConfig (job_projectId job) (job_userId job)]\<rparr>)
       else handleStoryToScriptTask E S job w =
              (case resolveCapabilityOptions E (job_projectId job) (job_userId job) model (db w1) of
                 Inl err \<Rightarrow> (Inl err, w2)
               | Inr cap \<Rightarrow>
                   (case storyContent (asString S (field (payloadOf job) ''content''))
                           (novelText episode) of
                      Inl err \<Rightarrow> (Inl err, w2)
                    | Inr content \<Rightarrow>
                        andThen (storyRun E S job
                             (storyContext S job model
                                (chooseReasoningEffort
                                   (parseEffort S (field (payloadOf job) ''reasoningEffort'')) cap))
                             novel content)
                          (storyFinish E S job novel) w2)) \<and>
            handleStoryToScriptTask E S job w \<noteq>
              (Inl (Error (lit ''analysisModel is not configured'')),
               w1\<lparr>trace := trace w1 @ [GetProjectModelConfig (job_projectId job) (job_userId job)]\<rparr>) \<and>
            (\<exists>evs. trace (snd (handleStoryToScriptTask E S job w)) = trace w2 @ evs \<and>
               list_all (usesModel model) evs))"
  proof (intro impI)
    assume load: "storyLoad S job w = (Inr (project, novel, episode), w1)"
    let ?req = "parseEffort S (field (payloadOf job) ''reasoningEffort'')"
    show "if override = [] \<and> (analysisModel config = None \<or> analysisModel config = Some [])
       then handleStoryToScriptTask E S job w =
              (Inl (Error (lit ''analysisModel is not configured'')),
               w1\<lparr>trace := trace w1 @ [GetProjectModelConfig (job_projectId job) (job_userId job)]\<rparr>)
       else handleStoryToScriptTask E S job w =
              (case resolveCapabilityOptions E (job_projectId job) (job_userId job) model (db w1) of
                 Inl err \<Rightarrow> (Inl err, w2)
               | Inr cap \<Rightarrow>
                   (case storyContent (asString S (field (payloadOf job) ''content''))
                           (novelText episode) of
                      Inl err \<Rightarrow> (Inl err, w2)
                    | Inr content \<Rightarrow>
                        andThen (storyRun E S job
                             (storyContext S job model
                                (chooseReasoningEffort
                                   (parseEffort S (field (payloadOf job) ''reasoningEffort'')) cap))
                             novel content)
                          (storyFinish E S job novel) w2)) \<and>
            handleStoryToScriptTask E S job w \<noteq>
              (Inl (Error (lit ''analysisModel is not configured'')),
               w1\<lparr>trace := trace w1 @ [GetProjectModelConfig (job_projectId job) (job_userId job)]\<rparr>) \<and>
            (\<exists>evs. trace (snd (handleStoryToScriptTask E S job w)) = trace w2 @ evs \<and>
               list_all (usesModel model) evs)"
    proof (cases "chooseModel override config = []")
      case True
      then show ?thesis
        using resolveModel_unconfigured[OF config True, of ?req]
        by (simp add: empty handleStoryToScriptTask_def storyPrepare_def andThen_def load im)
    next
      case False
      have ne: "chooseModel (storyInputModel S job) config \<noteq> []" using False by (simp add: im)
      note m = resolveModel_configured[OF config ne, of ?req]
      have tr: "\<exists>evs. trace (snd (handleStoryToScriptTask E S job w)) = trace w2 @ evs \<and>
          list_all (usesModel model) evs"
        unfolding resolved choose(1)[symmetric] im[symmetric]
        by (rule story_after_model[OF load m]) (simp split: sum.splits)
      have eq: "handleStoryToScriptTask E S job w =
              (case resolveCapabilityOptions E (job_projectId job) (job_userId job) model (db w1) of
                 Inl err \<Rightarrow> (Inl err, w2)
               | Inr cap \<Rightarrow>
                   (case storyContent (asString S (field (payloadOf job) ''content''))
                           (novelText episode) of
                      Inl err \<Rightarrow> (Inl err, w2)
                    | Inr content \<Rightarrow>
                        andThen (storyRun E S job
                             (storyContext S job model
                                (chooseReasoningEffort
                                   (parseEffort S (field (payloadOf job) ''reasoningEffort'')) cap))
                             novel content)
                          (storyFinish E S job novel) w2))"
        using story_configured[OF load config ne] unfolding im choose resolved by simp
      have "handleStoryToScriptTask E S job w \<noteq>
              (Inl (Error (lit ''analysisModel is not configured'')),
               w1\<lparr>trace := trace w1 @ [GetProjectModelConfig (job_projectId job) (job_userId job)]\<rparr>)"
        using tr by (auto simp: resolved)
      with tr eq show ?thesis using False empty[of override] by simp
    qed
  qed
  have b: "boardLoad job w = (Inr (project, novel, episode'), w1) \<longrightarrow>
      (if override' = [] \<and> (analysisModel config = None \<or> analysisModel config = Some [])
       then handleScriptToStoryboardTask E B job w =
              (Inl (Error (lit ''analysisModel is not configured'')),
               w1\<lparr>trace := trace w1 @ [GetProjectModelConfig (job_projectId job) (job_userId job)]\<rparr>)
       else handleScriptToStoryboardTask E B job w =
              (case resolveCapabilityOptions E (job_projectId job) (job_userId job) model' (db w1) of
                 Inl err \<Rightarrow> (Inl err, w2')
               | Inr cap \<Rightarrow>
                   andThen (boardRun E B job
                        (boardContext B job model'
                           (chooseReasoningEffort
                              (b_parseEffort B (field (payloadOf job) ''reasoningEffort'')) cap))
                        novel episode')
                     (boardFinish E B job
                        (boardContext B job model'
                           (chooseReasoningEffort
                              (b_parseEffort B (field (payloadOf job) ''reasoningEffort'')) cap))
                        novel episode') w2') \<and>
            handleScriptToStoryboardTask E B job w \<noteq>
              (Inl (Error (lit ''analysisModel is not configured'')),
               w1\<lparr>trace := trace w1 @ [GetProjectModelConfig (job_projectId job) (job_userId job)]\<rparr>) \<and>
            (\<exists>evs. trace (snd (handleScriptToStoryboardTask E B job w)) = trace w2' @ evs \<and>
               list_all (usesModel model') evs))"
  proof (intro impI)
    assume load: "boardLoad job w = (Inr (project, novel, episode'), w1)"
    let ?req = "b_parseEffort B (field (payloadOf job) ''reasoningEffort'')"
    show "if override' = [] \<and> (analysisModel config = None \<or> analysisModel config = Some [])
       then handleScriptToStoryboardTask E B job w =
              (Inl (Error (lit ''analysisModel is not configured'')),
               w1\<lparr>trace := trace w1 @ [GetProjectModelConfig (job_projectId job) (job_userId job)]\<rparr>)
       else handleScriptToStoryboardTask E B job w =
              (case resolveCapabilityOptions E (job_projectId job) (job_userId job) model' (db w1) of
                 Inl err \<Rightarrow> (Inl err, w2')
               | Inr cap \<Rightarrow>
                   andThen (boardRun E B job
                        (boardContext B job model'
                           (chooseReasoningEffort
                              (b_parseEffort B (field (payloadOf job) ''reasoningEffort'')) cap))
                        novel episode')
                     (boardFinish E B job
                        (boardContext B job model'
                           (chooseReasoningEffort
                              (b_parseEffort B (field (payloadOf job) ''reasoningEffort'')) cap))
                        novel episode') w2') \<and>
            handleScriptToStoryboardTask E B job w \<noteq>
              (Inl (Error (lit ''analysisModel is not configured'')),
               w1\<lparr>trace := trace w1 @ [GetProjectModelConfig (job_projectId job) (job_userId job)]\<rparr>) \<and>
            (\<exists>evs. trace (snd (handleScriptToStoryboardTask E B job w)) = trace w2' @ evs \<and>
               list_all (usesModel model') evs)"
    proof (cases "chooseModel override' config = []")
      case True
      then show ?thesis
        using resolveModel_unconfigured[OF config True, of ?req]
        by (simp add: empty handleScriptToStoryboardTask_def boardPrepare_def andThen_def load bim)
    next
      case False
      have ne: "chooseModel (boardInputModel job) config \<noteq> []" using False by (simp add: bim)
      note m = resolveModel_configured[OF config ne, of ?req]
      have tr: "\<exists>evs. trace (snd (handleScriptToStoryboardTask E B job w)) = trace w2' @ evs \<and>
          list_all (usesModel model') evs"
        unfolding boardResolved choose(2)[symmetric] bim[symmetric]
        by (rule board_after_model[OF load m]) (simp split: sum.splits)
      have eq: "handleScriptToStoryboardTask E B job w =
              (case resolveCapabilityOptions E (job_projectId job) (job_userId job) model' (db w1) of
                 Inl err \<Rightarrow> (Inl err, w2')
               | Inr cap \<Rightarrow>
                   andThen (boardRun E B job
                        (boardContext B job model'
                           (chooseReasoningEffort
                              (b_parseEffort B (field (payloadOf job) ''reasoningEffort'')) cap))
                        novel episode')
                     (boardFinish E B job
                        (boardContext B job model'
                           (chooseReasoningEffort
                              (b_parseEffort B (field (payloadOf job) ''reasoningEffort'')) cap))
                        novel episode') w2')"
        using board_configured[OF load config ne] unfolding bim choose boardResolved by simp
      have "handleScriptToStoryboardTask E B job w \<noteq>
              (Inl (Error (lit ''analysisModel is not configured'')),
               w1\<lparr>trace := trace w1 @ [GetProjectModelConfig (job_projectId job) (job_userId job)]\<rparr>)"
        using tr by (auto simp: boardResolved)
      with tr eq show ?thesis using False empty[of override'] by simp
    qed
  qed
  show ?thesis using s b by (rule conjI)
qed


lemma override_fields:
  "job_projectId overrideJob = lit ''project-1''"
  "job_userId overrideJob = lit ''user-1''"
  "job_locale overrideJob = lit ''zh''"
  "job_episodeId overrideJob = Some (lit ''episode-1'')"
  "payloadOf overrideJob = JObject [(lit ''episodeId'', JString (lit ''episode-1'')),
      (lit ''content'', JString (lit ''input content'')),
      (lit ''model'', JString (lit '' llm::override ''))]"
  by (simp_all add: overrideJob_def testJob_def payloadOf_def)

lemma trim_override: "trim (lit '' llm::override '') = lit ''llm::override''"
  by (simp add: trim_def lit_def isWhiteSpace_def)

lemma override_loads:
  "storyLoad testStoryDeps overrideJob testWorld = (Inr (testProject, testNovel, testEpisode), testLoaded)"
  "boardLoad overrideJob testWorld = (Inr (testProject, testNovel, testEpisode), testLoaded)"
proof -
  have eid: "storyEpisodeId testStoryDeps overrideJob = lit ''episode-1''"
    by (simp add: storyEpisodeId_def testStoryDeps_def override_fields trim_episode)
  show "storyLoad testStoryDeps overrideJob testWorld =
      (Inr (testProject, testNovel, testEpisode), testLoaded)"
    by (rule test_storyLoad_any[OF override_fields(1) eid])
  have "boardEpisodeId overrideJob = lit ''episode-1''"
    by (simp add: boardEpisodeId_def override_fields trim_episode)
  then show "boardLoad overrideJob testWorld = (Inr (testProject, testNovel, testEpisode), testLoaded)"
    by (simp add: boardLoad_def loadProject_def loadEpisode_def io_defs fixture_defs testLoaded_def
        override_fields)
qed

lemma test_story_models:
  assumes "storyEpisodeId testStoryDeps job = lit ''episode-1''"
  shows "\<exists>res w'. andThen
      (storyRun (testEnv\<lparr>getProjectModelConfig := g\<rparr>) testStoryDeps job
         (storyContext testStoryDeps job m eff) testNovel content)
      (storyFinish (testEnv\<lparr>getProjectModelConfig := g\<rparr>) testStoryDeps job testNovel)
      (testLoaded\<lparr>trace := trace testLoaded @ [GetProjectModelConfig p u,
         ResolveCapabilityOptions p u m]\<rparr>) = (Inr res, w') \<and>
      modelsOf (trace w') = [m]"
  unfolding storyFinish_def assms
  by (simp add: storyRun_def storyOrchestratorInput_def testStoryDeps_def oneStep_def
      runStep_def callChatCompletion_def storyPartialFailure_def testResult_def storyPersist_def
      reportTaskProgress_def assertTaskActive_def io_defs testEnv_def tryFinally_def
      storyContext_def testLoaded_def testWorld_def testDb_def clipIdMap_def)

lemma test_board_models:
  assumes "boardEpisodeId job = lit ''episode-1''"
  shows "\<exists>res w'. andThen
      (boardRun (testEnv\<lparr>getProjectModelConfig := g\<rparr>) testBoardDeps job
         (boardContext testBoardDeps job m eff) testNovel testEpisode)
      (boardFinish (testEnv\<lparr>getProjectModelConfig := g\<rparr>) testBoardDeps job
         (boardContext testBoardDeps job m eff) testNovel testEpisode)
      (testLoaded\<lparr>trace := trace testLoaded @ [GetProjectModelConfig p u,
         ResolveCapabilityOptions p u m]\<rparr>) = (Inr res, w') \<and>
      modelsOf (trace w') = [m, m]"
  unfolding boardFinish_def assms boardVoiceAnalyze_def
  by (subst voiceLoop.simps)
     (simp add: boardRun_def testBoardDeps_def oneStep_def tryCatch_def tryFinally_def
      boardPersistStoryboards_def persistStoryboardsAndPanels_def
      voiceTry_def voicePrompt_def voiceAttemptMeta_def voiceStepMeta_def testBoardResult_def
      testEpisode_def orEmpty_def trim_def lit_def isWhiteSpace_def
      runStep_def callChatCompletion_def boardContext_def
      boardPersistVoiceLines_def transaction_def voiceLineDeleteMany_def
      voiceLineCreate_def voiceLineOfRow_def resolveMatchedPanel_def matchedPanelIndexOf_def
      matchedStoryboardIdOf_def panelIdByStoryboardPanel_def setPanels_def panelKey_def
      rowOrEmpty_def testVoiceRow_def testPanelRef_def testStoryboard_def
      reportTaskProgress_def assertTaskActive_def io_defs testEnv_def
      testLoaded_def testWorld_def testDb_def showInt_1)


text \<open>
  The two unit tests of the resolver, for both handlers: no model configured (the throw),
  and the resolver's fallback to the user's preference (a run that returns, its model
  calls made with that model). Then a payload with a model between spaces: the run
  returns and calls that model, whether the resolver has a model or not.
\<close>

theorem C5_analysis_model_witness:
  "handleStoryToScriptTask unconfiguredEnv testStoryDeps testJob testWorld =
     (Inl (Error (lit ''analysisModel is not configured'')),
      testLoaded\<lparr>trace := trace testLoaded @
        [GetProjectModelConfig (lit ''project-1'') (lit ''user-1'')]\<rparr>) \<and>
   handleScriptToStoryboardTask unconfiguredEnv testBoardDeps testJob testWorld =
     (Inl (Error (lit ''analysisModel is not configured'')),
      testLoaded\<lparr>trace := trace testLoaded @
        [GetProjectModelConfig (lit ''project-1'') (lit ''user-1'')]\<rparr>) \<and>
   (\<exists>res w'. handleStoryToScriptTask preferenceEnv testStoryDeps testJob testWorld = (Inr res, w') \<and>
      modelsOf (trace w') = [lit ''llm::user-preference-model'']) \<and>
   (\<exists>res w'. handleScriptToStoryboardTask preferenceEnv testBoardDeps testJob testWorld = (Inr res, w') \<and>
      modelsOf (trace w') = [lit ''llm::user-preference-model'', lit ''llm::user-preference-model'']) \<and>
   (\<exists>res w'. handleStoryToScriptTask unconfiguredEnv testStoryDeps overrideJob testWorld = (Inr res, w') \<and>
      modelsOf (trace w') = [lit ''llm::override'']) \<and>
   (\<exists>res w'. handleScriptToStoryboardTask preferenceEnv testBoardDeps overrideJob testWorld = (Inr res, w') \<and>
      modelsOf (trace w') = [lit ''llm::override'', lit ''llm::override''])"
proof -
  let ?pref = "lit ''llm::user-preference-model''"
  let ?over = "lit ''llm::override''"
  let ?G = "GetProjectModelConfig (lit ''project-1'') (lit ''user-1'')"
  have eid: "storyEpisodeId testStoryDeps testJob = lit ''episode-1''" by (rule test_storyEpisodeId)
  have eid': "storyEpisodeId testStoryDeps overrideJob = lit ''episode-1''"
    by (simp add: storyEpisodeId_def testStoryDeps_def override_fields trim_episode)
  have beid: "boardEpisodeId testJob = lit ''episode-1''" "boardEpisodeId overrideJob = lit ''episode-1''"
    by (simp_all add: boardEpisodeId_def test_job_fields override_fields trim_episode)
  note load = test_storyLoad_any[OF test_job_fields(1) eid]
  have envs: "unconfiguredEnv = testEnv\<lparr>getProjectModelConfig := (\<lambda>p u d. Inr \<lparr>analysisModel = None\<rparr>)\<rparr>"
    "preferenceEnv = testEnv\<lparr>getProjectModelConfig := (\<lambda>p u d. Inr \<lparr>analysisModel = Some ?pref\<rparr>)\<rparr>"
    by (simp_all add: unconfiguredEnv_def preferenceEnv_def)
  have cap: "resolveCapabilityOptions unconfiguredEnv p u m d = Inr (JString (lit ''high''))"
    "resolveCapabilityOptions preferenceEnv p u m d = Inr (JString (lit ''high''))" for p u m d
    by (simp_all add: unconfiguredEnv_def preferenceEnv_def testEnv_def)
  have content: "storyContent (asString testStoryDeps (field (payloadOf testJob) ''content''))
      (novelText testEpisode) = Inr (lit ''input content'')"
    "storyContent (asString testStoryDeps (field (payloadOf overrideJob) ''content''))
      (novelText testEpisode) = Inr (lit ''input content'')"
    by (simp_all add: storyContent_eq mergedContent_def testStoryDeps_def test_job_fields
        override_fields trim_content) (simp_all add: lit_def)
  have none: "getProjectModelConfig unconfiguredEnv (job_projectId job) (job_userId job)
      (db testLoaded) = Inr \<lparr>analysisModel = None\<rparr>" for job
    by (simp add: unconfiguredEnv_def testEnv_def)
  have pref: "getProjectModelConfig preferenceEnv (job_projectId job) (job_userId job)
      (db testLoaded) = Inr \<lparr>analysisModel = Some ?pref\<rparr>" for job
    by (simp add: preferenceEnv_def testEnv_def)
  have o1: "[] = trim (asString testStoryDeps (field (payloadOf testJob) ''model''))"
    by (simp add: testStoryDeps_def test_job_fields trim_def)
  have o2: "[] = (case field (payloadOf testJob) ''model'' of JString s \<Rightarrow> trim s | _ \<Rightarrow> [])"
    by (simp add: test_job_fields)
  have o3: "?over = trim (asString testStoryDeps (field (payloadOf overrideJob) ''model''))"
    by (simp add: testStoryDeps_def override_fields trim_override)
  have o4: "?over = (case field (payloadOf overrideJob) ''model'' of JString s \<Rightarrow> trim s | _ \<Rightarrow> [])"
    by (simp add: override_fields trim_override)
  have m1: "[] = (if ([]::jsstring) \<noteq> [] then []
      else case analysisModel \<lparr>analysisModel = None\<rparr> of Some m \<Rightarrow> m | None \<Rightarrow> [])"
    by simp
  have m2: "?pref = (if ([]::jsstring) \<noteq> [] then []
      else case analysisModel \<lparr>analysisModel = Some ?pref\<rparr> of Some m \<Rightarrow> m | None \<Rightarrow> [])"
    by simp
  have m3: "?over = (if ?over \<noteq> [] then ?over
      else case analysisModel \<lparr>analysisModel = None\<rparr> of Some m \<Rightarrow> m | None \<Rightarrow> [])"
    by simp
  have m4: "?over = (if ?over \<noteq> [] then ?over
      else case analysisModel \<lparr>analysisModel = Some ?pref\<rparr> of Some m \<Rightarrow> m | None \<Rightarrow> [])"
    by simp
  note a = C5_analysis_model[OF none o1 m1 refl o2 m1 refl, where w=testWorld
      and B=testBoardDeps and project=testProject and novel=testNovel and episode=testEpisode
      and episode'=testEpisode]
  note b = C5_analysis_model[OF pref o1 m2 refl o2 m2 refl, where w=testWorld
      and B=testBoardDeps and project=testProject and novel=testNovel and episode=testEpisode
      and episode'=testEpisode]
  note c = C5_analysis_model[OF none o3 m3 refl o4 m3 refl, where w=testWorld
      and B=testBoardDeps and project=testProject and novel=testNovel and episode=testEpisode
      and episode'=testEpisode]
  note d = C5_analysis_model[OF pref o3 m4 refl o4 m4 refl, where w=testWorld
      and B=testBoardDeps and project=testProject and novel=testNovel and episode=testEpisode
      and episode'=testEpisode]
  have p1: "handleStoryToScriptTask unconfiguredEnv testStoryDeps testJob testWorld =
     (Inl (Error (lit ''analysisModel is not configured'')), testLoaded\<lparr>trace := trace testLoaded @ [?G]\<rparr>)"
    using a[THEN conjunct1] by (simp add: load test_job_fields)
  have p2: "handleScriptToStoryboardTask unconfiguredEnv testBoardDeps testJob testWorld =
     (Inl (Error (lit ''analysisModel is not configured'')), testLoaded\<lparr>trace := trace testLoaded @ [?G]\<rparr>)"
    using a[THEN conjunct2] by (simp add: test_boardLoad test_job_fields)
  have content': "storyContent (asString testStoryDeps (JString (lit ''input content'')))
      (novelText testEpisode) = Inr (lit ''input content'')"
    using content(1) by (simp add: test_job_fields)
  let ?R = "\<lambda>m. testLoaded\<lparr>trace := trace testLoaded @ [?G,
      ResolveCapabilityOptions (lit ''project-1'') (lit ''user-1'') m]\<rparr>"
  let ?eff = "\<lambda>job. chooseReasoningEffort
      (parseEffort testStoryDeps (field (payloadOf job) ''reasoningEffort'')) (JString (lit ''high''))"
  let ?beff = "\<lambda>job. chooseReasoningEffort
      (b_parseEffort testBoardDeps (field (payloadOf job) ''reasoningEffort'')) (JString (lit ''high''))"
  have e3: "handleStoryToScriptTask preferenceEnv testStoryDeps testJob testWorld =
      andThen (storyRun preferenceEnv testStoryDeps testJob
                 (storyContext testStoryDeps testJob ?pref (?eff testJob)) testNovel (lit ''input content''))
        (storyFinish preferenceEnv testStoryDeps testJob testNovel) (?R ?pref)"
    using b[THEN conjunct1] by (simp add: load cap content' test_job_fields)
  have p3: "\<exists>res w'. handleStoryToScriptTask preferenceEnv testStoryDeps testJob testWorld = (Inr res, w') \<and>
      modelsOf (trace w') = [?pref]"
    by (subst e3, unfold envs, rule test_story_models[OF eid])
  have e4: "handleScriptToStoryboardTask preferenceEnv testBoardDeps testJob testWorld =
      andThen (boardRun preferenceEnv testBoardDeps testJob
                 (boardContext testBoardDeps testJob ?pref (?beff testJob)) testNovel testEpisode)
        (boardFinish preferenceEnv testBoardDeps testJob
                 (boardContext testBoardDeps testJob ?pref (?beff testJob)) testNovel testEpisode)
        (?R ?pref)"
    using b[THEN conjunct2] by (simp add: test_boardLoad cap test_job_fields)
  have p4: "\<exists>res w'. handleScriptToStoryboardTask preferenceEnv testBoardDeps testJob testWorld = (Inr res, w') \<and>
      modelsOf (trace w') = [?pref, ?pref]"
    by (subst e4, unfold envs, rule test_board_models[OF beid(1)])
  have e5: "handleStoryToScriptTask unconfiguredEnv testStoryDeps overrideJob testWorld =
      andThen (storyRun unconfiguredEnv testStoryDeps overrideJob
                 (storyContext testStoryDeps overrideJob ?over (?eff overrideJob)) testNovel
                 (lit ''input content''))
        (storyFinish unconfiguredEnv testStoryDeps overrideJob testNovel) (?R ?over)"
    using c[THEN conjunct1] by (simp add: override_loads cap content' override_fields)
  have p5: "\<exists>res w'. handleStoryToScriptTask unconfiguredEnv testStoryDeps overrideJob testWorld = (Inr res, w') \<and>
      modelsOf (trace w') = [?over]"
    by (subst e5, unfold envs, rule test_story_models[OF eid'])
  have e6: "handleScriptToStoryboardTask preferenceEnv testBoardDeps overrideJob testWorld =
      andThen (boardRun preferenceEnv testBoardDeps overrideJob
                 (boardContext testBoardDeps overrideJob ?over (?beff overrideJob)) testNovel testEpisode)
        (boardFinish preferenceEnv testBoardDeps overrideJob
                 (boardContext testBoardDeps overrideJob ?over (?beff overrideJob)) testNovel testEpisode)
        (?R ?over)"
    using d[THEN conjunct2] by (simp add: override_loads cap override_fields)
  have p6: "\<exists>res w'. handleScriptToStoryboardTask preferenceEnv testBoardDeps overrideJob testWorld = (Inr res, w') \<and>
      modelsOf (trace w') = [?over, ?over]"
    by (subst e6, unfold envs, rule test_board_models[OF beid(2)])
  from p1 p2 p3 p4 p5 p6 show ?thesis by blast
qed

end
